theory Spec2Isabelle
  imports Main "HOL-Library.Sublist"
begin

section \<open>JavaScript values as the handlers read them\<close>

text \<open>
  A request body is a parsed JSON object. The fields the handlers read are declared as
  strings that may be null (\<^verbatim>\<open>OrderInsert\<close> and \<^verbatim>\<open>OrderUpdate\<close> in
  \<^verbatim>\<open>types/database.ts\<close>, the cast of \<^verbatim>\<open>req.body\<close> in \<^verbatim>\<open>routes/history.ts\<close>), and a key
  that is absent reads as \<^verbatim>\<open>undefined\<close>; numbers, booleans, arrays and objects, which no
  declared field takes, are left out. An object is a finite map from keys to values. A
  string is a list of characters with codes below 256, each of them one UTF-16 code unit,
  so that the length of the list is \<^verbatim>\<open>.length\<close>; texts with other characters are left out.
\<close>

datatype jsval = JUndefined | JNull | JStr string

type_synonym jsobject = "string \<rightharpoonup> jsval"

text \<open>\<^verbatim>\<open>obj.k\<close>: reading a property; a missing key gives \<^verbatim>\<open>undefined\<close>.\<close>

definition js_get :: "jsobject \<Rightarrow> string \<Rightarrow> jsval" where
  "js_get obj k = (case obj k of None \<Rightarrow> JUndefined | Some v \<Rightarrow> v)"

text \<open>JavaScript's ToBoolean: \<^verbatim>\<open>undefined\<close>, \<^verbatim>\<open>null\<close> and the empty string are falsy.\<close>

definition truthy :: "jsval \<Rightarrow> bool" where
  "truthy v = (case v of JStr s \<Rightarrow> s \<noteq> [] | _ \<Rightarrow> False)"

text \<open>\<^verbatim>\<open>a || b\<close> and \<^verbatim>\<open>a ?? b\<close>.\<close>

definition js_or :: "jsval \<Rightarrow> jsval \<Rightarrow> jsval" where
  "js_or a b = (if truthy a then a else b)"

definition nullish_or :: "jsval \<Rightarrow> jsval \<Rightarrow> jsval" where
  "nullish_or a b = (case a of JUndefined \<Rightarrow> b | JNull \<Rightarrow> b | _ \<Rightarrow> a)"

text \<open>String conversion inside a template literal.\<close>

definition to_string :: "jsval \<Rightarrow> string" where
  "to_string v = (case v of JStr s \<Rightarrow> s | JNull \<Rightarrow> ''null'' | JUndefined \<Rightarrow> ''undefined'')"

text \<open>\<^verbatim>\<open>toUpperCase\<close> on the ASCII letters (the statuses are ASCII words).\<close>

definition upper_char :: "char \<Rightarrow> char" where
  "upper_char c =
     (let n = (of_char c :: nat) in if 97 \<le> n \<and> n \<le> 122 then char_of (n - 32) else c)"

definition toUpperCase :: "string \<Rightarrow> string" where
  "toUpperCase s = map upper_char s"


section \<open>The schema of \<^verbatim>\<open>database/setup.sql\<close> and the migrations\<close>

type_synonym timestamp = string

text \<open>\<^verbatim>\<open>public.orders\<close>, with the \<^verbatim>\<open>image\<close> column the later migration adds.\<close>

record order_row =
  o_id :: string
  o_customer_name :: string
  o_order_details :: string
  o_location :: "string option"
  o_phone_number :: "string option"
  o_pickup_date :: "string option"
  o_meta_business_link :: "string option"
  o_image :: "string option"
  o_status :: string
  o_created_at :: timestamp
  o_completed_at :: "timestamp option"
  o_created_by :: "string option"
  o_updated_at :: timestamp

text \<open>\<^verbatim>\<open>public.user_profiles\<close> (the two timestamp columns are not read by any handler
  modelled here and are left out).\<close>

record profile_row =
  p_id :: string
  p_username :: string
  p_role :: string
  p_password_hash :: "string option"

text \<open>\<^verbatim>\<open>public.notifications\<close> and \<^verbatim>\<open>public.order_history\<close>; the generated \<^verbatim>\<open>id\<close> and
  \<^verbatim>\<open>created_at\<close> of a notification are not read by the code and are left out.\<close>

record notification_row =
  n_user_id :: string
  n_title :: string
  n_message :: string
  n_type :: string
  n_order_id :: "string option"
  n_read :: bool

record history_row =
  h_id :: string
  h_order_id :: string
  h_user_id :: "string option"
  h_event_type :: string
  h_old_status :: "string option"
  h_new_status :: "string option"
  h_note :: "string option"
  h_created_at :: timestamp

record db =
  orders :: "order_row list"
  user_profiles :: "profile_row list"
  notifications :: "notification_row list"
  order_history :: "history_row list"

text \<open>The CHECK constraints.\<close>

definition order_statuses :: "string list" where
  "order_statuses = [''incoming'', ''accepted'', ''declined'', ''pending'', ''completed'']"

definition status_check :: "string \<Rightarrow> bool" where
  "status_check s = (s \<in> set order_statuses)"

definition role_check :: "string \<Rightarrow> bool" where
  "role_check r = (r \<in> set [''viewer'', ''admin''])"

definition notification_type_check :: "string \<Rightarrow> bool" where
  "notification_type_check t = (t \<in> set [''info'', ''success'', ''warning'', ''error'', ''order''])"

definition event_type_check :: "string \<Rightarrow> bool" where
  "event_type_check t = (t \<in> set [''status_change'', ''note'', ''view'', ''manual''])"


section \<open>Statistics: \<^verbatim>\<open>GET /api/orders/stats/summary\<close>\<close>

record stats =
  st_total :: nat
  st_incoming :: nat
  st_pending :: nat
  st_accepted :: nat
  st_declined :: nat
  st_completed :: nat

text \<open>
  The query selects the \<^verbatim>\<open>status\<close> column of every order; \<^verbatim>\<open>orders\<close> may be null, in which
  case every count is \<^verbatim>\<open>0\<close> (\<^verbatim>\<open>orders?.length || 0\<close>).
\<close>

definition count_status :: "string list option \<Rightarrow> string \<Rightarrow> nat" where
  "count_status rows s =
     (case rows of None \<Rightarrow> 0 | Some xs \<Rightarrow> length (filter (\<lambda>o_st. o_st = s) xs))"

definition stats_summary :: "string list option \<Rightarrow> stats" where
  "stats_summary rows =
     \<lparr> st_total = (case rows of None \<Rightarrow> 0 | Some xs \<Rightarrow> length xs),
       st_incoming = count_status rows ''incoming'',
       st_pending = count_status rows ''pending'',
       st_accepted = count_status rows ''accepted'',
       st_declined = count_status rows ''declined'',
       st_completed = count_status rows ''completed'' \<rparr>"


section \<open>The store: calls, errors and faults\<close>

text \<open>
  A call of the store client resolves to \<^verbatim>\<open>{data, error}\<close> or rejects. The handlers read
  \<^verbatim>\<open>error.code\<close> and \<^verbatim>\<open>error.message\<close>. The message texts are the store's own; the ones
  written here stand for them.
\<close>

datatype pg_error = PgError (err_code: string) (err_message: string)

datatype 'a call = Returned 'a | Failed pg_error | Thrown string

definition no_rows_error :: pg_error where
  "no_rows_error = PgError ''PGRST116'' ''JSON object requested, multiple (or no) rows returned''"

definition not_null_violation :: "string \<Rightarrow> pg_error" where
  "not_null_violation c = PgError ''23502'' (''null value in column '' @ c)"

definition check_violation :: "string \<Rightarrow> pg_error" where
  "check_violation c = PgError ''23514'' (''check constraint violated on '' @ c)"

definition unique_violation :: "string \<Rightarrow> pg_error" where
  "unique_violation c = PgError ''23505'' (''duplicate key value on '' @ c)"

definition foreign_key_violation :: "string \<Rightarrow> pg_error" where
  "foreign_key_violation c = PgError ''23503'' (''foreign key constraint violated on '' @ c)"

definition unknown_column :: "string \<Rightarrow> pg_error" where
  "unknown_column c = PgError ''PGRST204'' (''could not find the column '' @ c)"

definition invalid_uuid :: "string \<Rightarrow> pg_error" where
  "invalid_uuid s = PgError ''22P02'' (''invalid input syntax for type uuid: '' @ s)"

definition invalid_datetime :: "string \<Rightarrow> pg_error" where
  "invalid_datetime c = PgError ''22007'' (''invalid input syntax for the type of '' @ c)"

text \<open>
  What the schema does not decide (the network, a row that row-level security hides from
  the anonymous client) is a fault of the call site: the call then reports an error or
  rejects, and the tables stay as they were. The handlers below write through the
  service-role client, which the policies let through; only the username checks and the
  profile update of \<^verbatim>\<open>register\<close> go through the anonymous client.
\<close>

datatype fault = NoFault | Fails pg_error | Throws string

definition with_fault :: "fault \<Rightarrow> (db \<Rightarrow> 'a call \<times> db) \<Rightarrow> db \<Rightarrow> 'a call \<times> db" where
  "with_fault f run d =
     (case f of NoFault \<Rightarrow> run d | Fails er \<Rightarrow> (Failed er, d) | Throws m \<Rightarrow> (Thrown m, d))"

text \<open>
  The server's surroundings during one request: whether \<^verbatim>\<open>supabaseAdmin\<close> is not null
  (\<^verbatim>\<open>SUPABASE_SERVICE_ROLE_KEY\<close> is set), the value of \<^verbatim>\<open>NOW()\<close>, the value
  \<^verbatim>\<open>gen_random_uuid()\<close> yields, and how the store reads a text sent for a
  \<^verbatim>\<open>TIMESTAMPTZ\<close> and for a \<^verbatim>\<open>DATE\<close> column: the value as the store keeps and renders it,
  or nothing for a text it refuses (the spellings it takes, the time zone and the date
  style of the session are the store's and are not written out here).
\<close>

record env =
  admin_client :: bool
  now :: timestamp
  fresh_id :: string
  timestamptz_in :: "string \<Rightarrow> timestamp option"
  date_in :: "string \<Rightarrow> string option"

subsection \<open>Reading a uuid\<close>

text \<open>
  The \<^verbatim>\<open>id\<close> columns are of type \<^verbatim>\<open>UUID\<close>: a text compared with one is read as a uuid
  first. The store takes sixteen bytes of two hexadecimal digits of either case, a hyphen
  being allowed after every second byte but the last, the whole optionally in braces,
  and keeps the value in lower case in the groups 8-4-4-4-12. A text it cannot read is an
  error of the query.
\<close>

definition is_hex :: "char \<Rightarrow> bool" where
  "is_hex c =
     (let n = (of_char c :: nat)
      in (48 \<le> n \<and> n \<le> 57) \<or> (97 \<le> n \<and> n \<le> 102) \<or> (65 \<le> n \<and> n \<le> 70))"

definition lower_char :: "char \<Rightarrow> char" where
  "lower_char c =
     (let n = (of_char c :: nat) in if 65 \<le> n \<and> n \<le> 90 then char_of (n + 32) else c)"

text \<open>\<^verbatim>\<open>k\<close> bytes are still to be read; the byte being read has the index \<^verbatim>\<open>16 - k\<close>.\<close>

fun uuid_bytes :: "nat \<Rightarrow> string \<Rightarrow> (string \<times> string) option" where
  "uuid_bytes 0 s = Some ([], s)"
| "uuid_bytes (Suc k) s =
     (case s of
        a # b # rest \<Rightarrow>
          if is_hex a \<and> is_hex b then
            (case uuid_bytes k
                    (case rest of
                       c # t \<Rightarrow> if c = CHR ''-'' \<and> odd (15 - k) \<and> 15 - k < 15 then t else rest
                     | [] \<Rightarrow> rest) of
               None \<Rightarrow> None
             | Some (ds, s') \<Rightarrow> Some (lower_char a # lower_char b # ds, s'))
          else None
      | _ \<Rightarrow> None)"

definition uuid_out :: "string \<Rightarrow> string" where
  "uuid_out ds =
     take 8 ds @ ''-'' @ take 4 (drop 8 ds) @ ''-'' @ take 4 (drop 12 ds) @ ''-''
     @ take 4 (drop 16 ds) @ ''-'' @ drop 20 ds"

definition uuid_in :: "string \<Rightarrow> string option" where
  "uuid_in s =
     (let braces = (case s of c # t \<Rightarrow> c = CHR ''{'' | [] \<Rightarrow> False)
      in case uuid_bytes 16 (if braces then tl s else s) of
           None \<Rightarrow> None
         | Some (ds, rest) \<Rightarrow>
             if rest = (if braces then ''}'' else []) then Some (uuid_out ds) else None)"

subsection \<open>Triggers of \<^verbatim>\<open>public.orders\<close>\<close>

definition handle_order_completion :: "timestamp \<Rightarrow> order_row \<Rightarrow> order_row \<Rightarrow> order_row" where
  "handle_order_completion t old new =
     (if o_status new = ''completed'' \<and> o_status old \<noteq> ''completed''
      then new\<lparr>o_completed_at := Some t\<rparr>
      else if o_status new \<noteq> ''completed'' then new\<lparr>o_completed_at := None\<rparr>
      else new)"

text \<open>\<^verbatim>\<open>on_order_status_change\<close>: BEFORE UPDATE, WHEN (OLD.status IS DISTINCT FROM NEW.status).\<close>

definition on_order_status_change :: "timestamp \<Rightarrow> order_row \<Rightarrow> order_row \<Rightarrow> order_row" where
  "on_order_status_change t old new =
     (if o_status old \<noteq> o_status new then handle_order_completion t old new else new)"

definition update_updated_at_column :: "timestamp \<Rightarrow> order_row \<Rightarrow> order_row" where
  "update_updated_at_column t new = new\<lparr>o_updated_at := t\<rparr>"

subsection \<open>Writing the columns of an order\<close>

definition text_column :: "jsval \<Rightarrow> string option" where
  "text_column v = (case v of JStr s \<Rightarrow> Some s | _ \<Rightarrow> None)"

text \<open>A text for a \<^verbatim>\<open>DATE\<close> or \<^verbatim>\<open>TIMESTAMPTZ\<close> column goes through the store's reader.\<close>

definition typed_column ::
  "(string \<Rightarrow> string option) \<Rightarrow> string \<Rightarrow> jsval \<Rightarrow> pg_error + string option" where
  "typed_column reader c v =
     (case v of
        JStr s \<Rightarrow> (case reader s of None \<Rightarrow> Inl (invalid_datetime c) | Some x \<Rightarrow> Inr (Some x))
      | _ \<Rightarrow> Inr None)"

text \<open>What such a column holds once the store has taken the value.\<close>

definition column_value :: "(string \<Rightarrow> string option) \<Rightarrow> jsval \<Rightarrow> string option" where
  "column_value reader v = (case v of JStr s \<Rightarrow> reader s | _ \<Rightarrow> None)"

text \<open>
  One key of the JSON payload. A key whose value is \<^verbatim>\<open>undefined\<close> is not sent at all; null
  in a NOT NULL column is refused. \<^verbatim>\<open>created_by\<close> is the caller's identity id, which is the
  provider's and never a text of the request.
\<close>

definition set_order_column ::
  "env \<Rightarrow> string \<Rightarrow> jsval \<Rightarrow> order_row \<Rightarrow> pg_error + order_row" where
  "set_order_column e c v r =
     (if v = JUndefined then Inr r
      else if c = ''customer_name'' then
        (case text_column v of None \<Rightarrow> Inl (not_null_violation c)
         | Some s \<Rightarrow> Inr (r\<lparr>o_customer_name := s\<rparr>))
      else if c = ''order_details'' then
        (case text_column v of None \<Rightarrow> Inl (not_null_violation c)
         | Some s \<Rightarrow> Inr (r\<lparr>o_order_details := s\<rparr>))
      else if c = ''location'' then Inr (r\<lparr>o_location := text_column v\<rparr>)
      else if c = ''phone_number'' then Inr (r\<lparr>o_phone_number := text_column v\<rparr>)
      else if c = ''pickup_date'' then
        (case typed_column (date_in e) c v of Inl er \<Rightarrow> Inl er
         | Inr x \<Rightarrow> Inr (r\<lparr>o_pickup_date := x\<rparr>))
      else if c = ''meta_business_link'' then Inr (r\<lparr>o_meta_business_link := text_column v\<rparr>)
      else if c = ''image'' then Inr (r\<lparr>o_image := text_column v\<rparr>)
      else if c = ''status'' then
        (case text_column v of None \<Rightarrow> Inl (not_null_violation c)
         | Some s \<Rightarrow> Inr (r\<lparr>o_status := s\<rparr>))
      else if c = ''completed_at'' then
        (case typed_column (timestamptz_in e) c v of Inl er \<Rightarrow> Inl er
         | Inr x \<Rightarrow> Inr (r\<lparr>o_completed_at := x\<rparr>))
      else if c = ''created_by'' then Inr (r\<lparr>o_created_by := text_column v\<rparr>)
      else Inl (unknown_column c))"

fun set_order_columns ::
  "env \<Rightarrow> (string \<times> jsval) list \<Rightarrow> order_row \<Rightarrow> pg_error + order_row" where
  "set_order_columns e [] r = Inr r"
| "set_order_columns e ((c, v) # cs) r =
     (case set_order_column e c v r of
        Inl er \<Rightarrow> Inl er
      | Inr r' \<Rightarrow> set_order_columns e cs r')"

text \<open>Reading a key of an object the handler has built (\<^verbatim>\<open>updateData.status\<close>).\<close>

definition lookup :: "(string \<times> jsval) list \<Rightarrow> string \<Rightarrow> jsval" where
  "lookup obj k = (case map_of obj k of None \<Rightarrow> JUndefined | Some v \<Rightarrow> v)"

subsection \<open>The queries the handlers send\<close>

text \<open>\<^verbatim>\<open>from('orders').select('*').eq('id', id).single()\<close>: exactly one row, or PGRST116.\<close>

definition select_order_single :: "string \<Rightarrow> db \<Rightarrow> order_row call \<times> db" where
  "select_order_single i d =
     (case uuid_in i of
        None \<Rightarrow> (Failed (invalid_uuid i), d)
      | Some u \<Rightarrow>
          (case filter (\<lambda>r. o_id r = u) (orders d) of
             [r] \<Rightarrow> (Returned r, d)
           | _ \<Rightarrow> (Failed no_rows_error, d)))"

text \<open>
  \<^verbatim>\<open>from('orders').update(updateData).eq('id', id).select().single()\<close>. The row keeps the
  columns the payload does not name; the BEFORE UPDATE triggers run
  (\<^verbatim>\<open>on_order_status_change\<close>, then \<^verbatim>\<open>update_orders_updated_at\<close>), then the CHECK on
  \<^verbatim>\<open>status\<close>. \<^verbatim>\<open>id\<close> is the primary key, so one row matches at most; no row gives PGRST116.
\<close>

definition update_order_single ::
  "env \<Rightarrow> string \<Rightarrow> (string \<times> jsval) list \<Rightarrow> db \<Rightarrow> order_row call \<times> db" where
  "update_order_single e i updateData d =
     (case uuid_in i of
        None \<Rightarrow> (Failed (invalid_uuid i), d)
      | Some u \<Rightarrow>
          (case find (\<lambda>r. o_id r = u) (orders d) of
             None \<Rightarrow> (Failed no_rows_error, d)
           | Some old \<Rightarrow>
               (case set_order_columns e updateData old of
                  Inl er \<Rightarrow> (Failed er, d)
                | Inr new0 \<Rightarrow>
                    (let new = update_updated_at_column (now e)
                                 (on_order_status_change (now e) old new0)
                     in if \<not> status_check (o_status new)
                        then (Failed (check_violation ''status''), d)
                        else (Returned new,
                              d\<lparr>orders := map (\<lambda>r. if o_id r = u then new else r)
                                              (orders d)\<rparr>)))))"

text \<open>
  \<^verbatim>\<open>from('orders').insert(orderData).select().single()\<close>: \<^verbatim>\<open>id\<close>, \<^verbatim>\<open>created_at\<close> and
  \<^verbatim>\<open>updated_at\<close> take their defaults, \<^verbatim>\<open>status\<close> defaults to \<^verbatim>\<open>incoming\<close>,
  \<^verbatim>\<open>customer_name\<close> and \<^verbatim>\<open>order_details\<close> have no default. No trigger fires on INSERT.
\<close>

definition insert_order_single :: "env \<Rightarrow> (string \<times> jsval) list \<Rightarrow> db \<Rightarrow> order_row call \<times> db" where
  "insert_order_single e orderData d =
     (if text_column (lookup orderData ''customer_name'') = None
        then (Failed (not_null_violation ''customer_name''), d)
      else if text_column (lookup orderData ''order_details'') = None
        then (Failed (not_null_violation ''order_details''), d)
      else
        (case set_order_columns e orderData
                \<lparr> o_id = fresh_id e, o_customer_name = [], o_order_details = [],
                  o_location = None, o_phone_number = None, o_pickup_date = None,
                  o_meta_business_link = None, o_image = None, o_status = ''incoming'',
                  o_created_at = now e, o_completed_at = None, o_created_by = None,
                  o_updated_at = now e \<rparr> of
           Inl er \<Rightarrow> (Failed er, d)
         | Inr new \<Rightarrow>
             if \<not> status_check (o_status new) then (Failed (check_violation ''status''), d)
             else if fresh_id e \<in> set (map o_id (orders d)) then (Failed (unique_violation ''id''), d)
             else (Returned new, d\<lparr>orders := orders d @ [new]\<rparr>)))"

text \<open>
  \<^verbatim>\<open>from('orders').delete().eq('id', id)\<close>: removes the rows that match and reports no
  error when none does; a text that is no uuid is an error. The notifications and history
  records of the order go with it (ON DELETE CASCADE).
\<close>

definition delete_order :: "string \<Rightarrow> db \<Rightarrow> unit call \<times> db" where
  "delete_order i d =
     (case uuid_in i of
        None \<Rightarrow> (Failed (invalid_uuid i), d)
      | Some u \<Rightarrow>
          (Returned (),
           d\<lparr> orders := filter (\<lambda>r. o_id r \<noteq> u) (orders d),
              notifications := filter (\<lambda>n. n_order_id n \<noteq> Some u) (notifications d),
              order_history := filter (\<lambda>h. h_order_id h \<noteq> u) (order_history d) \<rparr>))"

text \<open>\<^verbatim>\<open>from('user_profiles').select('id').eq('role', 'admin')\<close>.\<close>

definition select_admin_ids :: "db \<Rightarrow> string list call \<times> db" where
  "select_admin_ids d =
     (Returned (map p_id (filter (\<lambda>p. p_role p = ''admin'') (user_profiles d))), d)"

text \<open>\<^verbatim>\<open>from('notifications').insert(notifications)\<close>: all rows or none.\<close>

definition insert_notifications :: "notification_row list \<Rightarrow> db \<Rightarrow> unit call \<times> db" where
  "insert_notifications rows d =
     (if list_all (\<lambda>n. notification_type_check (n_type n)) rows
      then (Returned (), d\<lparr>notifications := notifications d @ rows\<rparr>)
      else (Failed (check_violation ''type''), d))"


section \<open>Responses and the authenticated user\<close>

text \<open>
  \<^verbatim>\<open>res.status(c).json(...)\<close>: an error body \<^verbatim>\<open>{error, details?}\<close>, a bare \<^verbatim>\<open>{message}\<close>, or
  a message with the order, the history record or the new user.
\<close>

record user_view =
  v_id :: string
  v_email :: "string option"
  v_username :: string
  v_role :: string

datatype response =
    ErrorJson nat string "string option"
  | MessageJson nat string
  | OrderJson nat string order_row
  | HistoryJson nat string history_row
  | UserJson nat string user_view

fun status_code :: "response \<Rightarrow> nat" where
  "status_code (ErrorJson c _ _) = c"
| "status_code (MessageJson c _) = c"
| "status_code (OrderJson c _ _) = c"
| "status_code (HistoryJson c _ _) = c"
| "status_code (UserJson c _ _) = c"

text \<open>\<^verbatim>\<open>req.user\<close>, as \<^verbatim>\<open>authenticate\<close> sets it.\<close>

record req_user =
  u_id :: string
  u_email :: "string option"
  u_role :: string

datatype 'a middleware = Respond response | Next 'a

definition requireAdmin :: "req_user option \<Rightarrow> req_user middleware" where
  "requireAdmin user =
     (case user of
        None \<Rightarrow> Respond (ErrorJson 401 ''Authentication required'' None)
      | Some u \<Rightarrow>
          if u_role u \<noteq> ''admin'' then Respond (ErrorJson 403 ''Admin access required'' None)
          else Next u)"


section \<open>\<^verbatim>\<open>routes/orders.ts\<close>\<close>

subsection \<open>\<^verbatim>\<open>createNotificationForAdmins\<close>\<close>

text \<open>
  The whole body after the null check is inside \<^verbatim>\<open>try\<close>; nothing leaves the function but
  \<^verbatim>\<open>void\<close>. The two faults are those of the admin query and of the insert.
\<close>

definition createNotificationForAdmins ::
  "env \<Rightarrow> fault \<Rightarrow> fault \<Rightarrow> string \<Rightarrow> string \<Rightarrow> string \<Rightarrow> string option \<Rightarrow> string option
     \<Rightarrow> db \<Rightarrow> db" where
  "createNotificationForAdmins e f_admins f_insert title message type orderId excludeUserId d =
     (if \<not> admin_client e then d
      else
        (case with_fault f_admins select_admin_ids d of
           (Thrown m, d1) \<Rightarrow> d1
         | (Failed er, d1) \<Rightarrow> d1
         | (Returned admins, d1) \<Rightarrow>
             if admins = [] then d1
             else
               (let adminsToNotify =
                      (case excludeUserId of
                         None \<Rightarrow> admins
                       | Some x \<Rightarrow> if x \<noteq> [] then filter (\<lambda>a. a \<noteq> x) admins else admins)
                in if adminsToNotify = [] then d1
                   else
                     (let rows =
                            map (\<lambda>a. \<lparr> n_user_id = a, n_title = title, n_message = message,
                                       n_type = type,
                                       n_order_id =
                                         (case orderId of None \<Rightarrow> None
                                          | Some x \<Rightarrow> if x \<noteq> [] then Some x else None),
                                       n_read = False \<rparr>)
                                adminsToNotify
                      in snd (with_fault f_insert (insert_notifications rows) d1)))))"

subsection \<open>\<^verbatim>\<open>PUT /api/orders/:id\<close>\<close>

definition copy_defined :: "jsobject \<Rightarrow> string \<Rightarrow> (string \<times> jsval) list" where
  "copy_defined body k = (if js_get body k \<noteq> JUndefined then [(k, js_get body k)] else [])"

definition build_update_data :: "bool \<Rightarrow> jsobject \<Rightarrow> (string \<times> jsval) list" where
  "build_update_data isAdmin body =
     copy_defined body ''customer_name'' @ copy_defined body ''order_details''
     @ copy_defined body ''location'' @ copy_defined body ''phone_number''
     @ copy_defined body ''pickup_date'' @ copy_defined body ''meta_business_link''
     @ copy_defined body ''image'' @ copy_defined body ''status''
     @ (if isAdmin \<and> js_get body ''completed_at'' \<noteq> JUndefined
        then [(''completed_at'', js_get body ''completed_at'')] else [])"

text \<open>The keys every caller may write.\<close>

definition common_keys :: "string list" where
  "common_keys = [''customer_name'', ''order_details'', ''location'', ''phone_number'',
     ''pickup_date'', ''meta_business_link'', ''image'', ''status'']"

definition statusMessages :: "(string \<times> string) list" where
  "statusMessages =
     [(''incoming'', ''Order moved to incoming''), (''pending'', ''Order moved to pending''),
      (''accepted'', ''Order moved to accepted''), (''declined'', ''Order moved to declined''),
      (''completed'', ''Order moved to completed'')]"

definition statusMessage :: "string \<Rightarrow> string" where
  "statusMessage newStatus =
     (case map_of statusMessages newStatus of
        Some m \<Rightarrow> m
      | None \<Rightarrow> ''Order status changed to '' @ newStatus)"

definition moved_title :: "string \<Rightarrow> string" where
  "moved_title newStatus = ''Order Moved: '' @ toUpperCase newStatus"

definition moved_message :: "order_row \<Rightarrow> string \<Rightarrow> string" where
  "moved_message order newStatus =
     ''Order for '' @ o_customer_name order @ '' - '' @ statusMessage newStatus @ ''. ''
     @ (if o_order_details order \<noteq> [] then ''Details: '' @ o_order_details order else [])"

definition moved_type :: "string \<Rightarrow> string" where
  "moved_type newStatus =
     (if newStatus = ''completed'' then ''success''
      else if newStatus = ''declined'' then ''warning'' else ''order'')"

text \<open>The two notification branches after the update has returned its row.\<close>

definition notify_after_update ::
  "env \<Rightarrow> fault \<Rightarrow> fault \<Rightarrow> bool \<Rightarrow> order_row option \<Rightarrow> (string \<times> jsval) list \<Rightarrow> order_row
     \<Rightarrow> db \<Rightarrow> db" where
  "notify_after_update e f_admins f_insert isAdmin oldOrder updateData order d =
     (if truthy (lookup updateData ''status'') then
        (let oldStatus = (case oldOrder of None \<Rightarrow> JUndefined | Some r \<Rightarrow> JStr (o_status r));
             newStatus = lookup updateData ''status''
         in if oldStatus \<noteq> newStatus then
              createNotificationForAdmins e f_admins f_insert
                (moved_title (to_string newStatus)) (moved_message order (to_string newStatus))
                (moved_type (to_string newStatus)) (Some (o_id order)) None d
            else d)
      else if isAdmin then
        createNotificationForAdmins e f_admins f_insert
          ''Order Updated'' (''Order for '' @ o_customer_name order @ '' has been updated'')
          ''info'' (Some (o_id order)) None d
      else d)"

record put_faults =
  old_order_fetch :: fault
  order_update :: fault
  admin_lookup :: fault
  notification_insert :: fault

text \<open>The update itself and what follows it; \<^verbatim>\<open>oldOrder\<close> is what the first query gave.\<close>

definition put_order_update ::
  "env \<Rightarrow> put_faults \<Rightarrow> bool \<Rightarrow> string \<Rightarrow> (string \<times> jsval) list \<Rightarrow> order_row option \<Rightarrow> db
     \<Rightarrow> response \<times> db" where
  "put_order_update e fs isAdmin i updateData oldOrder d =
     (case with_fault (order_update fs) (update_order_single e i updateData) d of
        (Thrown m, d1) \<Rightarrow> (ErrorJson 500 ''Failed to update order'' (Some m), d1)
      | (Failed er, d1) \<Rightarrow>
          (if err_code er = ''PGRST116'' then (ErrorJson 404 ''Order not found'' None, d1)
           else (ErrorJson 400 ''Failed to update order'' (Some (err_message er)), d1))
      | (Returned order, d1) \<Rightarrow>
          (OrderJson 200 ''Order updated successfully'' order,
           notify_after_update e (admin_lookup fs) (notification_insert fs) isAdmin oldOrder
             updateData order d1))"

definition put_order ::
  "env \<Rightarrow> put_faults \<Rightarrow> req_user option \<Rightarrow> string \<Rightarrow> jsobject \<Rightarrow> db \<Rightarrow> response \<times> db" where
  "put_order e fs user i body d =
     (case user of
        None \<Rightarrow> (ErrorJson 401 ''Not authenticated'' None, d)
      | Some u \<Rightarrow>
          (let isAdmin = (u_role u = ''admin'');
               updateData = build_update_data isAdmin body
           in if updateData = [] then (ErrorJson 400 ''No fields to update'' None, d)
              else if \<not> admin_client e then
                (ErrorJson 500 ''Server configuration error''
                   (Some ''Service role key not configured. Please contact administrator.''), d)
              else
                (case with_fault (old_order_fetch fs) (select_order_single i) d of
                   (Thrown m, d1) \<Rightarrow> (ErrorJson 500 ''Failed to update order'' (Some m), d1)
                 | (Failed er, d1) \<Rightarrow> put_order_update e fs isAdmin i updateData None d1
                 | (Returned old, d1) \<Rightarrow> put_order_update e fs isAdmin i updateData (Some old) d1)))"

subsection \<open>\<^verbatim>\<open>POST /api/orders\<close>\<close>

definition build_order_data :: "req_user \<Rightarrow> jsobject \<Rightarrow> (string \<times> jsval) list" where
  "build_order_data u body =
     [(''customer_name'', js_get body ''customer_name''),
      (''order_details'', js_get body ''order_details''),
      (''location'', js_or (js_get body ''location'') JNull),
      (''phone_number'', js_or (js_get body ''phone_number'') JNull),
      (''pickup_date'', js_or (js_get body ''pickup_date'') JNull),
      (''meta_business_link'', js_or (js_get body ''meta_business_link'') JNull),
      (''image'', js_or (js_get body ''image'') JNull),
      (''status'', js_or (js_get body ''status'') (JStr ''incoming'')),
      (''created_by'', JStr (u_id u))]"

text \<open>The handler proper, behind \<^verbatim>\<open>authenticate\<close> and \<^verbatim>\<open>requireAdmin\<close>.\<close>

definition post_order_handler ::
  "env \<Rightarrow> fault \<Rightarrow> req_user option \<Rightarrow> jsobject \<Rightarrow> db \<Rightarrow> response \<times> db" where
  "post_order_handler e f_insert user body d =
     (case user of
        None \<Rightarrow> (ErrorJson 401 ''Not authenticated'' None, d)
      | Some u \<Rightarrow>
          (let orderData = build_order_data u body
           in if \<not> truthy (lookup orderData ''customer_name'')
                 \<or> \<not> truthy (lookup orderData ''order_details'')
              then (ErrorJson 400 ''customer_name and order_details are required'' None, d)
              else if \<not> admin_client e then
                (ErrorJson 500 ''Server configuration error''
                   (Some ''Service role key not configured. Please contact administrator.''), d)
              else
                (case with_fault f_insert (insert_order_single e orderData) d of
                   (Thrown m, d1) \<Rightarrow> (ErrorJson 500 ''Failed to create order'' (Some m), d1)
                 | (Failed er, d1) \<Rightarrow> (ErrorJson 400 (err_message er) None, d1)
                 | (Returned order, d1) \<Rightarrow>
                     (OrderJson 201 ''Order created successfully'' order, d1))))"

definition post_order ::
  "env \<Rightarrow> fault \<Rightarrow> req_user option \<Rightarrow> jsobject \<Rightarrow> db \<Rightarrow> response \<times> db" where
  "post_order e f_insert user body d =
     (case requireAdmin user of
        Respond r \<Rightarrow> (r, d)
      | Next u \<Rightarrow> post_order_handler e f_insert (Some u) body d)"

subsection \<open>\<^verbatim>\<open>DELETE /api/orders/:id\<close>\<close>

definition delete_order_handler :: "env \<Rightarrow> fault \<Rightarrow> string \<Rightarrow> db \<Rightarrow> response \<times> db" where
  "delete_order_handler e f_delete i d =
     (if \<not> admin_client e then
        (ErrorJson 500 ''Server configuration error''
           (Some ''Service role key not configured. Please contact administrator.''), d)
      else
        (case with_fault f_delete (delete_order i) d of
           (Thrown m, d1) \<Rightarrow> (ErrorJson 500 ''Failed to delete order'' (Some m), d1)
         | (Failed er, d1) \<Rightarrow> (ErrorJson 400 (err_message er) None, d1)
         | (Returned u, d1) \<Rightarrow> (MessageJson 200 ''Order deleted successfully'', d1)))"

definition delete_order_route ::
  "env \<Rightarrow> fault \<Rightarrow> req_user option \<Rightarrow> string \<Rightarrow> db \<Rightarrow> response \<times> db" where
  "delete_order_route e f_delete user i d =
     (case requireAdmin user of
        Respond r \<Rightarrow> (r, d)
      | Next u \<Rightarrow> delete_order_handler e f_delete i d)"


section \<open>\<^verbatim>\<open>routes/history.ts\<close>: \<^verbatim>\<open>POST /api/history\<close>\<close>

text \<open>
  \<^verbatim>\<open>from('order_history').insert(insertData).select().single()\<close>: \<^verbatim>\<open>order_id\<close> and
  \<^verbatim>\<open>event_type\<close> are NOT NULL, \<^verbatim>\<open>event_type\<close> has a CHECK, \<^verbatim>\<open>order_id\<close> is read as a
  uuid and references an order. \<^verbatim>\<open>user_id\<close> is the caller's identity id, which is the
  provider's and never a text of the request.
\<close>

definition insert_history_single ::
  "env \<Rightarrow> (string \<times> jsval) list \<Rightarrow> db \<Rightarrow> history_row call \<times> db" where
  "insert_history_single e insertData d =
     (case text_column (lookup insertData ''order_id'') of
        None \<Rightarrow> (Failed (not_null_violation ''order_id''), d)
      | Some given \<Rightarrow>
          (case uuid_in given of
             None \<Rightarrow> (Failed (invalid_uuid given), d)
           | Some oid \<Rightarrow>
               (case text_column (lookup insertData ''event_type'') of
                  None \<Rightarrow> (Failed (not_null_violation ''event_type''), d)
                | Some et \<Rightarrow>
                    if \<not> event_type_check et then (Failed (check_violation ''event_type''), d)
                    else if oid \<notin> set (map o_id (orders d))
                      then (Failed (foreign_key_violation ''order_id''), d)
                    else if fresh_id e \<in> set (map h_id (order_history d))
                      then (Failed (unique_violation ''id''), d)
                    else
                      (let row = \<lparr> h_id = fresh_id e, h_order_id = oid,
                                   h_user_id = text_column (lookup insertData ''user_id''),
                                   h_event_type = et,
                                   h_old_status = text_column (lookup insertData ''old_status''),
                                   h_new_status = text_column (lookup insertData ''new_status''),
                                   h_note = text_column (lookup insertData ''note''),
                                   h_created_at = now e \<rparr>
                       in (Returned row, d\<lparr>order_history := order_history d @ [row]\<rparr>)))))"

definition build_history_data :: "req_user \<Rightarrow> jsobject \<Rightarrow> (string \<times> jsval) list" where
  "build_history_data u body =
     [(''order_id'', js_get body ''order_id''),
      (''user_id'', JStr (u_id u)),
      (''event_type'', js_get body ''event_type''),
      (''old_status'', nullish_or (js_get body ''old_status'') JNull),
      (''new_status'', nullish_or (js_get body ''new_status'') JNull),
      (''note'', nullish_or (js_get body ''note'') JNull)]"

definition post_history_handler ::
  "env \<Rightarrow> fault \<Rightarrow> req_user option \<Rightarrow> jsobject \<Rightarrow> db \<Rightarrow> response \<times> db" where
  "post_history_handler e f_insert user body d =
     (case user of
        None \<Rightarrow> (ErrorJson 401 ''Not authenticated'' None, d)
      | Some u \<Rightarrow>
          if \<not> truthy (js_get body ''order_id'') \<or> \<not> truthy (js_get body ''event_type'')
          then (ErrorJson 400 ''order_id and event_type are required'' None, d)
          else if \<not> admin_client e then
            (ErrorJson 500 ''Server configuration error''
               (Some ''Service role key not configured. Please contact administrator.''), d)
          else
            (case with_fault f_insert (insert_history_single e (build_history_data u body)) d of
               (Thrown m, d1) \<Rightarrow> (ErrorJson 500 ''Failed to create history record'' (Some m), d1)
             | (Failed er, d1) \<Rightarrow> (ErrorJson 400 (err_message er) None, d1)
             | (Returned row, d1) \<Rightarrow>
                 (HistoryJson 201 ''History record created successfully'' row, d1)))"

definition post_history ::
  "env \<Rightarrow> fault \<Rightarrow> req_user option \<Rightarrow> jsobject \<Rightarrow> db \<Rightarrow> response \<times> db" where
  "post_history e f_insert user body d =
     (case requireAdmin user of
        Respond r \<Rightarrow> (r, d)
      | Next u \<Rightarrow> post_history_handler e f_insert (Some u) body d)"


section \<open>\<^verbatim>\<open>middleware/auth.ts\<close>: \<^verbatim>\<open>authenticate\<close>\<close>

text \<open>What the identity provider returns for a token it accepts.\<close>

record auth_user =
  au_id :: string
  au_email :: "string option"

text \<open>\<^verbatim>\<open>from('user_profiles').select('role').eq('id', id).single()\<close>.\<close>

definition select_profile_role_single :: "string \<Rightarrow> db \<Rightarrow> string call \<times> db" where
  "select_profile_role_single i d =
     (case filter (\<lambda>p. p_id p = i) (user_profiles d) of
        [p] \<Rightarrow> (Returned (p_role p), d)
      | _ \<Rightarrow> (Failed no_rows_error, d))"

text \<open>\<^verbatim>\<open>s.includes(t)\<close>.\<close>

fun js_includes :: "string \<Rightarrow> string \<Rightarrow> bool" where
  "js_includes [] t = (t = [])"
| "js_includes (c # s) t = (prefix t (c # s) \<or> js_includes s t)"

text \<open>
  \<^verbatim>\<open>getUser\<close> is the provider's answer to the token: a user, no user, an error, or a
  rejected promise. The fault is that of the profile query.
\<close>

definition authenticate ::
  "env \<Rightarrow> (string \<Rightarrow> auth_user option call) \<Rightarrow> fault \<Rightarrow> string option \<Rightarrow> db
     \<Rightarrow> req_user middleware" where
  "authenticate e getUser f_profile authHeader d =
     (case authHeader of
        None \<Rightarrow> Respond (ErrorJson 401 ''Missing or invalid authorization header'' None)
      | Some h \<Rightarrow>
          if h = [] \<or> \<not> prefix ''Bearer '' h
          then Respond (ErrorJson 401 ''Missing or invalid authorization header'' None)
          else
            (case getUser (drop 7 h) of
               Thrown m \<Rightarrow> Respond (ErrorJson 401 ''Authentication failed'' (Some m))
             | Failed er \<Rightarrow> Respond (ErrorJson 401 ''Invalid or expired token'' None)
             | Returned None \<Rightarrow> Respond (ErrorJson 401 ''Invalid or expired token'' None)
             | Returned (Some user) \<Rightarrow>
                 if \<not> admin_client e then
                   Respond (ErrorJson 500
                     ''Server configuration error. Admin client not available.'' None)
                 else
                   (case fst (with_fault f_profile (select_profile_role_single (au_id user)) d) of
                      Thrown m \<Rightarrow> Respond (ErrorJson 401 ''Authentication failed'' (Some m))
                    | Failed er \<Rightarrow>
                        if err_code er = ''42P17''
                           \<or> js_includes (err_message er) ''infinite recursion''
                        then Respond (ErrorJson 500
                               ''Database configuration error. RLS recursion detected.''
                               (Some ''Please run the SQL migration file: database/migrations/003_fix_user_profiles_rls_recursion.sql in your Supabase SQL Editor''))
                        else Next \<lparr> u_id = au_id user, u_email = au_email user,
                                    u_role = ''viewer'' \<rparr>
                    | Returned role \<Rightarrow>
                        Next \<lparr> u_id = au_id user, u_email = au_email user,
                               u_role = (if role \<noteq> [] then role else ''viewer'') \<rparr>)))"


section \<open>\<^verbatim>\<open>routes/auth.ts\<close>: the registration endpoints\<close>

subsection \<open>The provider creating a user, and the triggers of \<^verbatim>\<open>user_profiles\<close>\<close>

text \<open>
  \<^verbatim>\<open>handle_new_user\<close> (AFTER INSERT ON auth.users): the profile takes the username and the
  role of the user's metadata, the email and \<^verbatim>\<open>viewer\<close> where they are null. A constraint it
  violates aborts the creation of the user.
\<close>

definition handle_new_user :: "string \<Rightarrow> string \<Rightarrow> jsval \<Rightarrow> jsval \<Rightarrow> db \<Rightarrow> pg_error + db" where
  "handle_new_user new_id email meta_username meta_role d =
     (let row = \<lparr> p_id = new_id,
                  p_username = (case text_column meta_username of Some s \<Rightarrow> s | None \<Rightarrow> email),
                  p_role = (case text_column meta_role of Some s \<Rightarrow> s | None \<Rightarrow> ''viewer''),
                  p_password_hash = None \<rparr>
      in if \<not> role_check (p_role row) then Inl (check_violation ''role'')
         else if new_id \<in> set (map p_id (user_profiles d)) then Inl (unique_violation ''id'')
         else if p_username row \<in> set (map p_username (user_profiles d))
           then Inl (unique_violation ''username'')
         else Inr (d\<lparr>user_profiles := user_profiles d @ [row]\<rparr>))"

text \<open>\<^verbatim>\<open>auth.signUp\<close> and \<^verbatim>\<open>auth.admin.createUser\<close> with \<^verbatim>\<open>{username, role}\<close> as metadata.\<close>

definition create_user ::
  "env \<Rightarrow> string \<Rightarrow> string \<Rightarrow> string \<Rightarrow> db \<Rightarrow> auth_user option call \<times> db" where
  "create_user e email username role d =
     (case handle_new_user (fresh_id e) email (JStr username) (JStr role) d of
        Inl er \<Rightarrow> (Failed er, d)
      | Inr d1 \<Rightarrow> (Returned (Some \<lparr> au_id = fresh_id e, au_email = Some email \<rparr>), d1))"

text \<open>
  \<^verbatim>\<open>prevent_role_change\<close> (BEFORE UPDATE, WHEN the role changes); \<^verbatim>\<open>uid\<close> is \<^verbatim>\<open>auth.uid()\<close>,
  null for a client that carries a key and no user session.
\<close>

definition prevent_role_change ::
  "string option \<Rightarrow> db \<Rightarrow> profile_row \<Rightarrow> profile_row \<Rightarrow> pg_error + profile_row" where
  "prevent_role_change uid d old new =
     (if p_role old = p_role new then Inr new
      else if (case uid of None \<Rightarrow> False
               | Some x \<Rightarrow> list_ex (\<lambda>p. p_id p = x \<and> p_role p = ''admin'') (user_profiles d))
        then Inr new
      else if uid = Some (p_id new)
        then Inl (PgError ''P0001'' ''Users cannot change their own role'')
      else Inr new)"

text \<open>\<^verbatim>\<open>from('user_profiles').update({username, role, password_hash}).eq('id', id)\<close>.\<close>

definition update_profile_single ::
  "string \<Rightarrow> string \<Rightarrow> string \<Rightarrow> string \<Rightarrow> db \<Rightarrow> profile_row call \<times> db" where
  "update_profile_single i username role password_hash d =
     (case find (\<lambda>p. p_id p = i) (user_profiles d) of
        None \<Rightarrow> (Failed no_rows_error, d)
      | Some old \<Rightarrow>
          (case prevent_role_change None d old
                  (old\<lparr>p_username := username, p_role := role,
                       p_password_hash := Some password_hash\<rparr>) of
             Inl er \<Rightarrow> (Failed er, d)
           | Inr new \<Rightarrow>
               if \<not> role_check (p_role new) then (Failed (check_violation ''role''), d)
               else if p_username new
                         \<in> set (map p_username (filter (\<lambda>p. p_id p \<noteq> i) (user_profiles d)))
                 then (Failed (unique_violation ''username''), d)
               else (Returned new,
                     d\<lparr>user_profiles := map (\<lambda>p. if p_id p = i then new else p)
                                            (user_profiles d)\<rparr>)))"

text \<open>\<^verbatim>\<open>select('username').eq('username', username).single()\<close> and
  \<^verbatim>\<open>select('*').eq('id', id).single()\<close>.\<close>

definition select_username_single :: "string \<Rightarrow> db \<Rightarrow> string call \<times> db" where
  "select_username_single n d =
     (case filter (\<lambda>p. p_username p = n) (user_profiles d) of
        [p] \<Rightarrow> (Returned (p_username p), d)
      | _ \<Rightarrow> (Failed no_rows_error, d))"

definition select_profile_single :: "string \<Rightarrow> db \<Rightarrow> profile_row call \<times> db" where
  "select_profile_single i d =
     (case filter (\<lambda>p. p_id p = i) (user_profiles d) of
        [p] \<Rightarrow> (Returned p, d)
      | _ \<Rightarrow> (Failed no_rows_error, d))"

subsection \<open>\<^verbatim>\<open>POST /api/auth/register\<close>\<close>

record register_faults =
  username_check :: fault
  sign_up :: fault
  profile_update :: fault

text \<open>\<^verbatim>\<open>hash\<close> stands for \<^verbatim>\<open>bcrypt.hash(password, 10)\<close>.\<close>

definition register ::
  "env \<Rightarrow> register_faults \<Rightarrow> (string \<Rightarrow> string) \<Rightarrow> jsobject \<Rightarrow> db \<Rightarrow> response \<times> db" where
  "register e fs hash body d =
     (let email = js_get body ''email''; password = js_get body ''password'';
          username = js_get body ''username''
      in if \<not> truthy email \<or> \<not> truthy password
           then (ErrorJson 400 ''Email and password are required'' None, d)
         else if \<not> truthy username then (ErrorJson 400 ''Username is required'' None, d)
         else if length (to_string password) < 6
           then (ErrorJson 400 ''Password must be at least 6 characters long'' None, d)
         else
           (case with_fault (username_check fs) (select_username_single (to_string username)) d of
              (Thrown m, d1) \<Rightarrow> (ErrorJson 500 ''Registration failed'' (Some m), d1)
            | (Returned existingUser, d1) \<Rightarrow> (ErrorJson 400 ''Username already taken'' None, d1)
            | (Failed er0, d1) \<Rightarrow>
                (case with_fault (sign_up fs)
                        (create_user e (to_string email) (to_string username) ''viewer'') d1 of
                   (Thrown m, d2) \<Rightarrow> (ErrorJson 500 ''Registration failed'' (Some m), d2)
                 | (Failed er, d2) \<Rightarrow> (ErrorJson 400 (err_message er) None, d2)
                 | (Returned None, d2) \<Rightarrow> (ErrorJson 400 ''Failed to create user'' None, d2)
                 | (Returned (Some user), d2) \<Rightarrow>
                     (case with_fault (profile_update fs)
                             (update_profile_single (au_id user) (to_string username) ''viewer''
                                (hash (to_string password))) d2 of
                        (Thrown m, d3) \<Rightarrow> (ErrorJson 500 ''Registration failed'' (Some m), d3)
                      | (Failed er, d3) \<Rightarrow>
                          (UserJson 201 ''Viewer registered successfully''
                             \<lparr> v_id = au_id user, v_email = au_email user,
                               v_username = to_string username, v_role = ''viewer'' \<rparr>, d3)
                      | (Returned profile, d3) \<Rightarrow>
                          (UserJson 201 ''Viewer registered successfully''
                             \<lparr> v_id = au_id user, v_email = au_email user,
                               v_username = to_string username, v_role = ''viewer'' \<rparr>, d3)))))"


subsection \<open>\<^verbatim>\<open>POST /api/auth/register-admin\<close> and \<^verbatim>\<open>POST /api/auth/create-viewer\<close>\<close>

text \<open>
  The retry loop around \<^verbatim>\<open>auth.admin.createUser\<close>: \<^verbatim>\<open>retries\<close> starts at 3, a rejected
  promise costs one, and the last one ends the request. The list gives the fault of each
  attempt in turn (none once it is used up).
\<close>

fun create_user_retry ::
  "nat \<Rightarrow> fault list \<Rightarrow> env \<Rightarrow> string \<Rightarrow> string \<Rightarrow> string \<Rightarrow> db \<Rightarrow> auth_user option call \<times> db" where
  "create_user_retry 0 fs e email username role d = (Returned None, d)"
| "create_user_retry (Suc retries) fs e email username role d =
     (case with_fault (case fs of [] \<Rightarrow> NoFault | f # rest \<Rightarrow> f)
             (create_user e email username role) d of
        (Thrown m, d1) \<Rightarrow>
          if retries = 0 then (Thrown m, d1)
          else create_user_retry retries (tl fs) e email username role d1
      | (Failed er, d1) \<Rightarrow> (Failed er, d1)
      | (Returned r, d1) \<Rightarrow> (Returned r, d1))"

record provision_faults =
  pv_username_check :: fault
  pv_create_user :: "fault list"
  pv_profile_update :: fault
  pv_profile_fetch :: fault

text \<open>
  The two handlers have the same text from the username check on; they differ in the role
  they write and in three messages. \<^verbatim>\<open>listUsers\<close> is the provider's answer to
  \<^verbatim>\<open>auth.admin.listUsers()\<close>: the emails it knows.
\<close>

definition provision_account ::
  "env \<Rightarrow> provision_faults \<Rightarrow> string list call \<Rightarrow> (string \<Rightarrow> string) \<Rightarrow> string \<Rightarrow> string \<Rightarrow> string
     \<Rightarrow> string \<Rightarrow> string \<Rightarrow> string \<Rightarrow> string \<Rightarrow> db \<Rightarrow> response \<times> db" where
  "provision_account e fs listUsers hash role created_msg failed_msg catch_msg
       email username password d =
     (case with_fault (pv_username_check fs) (select_username_single username) d of
        (Thrown m, d1) \<Rightarrow> (ErrorJson 500 catch_msg (Some m), d1)
      | (Returned existingUser, d1) \<Rightarrow> (ErrorJson 400 ''Username already taken'' None, d1)
      | (Failed er0, d1) \<Rightarrow>
          if \<not> admin_client e then
            (ErrorJson 500 ''Admin client not configured. SUPABASE_SERVICE_ROLE_KEY is required.''
               None, d1)
          else if (case listUsers of Returned emails \<Rightarrow> email \<in> set emails | _ \<Rightarrow> False)
            then (ErrorJson 400 ''Email already registered'' None, d1)
          else
            (case create_user_retry 3 (pv_create_user fs) e email username role d1 of
               (Thrown m, d2) \<Rightarrow>
                 (ErrorJson 500
                    ''Failed to connect to Supabase. Please check your network connection and Supabase configuration.''
                    (Some (if m \<noteq> [] then m else ''Connection reset'')), d2)
             | (Failed er, d2) \<Rightarrow>
                 (ErrorJson 400 (if err_message er \<noteq> [] then err_message er else failed_msg)
                    None, d2)
             | (Returned None, d2) \<Rightarrow>
                 (ErrorJson 400 ''Failed to create user - no user data returned'' None, d2)
             | (Returned (Some user), d2) \<Rightarrow>
                 (case with_fault (pv_profile_update fs)
                         (update_profile_single (au_id user) username role (hash password)) d2 of
                    (Thrown m, d3) \<Rightarrow> (ErrorJson 500 catch_msg (Some m), d3)
                  | (Returned profile, d3) \<Rightarrow>
                      (UserJson 201 created_msg
                         \<lparr> v_id = au_id user, v_email = au_email user,
                           v_username =
                             (if p_username profile \<noteq> [] then p_username profile else username),
                           v_role = (if p_role profile \<noteq> [] then p_role profile else role) \<rparr>,
                       d3)
                  | (Failed er, d3) \<Rightarrow>
                      (case with_fault (pv_profile_fetch fs)
                              (select_profile_single (au_id user)) d3 of
                         (Thrown m, d4) \<Rightarrow> (ErrorJson 500 catch_msg (Some m), d4)
                       | (Returned existingProfile, d4) \<Rightarrow>
                           (UserJson 201 created_msg
                              \<lparr> v_id = au_id user, v_email = au_email user,
                                v_username = p_username existingProfile,
                                v_role = p_role existingProfile \<rparr>, d4)
                       | (Failed er1, d4) \<Rightarrow>
                           (UserJson 201 created_msg
                              \<lparr> v_id = au_id user, v_email = au_email user,
                                v_username = username, v_role = role \<rparr>, d4)))))"

definition register_admin ::
  "env \<Rightarrow> provision_faults \<Rightarrow> string list call \<Rightarrow> (string \<Rightarrow> string) \<Rightarrow> jsobject \<Rightarrow> db
     \<Rightarrow> response \<times> db" where
  "register_admin e fs listUsers hash body d =
     (let email = js_get body ''email''; password = js_get body ''password'';
          username = js_get body ''username''
      in if \<not> truthy email \<or> \<not> truthy password
           then (ErrorJson 400 ''Email and password are required'' None, d)
         else if \<not> truthy username then (ErrorJson 400 ''Username is required'' None, d)
         else if length (to_string password) < 6
           then (ErrorJson 400 ''Password must be at least 6 characters long'' None, d)
         else provision_account e fs listUsers hash ''admin'' ''Admin registered successfully''
                ''Failed to create admin user'' ''Failed to register admin''
                (to_string email) (to_string username) (to_string password) d)"

text \<open>
  \<^verbatim>\<open>/^[^\s@]+@[^\s@]+\.[^\s@]+$/\<close>: one \<^verbatim>\<open>@\<close>, no white space, and after the \<^verbatim>\<open>@\<close> a dot
  that is neither first nor last. Of the characters below 256, \<^verbatim>\<open>\s\<close> takes the tab, the
  line feed, the vertical tab, the form feed, the carriage return, the space and the
  no-break space.
\<close>

definition regex_part :: "string \<Rightarrow> bool" where
  "regex_part s =
     (s \<noteq> [] \<and> list_all (\<lambda>c. c \<noteq> CHR ''@'' \<and> (of_char c :: nat) \<notin> set [9, 10, 11, 12, 13, 32, 160]) s)"

definition emailRegex_test :: "string \<Rightarrow> bool" where
  "emailRegex_test s =
     (case dropWhile (\<lambda>c. c \<noteq> CHR ''@'') s of
        [] \<Rightarrow> False
      | at # host \<Rightarrow>
          regex_part (takeWhile (\<lambda>c. c \<noteq> CHR ''@'') s) \<and> regex_part host
          \<and> list_ex (\<lambda>k. host ! k = CHR ''.'') [1 ..< length host - 1])"

definition create_viewer ::
  "env \<Rightarrow> provision_faults \<Rightarrow> string list call \<Rightarrow> (string \<Rightarrow> string) \<Rightarrow> jsobject \<Rightarrow> db
     \<Rightarrow> response \<times> db" where
  "create_viewer e fs listUsers hash body d =
     (let username = js_get body ''username''; password = js_get body ''password'';
          email = js_get body ''email''
      in if \<not> truthy username \<or> \<not> truthy password \<or> \<not> truthy email
           then (ErrorJson 400 ''Username, email, and password are required'' None, d)
         else if \<not> emailRegex_test (to_string email)
           then (ErrorJson 400 ''Invalid email format'' None, d)
         else if length (to_string password) < 6
           then (ErrorJson 400 ''Password must be at least 6 characters long'' None, d)
         else provision_account e fs listUsers hash ''viewer'' ''Viewer created successfully''
                ''Failed to create viewer user'' ''Failed to create viewer''
                (to_string email) (to_string username) (to_string password) d)"


section \<open>A small world to run the handlers in\<close>

text \<open>The example readers take one spelling each; the store renders the timestamp with its offset.\<close>

definition example_timestamptz_in :: "string \<Rightarrow> timestamp option" where
  "example_timestamptz_in s =
     (if s = ''2025-01-01T00:00:00Z'' then Some ''2025-01-01T00:00:00+00:00'' else None)"

definition example_date_in :: "string \<Rightarrow> string option" where
  "example_date_in s = (if s = ''2025-12-24'' then Some ''2025-12-24'' else None)"

definition example_env :: env where
  "example_env =
     \<lparr> admin_client = True, now = ''2025-06-01T12:00:00+00:00'',
       fresh_id = ''0a1b2c3d-0000-4000-8000-000000000002'',
       timestamptz_in = example_timestamptz_in, date_in = example_date_in \<rparr>"

definition no_put_faults :: put_faults where
  "no_put_faults = \<lparr> old_order_fetch = NoFault, order_update = NoFault, admin_lookup = NoFault,
                      notification_insert = NoFault \<rparr>"

definition example_order :: order_row where
  "example_order =
     \<lparr> o_id = ''0a1b2c3d-0000-4000-8000-000000000001'', o_customer_name = ''Jane'', o_order_details = ''2kg vanilla'',
       o_location = None, o_phone_number = None, o_pickup_date = None,
       o_meta_business_link = None, o_image = None, o_status = ''pending'',
       o_created_at = ''2025-05-01T09:00:00+00:00'', o_completed_at = None,
       o_created_by = Some ''7e57ad01-0000-4000-8000-00000000000a'', o_updated_at = ''2025-05-01T09:00:00+00:00'' \<rparr>"

definition example_db :: db where
  "example_db =
     \<lparr> orders = [example_order],
       user_profiles =
         [\<lparr> p_id = ''7e57ad01-0000-4000-8000-00000000000a'', p_username = ''alice'', p_role = ''admin'',
            p_password_hash = None \<rparr>,
          \<lparr> p_id = ''7e57ad01-0000-4000-8000-00000000000c'', p_username = ''bob'', p_role = ''viewer'',
            p_password_hash = None \<rparr>,
          \<lparr> p_id = ''7e57ad01-0000-4000-8000-00000000000b'', p_username = ''carol'', p_role = ''admin'',
            p_password_hash = None \<rparr>],
       notifications = [], order_history = [] \<rparr>"

definition example_admin :: req_user where
  "example_admin =
     \<lparr> u_id = ''7e57ad01-0000-4000-8000-00000000000a'', u_email = Some ''alice@example.com'', u_role = ''admin'' \<rparr>"

definition example_viewer :: req_user where
  "example_viewer =
     \<lparr> u_id = ''7e57ad01-0000-4000-8000-00000000000c'', u_email = Some ''bob@example.com'', u_role = ''viewer'' \<rparr>"


text \<open>A stand-in for the password hash, handlers without faults, and a sign-up that asks to
  be an admin.\<close>

definition example_hash :: "string \<Rightarrow> string" where
  "example_hash s = ''$2a$10$'' @ rev s"

definition no_register_faults :: register_faults where
  "no_register_faults = \<lparr> username_check = NoFault, sign_up = NoFault, profile_update = NoFault \<rparr>"

definition no_provision_faults :: provision_faults where
  "no_provision_faults =
     \<lparr> pv_username_check = NoFault, pv_create_user = [], pv_profile_update = NoFault,
       pv_profile_fetch = NoFault \<rparr>"

definition example_signup :: jsobject where
  "example_signup =
     [''email'' \<mapsto> JStr ''dave@example.com'', ''password'' \<mapsto> JStr ''s3cret!'',
      ''username'' \<mapsto> JStr ''dave'', ''role'' \<mapsto> JStr ''admin'']"

text \<open>An identity provider that knows one token.\<close>

definition example_getUser :: "string \<Rightarrow> auth_user option call" where
  "example_getUser token =
     (if token = ''token-of-dave''
      then Returned (Some \<lparr> au_id = ''7e57ad01-0000-4000-8000-00000000000d'', au_email = Some ''dave@example.com'' \<rparr>)
      else Failed (PgError ''bad_jwt'' ''invalid JWT''))"

text \<open>The profile of the identity \<^verbatim>\<open>i\<close> is there, once, with the role \<^verbatim>\<open>role\<close>.\<close>

definition profile_role_is :: "db \<Rightarrow> string \<Rightarrow> string \<Rightarrow> bool" where
  "profile_role_is d i role =
     (map p_role (filter (\<lambda>p. p_id p = i) (user_profiles d)) = [role])"

section \<open>What the data model says a write leaves in the store\<close>

text \<open>
  These definitions are not the handlers': they are written from the data model, to state
  what the handlers are to do.

  An update is a merge-patch: it applies only the fields present in the payload and
  leaves the others untouched; for a caller who is not an admin the fields are the eight
  common ones. A key the payload does not carry leaves the column as it was, null clears
  a nullable column, a text is stored (a date as the store reads it). The status alone
  decides \<^verbatim>\<open>completed_at\<close>, which becomes the time of the update when the status moves to
  \<^verbatim>\<open>completed\<close>, null when it moves to another status, and stays otherwise; every accepted
  update refreshes \<^verbatim>\<open>updated_at\<close>.
\<close>

definition spec_required_field :: "jsval \<Rightarrow> string \<Rightarrow> string" where
  "spec_required_field v old = (case v of JStr s \<Rightarrow> s | _ \<Rightarrow> old)"

definition spec_optional_field :: "jsval \<Rightarrow> string option \<Rightarrow> string option" where
  "spec_optional_field v old = (case v of JUndefined \<Rightarrow> old | JNull \<Rightarrow> None | JStr s \<Rightarrow> Some s)"

definition spec_date_field :: "env \<Rightarrow> jsval \<Rightarrow> string option \<Rightarrow> string option" where
  "spec_date_field e v old = (case v of JUndefined \<Rightarrow> old | JNull \<Rightarrow> None | JStr s \<Rightarrow> date_in e s)"

definition spec_viewer_update :: "env \<Rightarrow> jsobject \<Rightarrow> order_row \<Rightarrow> order_row" where
  "spec_viewer_update e body old =
     (let status = spec_required_field (js_get body ''status'') (o_status old)
      in old\<lparr> o_customer_name :=
                 spec_required_field (js_get body ''customer_name'') (o_customer_name old),
              o_order_details :=
                 spec_required_field (js_get body ''order_details'') (o_order_details old),
              o_location := spec_optional_field (js_get body ''location'') (o_location old),
              o_phone_number :=
                 spec_optional_field (js_get body ''phone_number'') (o_phone_number old),
              o_pickup_date :=
                 spec_date_field e (js_get body ''pickup_date'') (o_pickup_date old),
              o_meta_business_link :=
                 spec_optional_field (js_get body ''meta_business_link'') (o_meta_business_link old),
              o_image := spec_optional_field (js_get body ''image'') (o_image old),
              o_status := status,
              o_completed_at :=
                 (if status \<noteq> o_status old
                  then (if status = ''completed'' then Some (now e) else None)
                  else o_completed_at old),
              o_updated_at := now e \<rparr>)"

text \<open>
  The order a create request is to produce: the name and the details of the payload, an
  optional field that is absent, null or empty as null (the pickup date as the store
  reads it), the status of the payload or \<^verbatim>\<open>incoming\<close>, no \<^verbatim>\<open>completed_at\<close>, the caller as
  \<^verbatim>\<open>created_by\<close>, a generated id and the time of the request.
\<close>

definition spec_optional_text :: "jsval \<Rightarrow> string option" where
  "spec_optional_text v = (if truthy v then Some (to_string v) else None)"

definition spec_created_order :: "env \<Rightarrow> req_user \<Rightarrow> jsobject \<Rightarrow> order_row" where
  "spec_created_order e u body =
     \<lparr> o_id = fresh_id e,
       o_customer_name = to_string (js_get body ''customer_name''),
       o_order_details = to_string (js_get body ''order_details''),
       o_location = spec_optional_text (js_get body ''location''),
       o_phone_number = spec_optional_text (js_get body ''phone_number''),
       o_pickup_date =
         (if truthy (js_get body ''pickup_date'')
          then column_value (date_in e) (js_get body ''pickup_date'') else None),
       o_meta_business_link = spec_optional_text (js_get body ''meta_business_link''),
       o_image = spec_optional_text (js_get body ''image''),
       o_status = (if truthy (js_get body ''status'')
                   then to_string (js_get body ''status'') else ''incoming''),
       o_created_at = now e, o_completed_at = None,
       o_created_by = Some (u_id u), o_updated_at = now e \<rparr>"

text \<open>The invariant the data model asks of an order, and the order a response carries.\<close>

definition completed_at_invariant :: "order_row \<Rightarrow> bool" where
  "completed_at_invariant r = ((o_completed_at r \<noteq> None) = (o_status r = ''completed''))"

definition response_order :: "response \<Rightarrow> order_row option" where
  "response_order r = (case r of OrderJson c m order \<Rightarrow> Some order | _ \<Rightarrow> None)"


section \<open>Properties of the statistics\<close>

lemma count_partition:
  assumes "distinct [a, b, c, d, e]" and "set xs \<subseteq> set [a, b, c, d, e]"
  shows "length xs =
     length (filter (\<lambda>s. s = a) xs) + length (filter (\<lambda>s. s = b) xs)
   + length (filter (\<lambda>s. s = c) xs) + length (filter (\<lambda>s. s = d) xs)
   + length (filter (\<lambda>s. s = e) xs)"
  using assms by (induction xs) auto

lemma order_statuses_distinct: "distinct order_statuses"
  by (simp add: order_statuses_def)

text \<open>
  C9. When every status the query returns is one of the five the CHECK constraint of
  \<^verbatim>\<open>orders.status\<close> allows, the reported total is the sum of the five per-status counts.
\<close>

theorem stats_total_is_sum:
  assumes "list_all status_check xs"
  shows "st_total (stats_summary (Some xs)) =
           st_incoming (stats_summary (Some xs)) + st_pending (stats_summary (Some xs))
         + st_accepted (stats_summary (Some xs)) + st_declined (stats_summary (Some xs))
         + st_completed (stats_summary (Some xs))"
proof -
  have sub: "set xs \<subseteq> set order_statuses"
    using assms unfolding list_all_iff status_check_def by blast
  have "length xs =
     length (filter (\<lambda>s. s = ''incoming'') xs) + length (filter (\<lambda>s. s = ''accepted'') xs)
   + length (filter (\<lambda>s. s = ''declined'') xs) + length (filter (\<lambda>s. s = ''pending'') xs)
   + length (filter (\<lambda>s. s = ''completed'') xs)"
    using order_statuses_distinct sub unfolding order_statuses_def by (rule count_partition)
  then show ?thesis
    by (simp add: stats_summary_def count_status_def)
qed

theorem stats_total_is_sum_witness:
  "list_all status_check [''pending'', ''completed'', ''pending''] \<and>
   st_total (stats_summary (Some [''pending'', ''completed'', ''pending''])) = 3 \<and>
   st_pending (stats_summary (Some [''pending'', ''completed'', ''pending''])) = 2 \<and>
   st_completed (stats_summary (Some [''pending'', ''completed'', ''pending''])) = 1"
proof -
  have h: "list_all status_check [''pending'', ''completed'', ''pending'']"
    by (simp add: status_check_def order_statuses_def)
  show ?thesis
    using h stats_total_is_sum [OF h]
    by (simp add: stats_summary_def count_status_def)
qed

section \<open>Properties of the store\<close>

lemma with_fault_select_db: "snd (with_fault f (select_order_single i) d) = d"
  by (simp add: with_fault_def select_order_single_def
        split: fault.splits list.splits option.splits)

lemma uuid_in_nonempty: "uuid_in i = Some u \<Longrightarrow> u \<noteq> []"
  by (auto simp: uuid_in_def uuid_out_def Let_def split: option.splits if_splits)

lemma typed_column_value:
  "typed_column reader c v = Inr x \<Longrightarrow> x = column_value reader v"
  by (auto simp: typed_column_def column_value_def split: jsval.splits option.splits)

lemma set_order_column_keeps:
  "case set_order_column e c v r of Inl er \<Rightarrow> True
   | Inr r' \<Rightarrow> o_id r' = o_id r \<and> (c \<noteq> ''status'' \<longrightarrow> o_status r' = o_status r)
       \<and> (c \<noteq> ''completed_at'' \<longrightarrow> o_completed_at r' = o_completed_at r)"
  unfolding set_order_column_def
  by (simp split: option.splits sum.splits)

lemma set_order_column_id: "set_order_column e c v r = Inr r' \<Longrightarrow> o_id r' = o_id r"
  using set_order_column_keeps [where e=e and c=c and v=v and r=r] by simp

lemma set_order_column_status:
  "set_order_column e c v r = Inr r' \<Longrightarrow> c \<noteq> ''status'' \<Longrightarrow> o_status r' = o_status r"
  using set_order_column_keeps [where e=e and c=c and v=v and r=r] by simp

lemma set_order_column_completed_at:
  "set_order_column e c v r = Inr r' \<Longrightarrow> c \<noteq> ''completed_at''
   \<Longrightarrow> o_completed_at r' = o_completed_at r"
  using set_order_column_keeps [where e=e and c=c and v=v and r=r] by simp

lemma set_order_columns_append:
  "set_order_columns e (xs @ ys) r =
     (case set_order_columns e xs r of Inl er \<Rightarrow> Inl er | Inr r1 \<Rightarrow> set_order_columns e ys r1)"
  by (induction e xs r rule: set_order_columns.induct) (simp_all split: sum.splits)

lemma set_order_columns_keeps:
  assumes step: "\<And>c v r r'. set_order_column e c v r = Inr r' \<Longrightarrow> c \<noteq> k \<Longrightarrow> f r' = f r"
    and run: "set_order_columns e cs r = Inr r'"
    and key: "k \<notin> fst ` set cs"
  shows "f r' = f r"
  using run key
proof (induction cs arbitrary: r)
  case Nil
  then show ?case by simp
next
  case (Cons a cs)
  obtain c v where a: "a = (c, v)" by (cases a)
  from Cons.prems(1) a obtain r1
    where 1: "set_order_column e c v r = Inr r1" and 2: "set_order_columns e cs r1 = Inr r'"
    by (auto split: sum.splits)
  from Cons.prems(2) a have 3: "c \<noteq> k" and 4: "k \<notin> fst ` set cs"
    by auto
  show ?case
    using Cons.IH [OF 2 4] step [OF 1 3] by simp
qed

lemma set_order_columns_id: "set_order_columns e cs r = Inr r' \<Longrightarrow> o_id r' = o_id r"
  by (induction e cs r rule: set_order_columns.induct)
     (auto split: sum.splits dest: set_order_column_id)

lemma set_order_columns_status:
  "set_order_columns e cs r = Inr r' \<Longrightarrow> ''status'' \<notin> fst ` set cs \<Longrightarrow> o_status r' = o_status r"
  by (rule set_order_columns_keeps [where k = "''status''" and f = o_status])
     (rule set_order_column_status)

lemma set_order_columns_completed_at:
  "set_order_columns e cs r = Inr r' \<Longrightarrow> ''completed_at'' \<notin> fst ` set cs
   \<Longrightarrow> o_completed_at r' = o_completed_at r"
  by (rule set_order_columns_keeps [where k = "''completed_at''" and f = o_completed_at])
     (rule set_order_column_completed_at)

lemma update_order_single_Returned:
  assumes "update_order_single e i upd d = (Returned new, d')"
  obtains u old new0 where "uuid_in i = Some u"
    and "find (\<lambda>r. o_id r = u) (orders d) = Some old"
    and "set_order_columns e upd old = Inr new0"
    and "new = update_updated_at_column (now e) (on_order_status_change (now e) old new0)"
    and "status_check (o_status new)"
    and "d' = d\<lparr>orders := map (\<lambda>r. if o_id r = u then new else r) (orders d)\<rparr>"
  using assms unfolding update_order_single_def
  by (auto simp: Let_def split: option.splits sum.splits if_splits)

lemma trigger_status:
  "o_status (update_updated_at_column t (on_order_status_change t old new0)) = o_status new0"
  by (simp add: update_updated_at_column_def on_order_status_change_def
        handle_order_completion_def)

lemma trigger_completed_at:
  "o_completed_at (update_updated_at_column t (on_order_status_change t old new0)) =
     (if o_status old \<noteq> o_status new0
      then (if o_status new0 = ''completed'' then Some t else None)
      else o_completed_at new0)"
  by (simp add: update_updated_at_column_def on_order_status_change_def
        handle_order_completion_def)


text \<open>
  Every write keeps the statuses of the orders within the CHECK constraint, so the list the
  statistics query reads has only the five values.
\<close>

lemma update_order_single_keeps_check:
  assumes "list_all (\<lambda>r. status_check (o_status r)) (orders d)"
  shows "list_all (\<lambda>r. status_check (o_status r)) (orders (snd (update_order_single e i upd d)))"
proof (cases "update_order_single e i upd d")
  case (Pair c d1)
  show ?thesis
  proof (cases c)
    case (Returned new)
    with Pair have run: "update_order_single e i upd d = (Returned new, d1)" by simp
    from run obtain u old new0 where "status_check (o_status new)"
      and "d1 = d\<lparr>orders := map (\<lambda>r. if o_id r = u then new else r) (orders d)\<rparr>"
      by (rule update_order_single_Returned)
    with assms Pair show ?thesis by (auto simp: list_all_iff)
  next
    case (Failed er)
    with Pair have "d1 = d"
      by (auto simp: update_order_single_def Let_def split: option.splits sum.splits if_splits)
    with assms Pair show ?thesis by simp
  next
    case (Thrown m)
    with Pair have "d1 = d"
      by (auto simp: update_order_single_def Let_def split: option.splits sum.splits if_splits)
    with assms Pair show ?thesis by simp
  qed
qed

lemma insert_order_single_keeps_check:
  assumes "list_all (\<lambda>r. status_check (o_status r)) (orders d)"
  shows "list_all (\<lambda>r. status_check (o_status r)) (orders (snd (insert_order_single e cols d)))"
  using assms
  by (auto simp: insert_order_single_def split: sum.splits)

lemma delete_order_keeps_check:
  assumes "list_all (\<lambda>r. status_check (o_status r)) (orders d)"
  shows "list_all (\<lambda>r. status_check (o_status r)) (orders (snd (delete_order i d)))"
  using assms by (auto simp: delete_order_def list_all_iff split: option.splits)

lemma stats_of_checked_orders:
  "list_all (\<lambda>r. status_check (o_status r)) (orders d)
   \<Longrightarrow> list_all status_check (map o_status (orders d))"
  by (simp add: list_all_iff)


section \<open>Properties of \<^verbatim>\<open>PUT /api/orders/:id\<close>\<close>

lemma copy_defined_keys8:
  "fst ` set (copy_defined b k1 @ copy_defined b k2 @ copy_defined b k3 @ copy_defined b k4
     @ copy_defined b k5 @ copy_defined b k6 @ copy_defined b k7 @ copy_defined b k8 @ [])
   \<subseteq> set [k1, k2, k3, k4, k5, k6, k7, k8]"
  by (auto simp: copy_defined_def)

lemma build_update_data_split:
  "build_update_data a body =
     build_update_data False body
     @ (if a \<and> js_get body ''completed_at'' \<noteq> JUndefined
        then [(''completed_at'', js_get body ''completed_at'')] else [])"
  by (simp add: build_update_data_def)

lemma build_update_data_viewer_keys:
  "fst ` set (build_update_data False body) \<subseteq> set common_keys"
proof -
  have "build_update_data False body =
     copy_defined body ''customer_name'' @ copy_defined body ''order_details''
     @ copy_defined body ''location'' @ copy_defined body ''phone_number''
     @ copy_defined body ''pickup_date'' @ copy_defined body ''meta_business_link''
     @ copy_defined body ''image'' @ copy_defined body ''status'' @ []"
    by (simp add: build_update_data_def)
  then show ?thesis
    unfolding common_keys_def by (simp only: copy_defined_keys8)
qed

lemma completed_at_not_common: "''completed_at'' \<notin> set common_keys"
  by (simp add: common_keys_def)

lemma put_order_accepted:
  assumes "put_order e fs (Some u) i body d = (OrderJson c msg order, d')"
  obtains d1 oldOrder where
    "update_order_single e i (build_update_data (u_role u = ''admin'') body) d
       = (Returned order, d1)"
    and "d' = notify_after_update e (admin_lookup fs) (notification_insert fs)
               (u_role u = ''admin'') oldOrder (build_update_data (u_role u = ''admin'') body)
               order d1"
    and "oldOrder =
           (case fst (with_fault (old_order_fetch fs) (select_order_single i) d) of
              Returned r \<Rightarrow> Some r | _ \<Rightarrow> None)"
    and "admin_client e" and "order_update fs = NoFault"
    and "c = 200" and "msg = ''Order updated successfully''"
proof -
  have sel: "\<And>x d1. with_fault (old_order_fetch fs) (select_order_single i) d = (x, d1)
              \<Longrightarrow> d1 = d"
    using with_fault_select_db [of "old_order_fetch fs" i d] by simp
  show ?thesis
    using assms that sel unfolding put_order_def put_order_update_def
    by (simp add: Let_def with_fault_def
          split: if_splits prod.splits call.splits fault.splits)
qed

lemma build_update_data_completed_at:
  assumes "set_order_columns e (build_update_data a body) old = Inr new0"
  shows "o_completed_at new0 =
           (if a \<and> js_get body ''completed_at'' \<noteq> JUndefined
            then column_value (timestamptz_in e) (js_get body ''completed_at'')
            else o_completed_at old)"
proof -
  let ?tail = "if a \<and> js_get body ''completed_at'' \<noteq> JUndefined
        then [(''completed_at'', js_get body ''completed_at'')] else []"
  from assms obtain r1
    where 1: "set_order_columns e (build_update_data False body) old = Inr r1"
      and 2: "set_order_columns e ?tail r1 = Inr new0"
    by (subst (asm) build_update_data_split)
       (auto simp: set_order_columns_append split: sum.splits)
  have "''completed_at'' \<notin> fst ` set (build_update_data False body)"
    using build_update_data_viewer_keys [of body] completed_at_not_common by blast
  then have 3: "o_completed_at r1 = o_completed_at old"
    using set_order_columns_completed_at [OF 1] by simp
  show ?thesis
  proof (cases "a \<and> js_get body ''completed_at'' \<noteq> JUndefined")
    case True
    then have "?tail = [(''completed_at'', js_get body ''completed_at'')]" by auto
    with 2 have "set_order_column e ''completed_at'' (js_get body ''completed_at'') r1 = Inr new0"
      by (simp split: sum.splits)
    then have "new0 = r1\<lparr>o_completed_at :=
                   column_value (timestamptz_in e) (js_get body ''completed_at'')\<rparr>"
      using True by (auto simp: set_order_column_def split: sum.splits dest: typed_column_value)
    then show ?thesis using True by simp
  next
    case False
    then have "?tail = []" by auto
    with 2 have "new0 = r1" by simp
    then show ?thesis using False 3 by auto
  qed
qed

text \<open>
  C1, as the code has it. After an accepted update of an order: when the update changed
  the status, \<^verbatim>\<open>completed_at\<close> is the time of the update if the new status is
  \<^verbatim>\<open>completed\<close> and null otherwise, whatever the payload said about it; when the status
  stayed as it was, \<^verbatim>\<open>completed_at\<close> is what an admin's payload gave for it (the timestamp
  the store read from the text, or null), and is untouched when the payload does not name
  it or the caller is not an admin. The order is the one whose id the path parameter
  spells.
\<close>

theorem put_order_completed_at:
  assumes ok: "put_order e fs (Some u) i body d = (OrderJson c msg order, d')"
    and id: "uuid_in i = Some oid"
    and old: "find (\<lambda>r. o_id r = oid) (orders d) = Some old"
  shows "(o_status order \<noteq> o_status old \<longrightarrow>
            o_completed_at order = (if o_status order = ''completed'' then Some (now e) else None))
       \<and> (o_status order = o_status old \<longrightarrow>
            o_completed_at order =
              (if u_role u = ''admin'' \<and> js_get body ''completed_at'' \<noteq> JUndefined
               then column_value (timestamptz_in e) (js_get body ''completed_at'')
               else o_completed_at old))"
proof -
  from ok obtain d1 where
    upd: "update_order_single e i (build_update_data (u_role u = ''admin'') body) d
            = (Returned order, d1)"
    by (rule put_order_accepted)
  from upd id old obtain new0 where
    cols: "set_order_columns e (build_update_data (u_role u = ''admin'') body) old = Inr new0"
    and new: "order = update_updated_at_column (now e) (on_order_status_change (now e) old new0)"
    by (auto elim!: update_order_single_Returned)
  have st: "o_status order = o_status new0"
    unfolding new by (rule trigger_status)
  have ca: "o_completed_at order =
     (if o_status old \<noteq> o_status new0
      then (if o_status new0 = ''completed'' then Some (now e) else None)
      else o_completed_at new0)"
    unfolding new by (rule trigger_completed_at)
  show ?thesis
    using st ca build_update_data_completed_at [OF cols] by simp
qed

text \<open>A viewer moves the pending order to \<^verbatim>\<open>completed\<close>: \<^verbatim>\<open>completed_at\<close> becomes the time of the update.\<close>

theorem put_order_completed_at_witness:
  "fst (put_order example_env no_put_faults (Some example_viewer) ''0a1b2c3d-0000-4000-8000-000000000001''
          [''status'' \<mapsto> JStr ''completed''] example_db)
     = OrderJson 200 ''Order updated successfully''
         (example_order\<lparr> o_status := ''completed'',
                         o_completed_at := Some ''2025-06-01T12:00:00+00:00'',
                         o_updated_at := ''2025-06-01T12:00:00+00:00'' \<rparr>)
   \<and> uuid_in ''0a1b2c3d-0000-4000-8000-000000000001'' = Some ''0a1b2c3d-0000-4000-8000-000000000001''
   \<and> find (\<lambda>r. o_id r = ''0a1b2c3d-0000-4000-8000-000000000001'') (orders example_db) = Some example_order
   \<and> o_completed_at
         (example_order\<lparr> o_status := ''completed'',
                         o_completed_at := Some ''2025-06-01T12:00:00+00:00'',
                         o_updated_at := ''2025-06-01T12:00:00+00:00'' \<rparr>) = Some (now example_env)"
proof -
  let ?run = "put_order example_env no_put_faults (Some example_viewer) ''0a1b2c3d-0000-4000-8000-000000000001''
                [''status'' \<mapsto> JStr ''completed''] example_db"
  let ?new = "example_order\<lparr> o_status := ''completed'',
                         o_completed_at := Some ''2025-06-01T12:00:00+00:00'',
                         o_updated_at := ''2025-06-01T12:00:00+00:00'' \<rparr>"
  have r: "fst ?run = OrderJson 200 ''Order updated successfully'' ?new"
    by code_simp
  then have ok: "?run = (OrderJson 200 ''Order updated successfully'' ?new, snd ?run)"
    by (simp add: prod_eq_iff)
  have id: "uuid_in ''0a1b2c3d-0000-4000-8000-000000000001'' = Some ''0a1b2c3d-0000-4000-8000-000000000001''"
    by code_simp
  have old: "find (\<lambda>r. o_id r = ''0a1b2c3d-0000-4000-8000-000000000001'') (orders example_db) = Some example_order"
    by code_simp
  have st: "o_status ?new \<noteq> o_status example_order"
    by code_simp
  have "o_completed_at ?new = Some (now example_env)"
    using put_order_completed_at [OF ok id old] st by simp
  with r id old show ?thesis by simp
qed

text \<open>
  C1 as stated fails: an admin's payload that names only \<^verbatim>\<open>completed_at\<close> is accepted, the
  trigger does not fire (the status did not change), and the pending order is stored with
  a \<^verbatim>\<open>completed_at\<close>.
\<close>

theorem completed_at_invariant_counterexample:
  "status_code (fst (put_order example_env no_put_faults (Some example_admin) ''0a1b2c3d-0000-4000-8000-000000000001''
          [''completed_at'' \<mapsto> JStr ''2025-01-01T00:00:00Z''] example_db)) = 200
   \<and> response_order (fst (put_order example_env no_put_faults (Some example_admin) ''0a1b2c3d-0000-4000-8000-000000000001''
          [''completed_at'' \<mapsto> JStr ''2025-01-01T00:00:00Z''] example_db))
       = Some (example_order\<lparr> o_completed_at := Some ''2025-01-01T00:00:00+00:00'',
                               o_updated_at := ''2025-06-01T12:00:00+00:00'' \<rparr>)
   \<and> orders (snd (put_order example_env no_put_faults (Some example_admin) ''0a1b2c3d-0000-4000-8000-000000000001''
          [''completed_at'' \<mapsto> JStr ''2025-01-01T00:00:00Z''] example_db))
       = [example_order\<lparr> o_completed_at := Some ''2025-01-01T00:00:00+00:00'',
                           o_updated_at := ''2025-06-01T12:00:00+00:00'' \<rparr>]
   \<and> completed_at_invariant example_order
   \<and> \<not> completed_at_invariant
         (example_order\<lparr> o_completed_at := Some ''2025-01-01T00:00:00+00:00'',
                         o_updated_at := ''2025-06-01T12:00:00+00:00'' \<rparr>)"
  by code_simp

lemma key_not_in_optional:
  "k \<noteq> k' \<Longrightarrow> k \<notin> fst ` set (if c then [(k', v)] else [])"
  by auto

lemma lookup_copy_defined:
  "lookup (copy_defined body k @ rest) k' =
     (if k = k' \<and> js_get body k \<noteq> JUndefined then js_get body k else lookup rest k')"
  by (simp add: lookup_def copy_defined_def)

lemma lookup_build_update_data_status:
  "lookup (build_update_data a body) ''status'' = js_get body ''status''"
  by (simp add: build_update_data_def lookup_copy_defined) (simp add: lookup_def)

lemma build_update_data_status:
  assumes run: "set_order_columns e (build_update_data a body) old = Inr new0"
    and st: "js_get body ''status'' = JStr s"
  shows "o_status new0 = s"
proof -
  let ?pre = "copy_defined body ''customer_name'' @ copy_defined body ''order_details''
     @ copy_defined body ''location'' @ copy_defined body ''phone_number''
     @ copy_defined body ''pickup_date'' @ copy_defined body ''meta_business_link''
     @ copy_defined body ''image''"
  let ?tail = "if a \<and> js_get body ''completed_at'' \<noteq> JUndefined
        then [(''completed_at'', js_get body ''completed_at'')] else []"
  have shape: "build_update_data a body = ?pre @ [(''status'', JStr s)] @ ?tail"
    using st by (simp add: build_update_data_def copy_defined_def)
  from run obtain r1 r2 where 1: "set_order_columns e ?pre old = Inr r1"
    and 2: "set_order_column e ''status'' (JStr s) r1 = Inr r2"
    and 3: "set_order_columns e ?tail r2 = Inr new0"
    unfolding shape by (auto simp: set_order_columns_append split: sum.splits)
  from 2 have r2: "o_status r2 = s"
    by (auto simp: set_order_column_def text_column_def)
  have "''status'' \<notin> fst ` set ?tail" by (rule key_not_in_optional) simp
  from set_order_columns_status [OF 3 this] r2 show ?thesis by simp
qed

lemma filter_unique:
  "distinct (map f xs) \<Longrightarrow> find (\<lambda>r. f r = i) xs = Some x \<Longrightarrow> filter (\<lambda>r. f r = i) xs = [x]"
proof (induction xs)
  case Nil
  then show ?case by simp
next
  case (Cons a xs)
  show ?case
  proof (cases "f a = i")
    case True
    with Cons.prems have "x = a" and "i \<notin> f ` set xs" by auto
    then have "filter (\<lambda>r. f r = i) xs = []" by (auto simp: filter_empty_conv)
    with True \<open>x = a\<close> show ?thesis by simp
  next
    case False
    with Cons show ?thesis by simp
  qed
qed

lemma select_order_single_found:
  "distinct (map o_id (orders d)) \<Longrightarrow> uuid_in i = Some u
   \<Longrightarrow> find (\<lambda>r. o_id r = u) (orders d) = Some old
   \<Longrightarrow> select_order_single i d = (Returned old, d)"
  by (simp add: select_order_single_def filter_unique)

lemma createNotificationForAdmins_delivers:
  assumes "admin_client e" and "notification_type_check type" and "oid \<noteq> []"
  shows "notifications
           (createNotificationForAdmins e NoFault NoFault title message type (Some oid) None d)
         = notifications d
           @ map (\<lambda>p. \<lparr> n_user_id = p_id p, n_title = title, n_message = message, n_type = type,
                        n_order_id = Some oid, n_read = False \<rparr>)
               (filter (\<lambda>p. p_role p = ''admin'') (user_profiles d))"
  using assms
  by (simp add: createNotificationForAdmins_def with_fault_def select_admin_ids_def
        insert_notifications_def Let_def list_all_iff comp_def)

lemma moved_type_check: "notification_type_check (moved_type s)"
  by (simp add: notification_type_check_def moved_type_def)

lemma status_check_empty: "\<not> status_check []"
  by (simp add: status_check_def order_statuses_def)

lemma status_check_nonempty: "status_check s \<Longrightarrow> s \<noteq> []"
  using status_check_empty by auto

text \<open>
  C2. An accepted update whose payload carries the status \<^verbatim>\<open>new\<close>, with the store's calls
  answering: the row now has that status; when the status before was another one, one
  notification per profile with role \<^verbatim>\<open>admin\<close> is added (the acting admin among them: no
  profile is left out), titled \<^verbatim>\<open>Order Moved:\<close> and the new status in capitals, its message
  naming the customer and the order details, its type \<^verbatim>\<open>success\<close> for \<^verbatim>\<open>completed\<close>,
  \<^verbatim>\<open>warning\<close> for \<^verbatim>\<open>declined\<close> and \<^verbatim>\<open>order\<close> otherwise; when the status before was the
  same, none is added.
\<close>

theorem put_order_status_fanout:
  assumes ok: "put_order e fs (Some u) i body d = (OrderJson c msg order, d')"
    and id: "uuid_in i = Some oid"
    and old: "find (\<lambda>r. o_id r = oid) (orders d) = Some old"
    and pk: "distinct (map o_id (orders d))"
    and st: "js_get body ''status'' = JStr new"
    and nf: "old_order_fetch fs = NoFault" "admin_lookup fs = NoFault"
            "notification_insert fs = NoFault"
  shows "o_status order = new \<and>
         notifications d' = notifications d @
           (if o_status old = new then []
            else map (\<lambda>p. \<lparr> n_user_id = p_id p,
                             n_title = ''Order Moved: '' @ toUpperCase new,
                             n_message = ''Order for '' @ o_customer_name order @ '' - ''
                                @ statusMessage new @ ''. ''
                                @ (if o_order_details order \<noteq> []
                                   then ''Details: '' @ o_order_details order else []),
                             n_type = (if new = ''completed'' then ''success''
                                       else if new = ''declined'' then ''warning'' else ''order''),
                             n_order_id = Some oid, n_read = False \<rparr>)
                   (filter (\<lambda>p. p_role p = ''admin'') (user_profiles d)))"
proof -
  let ?upd = "build_update_data (u_role u = ''admin'') body"
  from ok obtain d1 oldOrder where
    upd: "update_order_single e i ?upd d = (Returned order, d1)"
    and d': "d' = notify_after_update e (admin_lookup fs) (notification_insert fs)
               (u_role u = ''admin'') oldOrder ?upd order d1"
    and oo: "oldOrder =
           (case fst (with_fault (old_order_fetch fs) (select_order_single i) d) of
              Returned r \<Rightarrow> Some r | _ \<Rightarrow> None)"
    and ac: "admin_client e"
    by (rule put_order_accepted)
  from upd id old obtain new0 where
    cols: "set_order_columns e ?upd old = Inr new0"
    and new: "order = update_updated_at_column (now e) (on_order_status_change (now e) old new0)"
    and chk: "status_check (o_status order)"
    and d1: "d1 = d\<lparr>orders := map (\<lambda>r. if o_id r = oid then order else r) (orders d)\<rparr>"
    by (auto elim!: update_order_single_Returned)
  have status: "o_status order = new"
    unfolding new trigger_status by (rule build_update_data_status [OF cols st])
  with chk have ne: "new \<noteq> []" by (auto dest: status_check_nonempty)
  have oid: "o_id order = oid"
    unfolding new using set_order_columns_id [OF cols] old
    by (auto simp: update_updated_at_column_def on_order_status_change_def
          handle_order_completion_def dest: find_Some_iff [THEN iffD1])
  have i: "oid \<noteq> []"
    using id by (rule uuid_in_nonempty)
  have oldOrder: "oldOrder = Some old"
    unfolding oo using nf(1) select_order_single_found [OF pk id old]
    by (simp add: with_fault_def)
  have lk: "lookup ?upd ''status'' = JStr new"
    using st by (simp add: lookup_build_update_data_status)
  show ?thesis
  proof (cases "o_status old = new")
    case True
    then have "d' = d1"
      unfolding d' using lk ne oldOrder
      by (simp add: notify_after_update_def truthy_def Let_def)
    with True status d1 show ?thesis by simp
  next
    case False
    then have "d' = createNotificationForAdmins e NoFault NoFault
                 (moved_title new) (moved_message order new) (moved_type new) (Some oid) None d1"
      unfolding d' using lk ne oldOrder nf oid
      by (simp add: notify_after_update_def truthy_def Let_def to_string_def)
    then have "notifications d' = notifications d1
           @ map (\<lambda>p. \<lparr> n_user_id = p_id p, n_title = moved_title new,
                        n_message = moved_message order new, n_type = moved_type new,
                        n_order_id = Some oid, n_read = False \<rparr>)
               (filter (\<lambda>p. p_role p = ''admin'') (user_profiles d1))"
      using createNotificationForAdmins_delivers [OF ac moved_type_check i] by simp
    with False status d1 show ?thesis
      by (simp add: moved_title_def moved_message_def moved_type_def)
  qed
qed

text \<open>The first admin moves the pending order to \<^verbatim>\<open>completed\<close>: both admins are
  notified, the acting one too.\<close>

theorem put_order_status_fanout_witness:
  "uuid_in ''0a1b2c3d-0000-4000-8000-000000000001'' = Some ''0a1b2c3d-0000-4000-8000-000000000001''
   \<and> find (\<lambda>r. o_id r = ''0a1b2c3d-0000-4000-8000-000000000001'') (orders example_db) = Some example_order
   \<and> distinct (map o_id (orders example_db))
   \<and> fst (put_order example_env no_put_faults (Some example_admin) ''0a1b2c3d-0000-4000-8000-000000000001''
            [''status'' \<mapsto> JStr ''completed''] example_db)
       = OrderJson 200 ''Order updated successfully''
           (example_order\<lparr> o_status := ''completed'',
                           o_completed_at := Some ''2025-06-01T12:00:00+00:00'',
                           o_updated_at := ''2025-06-01T12:00:00+00:00'' \<rparr>)
   \<and> notifications (snd (put_order example_env no_put_faults (Some example_admin) ''0a1b2c3d-0000-4000-8000-000000000001''
            [''status'' \<mapsto> JStr ''completed''] example_db))
       = [\<lparr> n_user_id = ''7e57ad01-0000-4000-8000-00000000000a'', n_title = ''Order Moved: COMPLETED'',
            n_message = ''Order for Jane - Order moved to completed. Details: 2kg vanilla'',
            n_type = ''success'', n_order_id = Some ''0a1b2c3d-0000-4000-8000-000000000001'', n_read = False \<rparr>,
          \<lparr> n_user_id = ''7e57ad01-0000-4000-8000-00000000000b'', n_title = ''Order Moved: COMPLETED'',
            n_message = ''Order for Jane - Order moved to completed. Details: 2kg vanilla'',
            n_type = ''success'', n_order_id = Some ''0a1b2c3d-0000-4000-8000-000000000001'', n_read = False \<rparr>]"
proof -
  let ?body = "[''status'' \<mapsto> JStr ''completed'']"
  let ?run = "put_order example_env no_put_faults (Some example_admin) ''0a1b2c3d-0000-4000-8000-000000000001'' ?body
                example_db"
  let ?new = "example_order\<lparr> o_status := ''completed'',
                         o_completed_at := Some ''2025-06-01T12:00:00+00:00'',
                         o_updated_at := ''2025-06-01T12:00:00+00:00'' \<rparr>"
  have r: "fst ?run = OrderJson 200 ''Order updated successfully'' ?new"
    by code_simp
  then have ok: "?run = (OrderJson 200 ''Order updated successfully'' ?new, snd ?run)"
    by (simp add: prod_eq_iff)
  have old: "find (\<lambda>r. o_id r = ''0a1b2c3d-0000-4000-8000-000000000001'') (orders example_db) = Some example_order"
    by code_simp
  have pk: "distinct (map o_id (orders example_db))"
    by code_simp
  have st: "js_get ?body ''status'' = JStr ''completed''"
    by (simp add: js_get_def)
  have nf: "old_order_fetch no_put_faults = NoFault" "admin_lookup no_put_faults = NoFault"
    "notification_insert no_put_faults = NoFault"
    by (simp_all add: no_put_faults_def)
  have id: "uuid_in ''0a1b2c3d-0000-4000-8000-000000000001'' = Some ''0a1b2c3d-0000-4000-8000-000000000001''"
    by code_simp
  have rhs: "notifications example_db @
           (if o_status example_order = ''completed'' then []
            else map (\<lambda>p. \<lparr> n_user_id = p_id p,
                             n_title = ''Order Moved: '' @ toUpperCase ''completed'',
                             n_message = ''Order for '' @ o_customer_name ?new @ '' - ''
                                @ statusMessage ''completed'' @ ''. ''
                                @ (if o_order_details ?new \<noteq> []
                                   then ''Details: '' @ o_order_details ?new else []),
                             n_type = (if ''completed'' = ''completed'' then ''success''
                                       else if ''completed'' = ''declined'' then ''warning''
                                       else ''order''),
                             n_order_id = Some ''0a1b2c3d-0000-4000-8000-000000000001'', n_read = False \<rparr>)
                   (filter (\<lambda>p. p_role p = ''admin'') (user_profiles example_db)))
       = [\<lparr> n_user_id = ''7e57ad01-0000-4000-8000-00000000000a'', n_title = ''Order Moved: COMPLETED'',
            n_message = ''Order for Jane - Order moved to completed. Details: 2kg vanilla'',
            n_type = ''success'', n_order_id = Some ''0a1b2c3d-0000-4000-8000-000000000001'', n_read = False \<rparr>,
          \<lparr> n_user_id = ''7e57ad01-0000-4000-8000-00000000000b'', n_title = ''Order Moved: COMPLETED'',
            n_message = ''Order for Jane - Order moved to completed. Details: 2kg vanilla'',
            n_type = ''success'', n_order_id = Some ''0a1b2c3d-0000-4000-8000-000000000001'', n_read = False \<rparr>]"
    by code_simp
  from put_order_status_fanout [OF ok id old pk st nf] rhs r id old pk
  show ?thesis by simp
qed


lemma put_order_accepted_guards:
  assumes "put_order e fs (Some u) i body d = (OrderJson c msg order, d')"
  shows "build_update_data (u_role u = ''admin'') body \<noteq> []"
    and "old_order_fetch fs \<noteq> Throws m"
  using assms unfolding put_order_def put_order_update_def
  by (simp_all add: Let_def with_fault_def
        split: if_splits prod.splits call.splits fault.splits)

lemma select_order_single_not_thrown: "select_order_single i d \<noteq> (Thrown m, d1)"
  by (simp add: select_order_single_def split: list.splits option.splits)

lemma put_order_runs:
  assumes "build_update_data (u_role u = ''admin'') body \<noteq> []"
    and "admin_client e"
    and "\<And>m. old_order_fetch fs \<noteq> Throws m"
    and "order_update fs = NoFault"
    and "update_order_single e i (build_update_data (u_role u = ''admin'') body) d
           = (Returned order, d1)"
  shows "put_order e fs (Some u) i body d =
           (OrderJson 200 ''Order updated successfully'' order,
            notify_after_update e (admin_lookup fs) (notification_insert fs)
              (u_role u = ''admin'')
              (case fst (with_fault (old_order_fetch fs) (select_order_single i) d) of
                 Returned r \<Rightarrow> Some r | _ \<Rightarrow> None)
              (build_update_data (u_role u = ''admin'') body) order d1)"
proof -
  have sel: "\<And>x d1. with_fault (old_order_fetch fs) (select_order_single i) d = (x, d1)
              \<Longrightarrow> d1 = d"
    using with_fault_select_db [of "old_order_fetch fs" i d] by simp
  show ?thesis
    using assms sel unfolding put_order_def put_order_update_def
    by (cases "old_order_fetch fs")
       (auto simp add: Let_def with_fault_def select_order_single_not_thrown
          split: prod.splits call.splits)
qed

lemma createNotificationForAdmins_frame:
  "orders (createNotificationForAdmins e fa fi title message type oid ex d) = orders d"
  by (simp add: createNotificationForAdmins_def with_fault_def select_admin_ids_def
        insert_notifications_def Let_def split: fault.splits option.splits)

lemma notify_after_update_frame:
  "orders (notify_after_update e fa fi a oldOrder upd order d) = orders d"
  by (simp add: notify_after_update_def Let_def createNotificationForAdmins_frame)

lemma update_order_single_profiles:
  "update_order_single e i upd (d\<lparr>user_profiles := ps\<rparr>) =
     (fst (update_order_single e i upd d),
      (snd (update_order_single e i upd d))\<lparr>user_profiles := ps\<rparr>)"
  by (simp add: update_order_single_def Let_def split: option.splits sum.splits)

lemma find_map_replace:
  "find (\<lambda>r. f r = i) xs = Some x \<Longrightarrow> f y = i
   \<Longrightarrow> find (\<lambda>r. f r = i) (map (\<lambda>r. if f r = i then y else r) xs) = Some y"
  by (induction xs) (auto split: if_splits)

text \<open>
  C5. When an update is accepted, it is accepted with the same row whatever the fan-out
  does: whatever the admin query and the insert of the notifications answer (an error, a
  rejected promise) and whatever profiles there are (none, or no admin), the response is
  200 with the updated order, the orders table is the same, and the updated row is in it
  under the id the path parameter spells.
\<close>

theorem fanout_failure_swallowed:
  assumes ok: "put_order e fs (Some u) i body d = (OrderJson c msg order, d')"
  shows "fst (put_order e (fs\<lparr>admin_lookup := fa, notification_insert := fi\<rparr>) (Some u) i body
                (d\<lparr>user_profiles := ps\<rparr>))
           = OrderJson 200 ''Order updated successfully'' order
       \<and> orders (snd (put_order e (fs\<lparr>admin_lookup := fa, notification_insert := fi\<rparr>)
                          (Some u) i body (d\<lparr>user_profiles := ps\<rparr>))) = orders d'
       \<and> uuid_in i = Some (o_id order)
       \<and> find (\<lambda>r. o_id r = o_id order) (orders d') = Some order"
proof -
  let ?upd = "build_update_data (u_role u = ''admin'') body"
  let ?fs = "fs\<lparr>admin_lookup := fa, notification_insert := fi\<rparr>"
  from ok obtain d1 oldOrder where
    upd: "update_order_single e i ?upd d = (Returned order, d1)"
    and d': "d' = notify_after_update e (admin_lookup fs) (notification_insert fs)
               (u_role u = ''admin'') oldOrder ?upd order d1"
    and ac: "admin_client e" and nf: "order_update fs = NoFault"
    by (rule put_order_accepted)
  from upd obtain oid old new0 where
    id: "uuid_in i = Some oid"
    and old: "find (\<lambda>r. o_id r = oid) (orders d) = Some old"
    and cols: "set_order_columns e ?upd old = Inr new0"
    and new: "order = update_updated_at_column (now e) (on_order_status_change (now e) old new0)"
    and d1: "d1 = d\<lparr>orders := map (\<lambda>r. if o_id r = oid then order else r) (orders d)\<rparr>"
    by (rule update_order_single_Returned)
  have oid: "o_id order = oid"
    unfolding new using set_order_columns_id [OF cols] old
    by (auto simp: update_updated_at_column_def on_order_status_change_def
          handle_order_completion_def dest: find_Some_iff [THEN iffD1])
  have stored: "find (\<lambda>r. o_id r = oid) (orders d') = Some order"
    unfolding d' notify_after_update_frame d1 using find_map_replace [OF old oid] by simp
  have upd': "update_order_single e i ?upd (d\<lparr>user_profiles := ps\<rparr>)
                = (Returned order, d1\<lparr>user_profiles := ps\<rparr>)"
    using upd by (simp add: update_order_single_profiles)
  have run: "put_order e ?fs (Some u) i body (d\<lparr>user_profiles := ps\<rparr>) =
           (OrderJson 200 ''Order updated successfully'' order,
            notify_after_update e (admin_lookup ?fs) (notification_insert ?fs)
              (u_role u = ''admin'')
              (case fst (with_fault (old_order_fetch ?fs) (select_order_single i)
                           (d\<lparr>user_profiles := ps\<rparr>)) of
                 Returned r \<Rightarrow> Some r | _ \<Rightarrow> None)
              ?upd order (d1\<lparr>user_profiles := ps\<rparr>))"
    using put_order_accepted_guards [OF ok] ac nf upd'
    by (intro put_order_runs) simp_all
  show ?thesis
    unfolding run using stored id oid by (simp add: notify_after_update_frame d')
qed

text \<open>The same move with the admin query rejecting, the insert failing and no profile at
  all.\<close>

theorem fanout_failure_swallowed_witness:
  "fst (put_order example_env no_put_faults (Some example_viewer) ''0a1b2c3d-0000-4000-8000-000000000001''
          [''status'' \<mapsto> JStr ''completed''] example_db)
     = OrderJson 200 ''Order updated successfully''
         (example_order\<lparr> o_status := ''completed'',
                         o_completed_at := Some ''2025-06-01T12:00:00+00:00'',
                         o_updated_at := ''2025-06-01T12:00:00+00:00'' \<rparr>)
   \<and> fst (put_order example_env
            (no_put_faults\<lparr> admin_lookup := Throws ''ECONNRESET'',
                             notification_insert := Fails (PgError ''08006'' ''connection failure'') \<rparr>)
            (Some example_viewer) ''0a1b2c3d-0000-4000-8000-000000000001'' [''status'' \<mapsto> JStr ''completed'']
            (example_db\<lparr>user_profiles := []\<rparr>))
     = OrderJson 200 ''Order updated successfully''
         (example_order\<lparr> o_status := ''completed'',
                         o_completed_at := Some ''2025-06-01T12:00:00+00:00'',
                         o_updated_at := ''2025-06-01T12:00:00+00:00'' \<rparr>)
   \<and> orders (snd (put_order example_env
            (no_put_faults\<lparr> admin_lookup := Throws ''ECONNRESET'',
                             notification_insert := Fails (PgError ''08006'' ''connection failure'') \<rparr>)
            (Some example_viewer) ''0a1b2c3d-0000-4000-8000-000000000001'' [''status'' \<mapsto> JStr ''completed'']
            (example_db\<lparr>user_profiles := []\<rparr>)))
     = [example_order\<lparr> o_status := ''completed'',
                         o_completed_at := Some ''2025-06-01T12:00:00+00:00'',
                         o_updated_at := ''2025-06-01T12:00:00+00:00'' \<rparr>]"
proof -
  let ?run = "put_order example_env no_put_faults (Some example_viewer) ''0a1b2c3d-0000-4000-8000-000000000001''
                [''status'' \<mapsto> JStr ''completed''] example_db"
  let ?new = "example_order\<lparr> o_status := ''completed'',
                         o_completed_at := Some ''2025-06-01T12:00:00+00:00'',
                         o_updated_at := ''2025-06-01T12:00:00+00:00'' \<rparr>"
  have r: "fst ?run = OrderJson 200 ''Order updated successfully'' ?new"
    by code_simp
  then have ok: "?run = (OrderJson 200 ''Order updated successfully'' ?new, snd ?run)"
    by (simp add: prod_eq_iff)
  have tbl: "orders (snd ?run) = [?new]"
    by code_simp
  from fanout_failure_swallowed [OF ok, where fa = "Throws ''ECONNRESET''"
      and fi = "Fails (PgError ''08006'' ''connection failure'')" and ps = "[]"] r tbl
  show ?thesis by simp
qed


lemma js_get_other: "k \<noteq> c \<Longrightarrow> js_get (body(c := x)) k = js_get body k"
  by (simp add: js_get_def)

lemma copy_defined_other: "k \<noteq> c \<Longrightarrow> copy_defined (body(c := x)) k = copy_defined body k"
  by (simp add: copy_defined_def js_get_other)

lemma build_update_data_viewer_drop:
  "build_update_data False (body(''completed_at'' := x)) = build_update_data False body"
  by (simp add: build_update_data_def copy_defined_other)

lemma copy_defined_Nil: "(copy_defined body k = []) = (js_get body k = JUndefined)"
  by (simp add: copy_defined_def)

lemma build_update_data_viewer_empty:
  "(build_update_data False body = []) = (\<forall>k \<in> set common_keys. js_get body k = JUndefined)"
  by (simp add: build_update_data_def common_keys_def copy_defined_Nil)

lemma put_order_viewer:
  "u_role u \<noteq> ''admin'' \<Longrightarrow>
   put_order e fs (Some u) i body d =
     (if build_update_data False body = [] then (ErrorJson 400 ''No fields to update'' None, d)
      else if \<not> admin_client e then
        (ErrorJson 500 ''Server configuration error''
           (Some ''Service role key not configured. Please contact administrator.''), d)
      else
        (case with_fault (old_order_fetch fs) (select_order_single i) d of
           (Thrown m, d1) \<Rightarrow> (ErrorJson 500 ''Failed to update order'' (Some m), d1)
         | (Failed er, d1) \<Rightarrow>
             put_order_update e fs False i (build_update_data False body) None d1
         | (Returned old, d1) \<Rightarrow>
             put_order_update e fs False i (build_update_data False body) (Some old) d1))"
  by (simp add: put_order_def Let_def)

lemma put_order_update_not_noop:
  "fst (put_order_update e fs a i upd oldOrder d) \<noteq> ErrorJson 400 ''No fields to update'' None"
  by (simp add: put_order_update_def split: prod.splits call.splits)

lemma put_order_viewer_noop_iff:
  assumes "u_role u \<noteq> ''admin''"
  shows "(fst (put_order e fs (Some u) i body d) = ErrorJson 400 ''No fields to update'' None)
         = (build_update_data False body = [])"
proof (cases "build_update_data False body = []")
  case True
  then show ?thesis by (simp add: put_order_viewer [OF assms])
next
  case False
  then show ?thesis
    by (simp add: put_order_viewer [OF assms] put_order_update_not_noop
          split: prod.splits call.splits)
qed

lemma build_update_data_only_completed_at:
  "build_update_data a [''completed_at'' \<mapsto> v] =
     (if a \<and> v \<noteq> JUndefined then [(''completed_at'', v)] else [])"
  by (simp add: build_update_data_def copy_defined_def js_get_def)

lemma set_order_column_undefined: "set_order_column e c JUndefined r = Inr r"
  by (simp add: set_order_column_def)

lemma set_order_columns_copy_defined:
  "set_order_columns e (copy_defined body k @ rest) r =
     (case set_order_column e k (js_get body k) r of
        Inl er \<Rightarrow> Inl er
      | Inr r' \<Rightarrow> set_order_columns e rest r')"
  by (cases "js_get body k = JUndefined")
     (simp_all add: copy_defined_def set_order_column_undefined)

lemma set_order_columns_copy_defined_last:
  "set_order_columns e (copy_defined body k) r =
     (case set_order_column e k (js_get body k) r of Inl er \<Rightarrow> Inl er | Inr r' \<Rightarrow> Inr r')"
  using set_order_columns_copy_defined [of e body k "[]" r] by (simp split: sum.splits)

lemma set_required_columns:
  assumes "v \<noteq> JNull"
  shows "set_order_column e ''customer_name'' v r
           = Inr (r\<lparr>o_customer_name := spec_required_field v (o_customer_name r)\<rparr>)"
    and "set_order_column e ''order_details'' v r
           = Inr (r\<lparr>o_order_details := spec_required_field v (o_order_details r)\<rparr>)"
    and "set_order_column e ''status'' v r
           = Inr (r\<lparr>o_status := spec_required_field v (o_status r)\<rparr>)"
  using assms
  by (cases v; simp add: set_order_column_def text_column_def spec_required_field_def)+

lemma set_optional_columns:
  "set_order_column e ''location'' v r
     = Inr (r\<lparr>o_location := spec_optional_field v (o_location r)\<rparr>)"
  "set_order_column e ''phone_number'' v r
     = Inr (r\<lparr>o_phone_number := spec_optional_field v (o_phone_number r)\<rparr>)"
  "set_order_column e ''meta_business_link'' v r
     = Inr (r\<lparr>o_meta_business_link := spec_optional_field v (o_meta_business_link r)\<rparr>)"
  "set_order_column e ''image'' v r
     = Inr (r\<lparr>o_image := spec_optional_field v (o_image r)\<rparr>)"
  by (cases v; simp add: set_order_column_def text_column_def spec_optional_field_def)+

lemma set_pickup_date:
  assumes "\<forall>s. v = JStr s \<longrightarrow> date_in e s \<noteq> None"
  shows "set_order_column e ''pickup_date'' v r
           = Inr (r\<lparr>o_pickup_date := spec_date_field e v (o_pickup_date r)\<rparr>)"
  using assms
  by (cases v) (auto simp: set_order_column_def typed_column_def spec_date_field_def)

lemma set_completed_at:
  assumes "v \<noteq> JUndefined" and "\<forall>s. v = JStr s \<longrightarrow> timestamptz_in e s \<noteq> None"
  shows "set_order_column e ''completed_at'' v r
           = Inr (r\<lparr>o_completed_at := column_value (timestamptz_in e) v\<rparr>)"
  using assms
  by (cases v) (auto simp: set_order_column_def typed_column_def column_value_def)

lemma set_order_columns_viewer:
  assumes "js_get body ''customer_name'' \<noteq> JNull" and "js_get body ''order_details'' \<noteq> JNull"
    and "js_get body ''status'' \<noteq> JNull"
    and "\<forall>s. js_get body ''pickup_date'' = JStr s \<longrightarrow> date_in e s \<noteq> None"
  shows "set_order_columns e (build_update_data False body) old =
     Inr (old\<lparr> o_customer_name :=
                  spec_required_field (js_get body ''customer_name'') (o_customer_name old),
               o_order_details :=
                  spec_required_field (js_get body ''order_details'') (o_order_details old),
               o_location := spec_optional_field (js_get body ''location'') (o_location old),
               o_phone_number :=
                  spec_optional_field (js_get body ''phone_number'') (o_phone_number old),
               o_pickup_date :=
                  spec_date_field e (js_get body ''pickup_date'') (o_pickup_date old),
               o_meta_business_link :=
                  spec_optional_field (js_get body ''meta_business_link'') (o_meta_business_link old),
               o_image := spec_optional_field (js_get body ''image'') (o_image old),
               o_status := spec_required_field (js_get body ''status'') (o_status old) \<rparr>)"
  using assms
  by (simp add: build_update_data_def set_order_columns_copy_defined
        set_order_columns_copy_defined_last set_required_columns set_optional_columns
        set_pickup_date)

lemma update_order_single_runs:
  assumes "uuid_in i = Some oid" and "find (\<lambda>r. o_id r = oid) (orders d) = Some old"
    and "set_order_columns e upd old = Inr new0" and "status_check (o_status new0)"
  shows "update_order_single e i upd d =
           (Returned (update_updated_at_column (now e) (on_order_status_change (now e) old new0)),
            d\<lparr>orders := map (\<lambda>r. if o_id r = oid
                                   then update_updated_at_column (now e)
                                          (on_order_status_change (now e) old new0)
                                   else r) (orders d)\<rparr>)"
  using assms by (simp add: update_order_single_def Let_def trigger_status)

lemma spec_viewer_update_triggers:
  "update_updated_at_column (now e) (on_order_status_change (now e) old
     (old\<lparr> o_customer_name :=
                  spec_required_field (js_get body ''customer_name'') (o_customer_name old),
               o_order_details :=
                  spec_required_field (js_get body ''order_details'') (o_order_details old),
               o_location := spec_optional_field (js_get body ''location'') (o_location old),
               o_phone_number :=
                  spec_optional_field (js_get body ''phone_number'') (o_phone_number old),
               o_pickup_date :=
                  spec_date_field e (js_get body ''pickup_date'') (o_pickup_date old),
               o_meta_business_link :=
                  spec_optional_field (js_get body ''meta_business_link'') (o_meta_business_link old),
               o_image := spec_optional_field (js_get body ''image'') (o_image old),
               o_status := spec_required_field (js_get body ''status'') (o_status old) \<rparr>))
   = spec_viewer_update e body old"
  by (simp add: spec_viewer_update_def Let_def update_updated_at_column_def on_order_status_change_def
        handle_order_completion_def)

lemma put_order_viewer_performed:
  assumes viewer: "u_role uv \<noteq> ''admin''"
    and key: "\<exists>k \<in> set common_keys. js_get body k \<noteq> JUndefined"
    and ac: "admin_client e"
    and f1: "\<forall>m. old_order_fetch fs \<noteq> Throws m" and f2: "order_update fs = NoFault"
    and id: "uuid_in i = Some oid" and old: "find (\<lambda>r. o_id r = oid) (orders d) = Some old"
    and nn: "js_get body ''customer_name'' \<noteq> JNull" "js_get body ''order_details'' \<noteq> JNull"
            "js_get body ''status'' \<noteq> JNull"
    and date: "\<forall>s. js_get body ''pickup_date'' = JStr s \<longrightarrow> date_in e s \<noteq> None"
    and chk: "status_check (o_status (spec_viewer_update e body old))"
  shows "fst (put_order e fs (Some uv) i body d)
           = OrderJson 200 ''Order updated successfully'' (spec_viewer_update e body old)"
    and "orders (snd (put_order e fs (Some uv) i body d))
           = map (\<lambda>r. if o_id r = oid then spec_viewer_update e body old else r) (orders d)"
proof -
  have a: "(u_role uv = ''admin'') = False" using viewer by simp
  have ne: "build_update_data (u_role uv = ''admin'') body \<noteq> []"
    unfolding a using key by (simp add: build_update_data_viewer_empty)
  note cols = set_order_columns_viewer [OF nn date, where old = old]
  have chk0: "status_check (spec_required_field (js_get body ''status'') (o_status old))"
    using chk by (simp add: spec_viewer_update_def Let_def)
  have upd: "update_order_single e i (build_update_data (u_role uv = ''admin'') body) d =
           (Returned (spec_viewer_update e body old),
            d\<lparr>orders := map (\<lambda>r. if o_id r = oid then spec_viewer_update e body old else r)
                            (orders d)\<rparr>)"
    unfolding a
    by (subst update_order_single_runs [OF id old cols]) (simp_all add: chk0 spec_viewer_update_triggers)
  have f1': "\<And>m. old_order_fetch fs \<noteq> Throws m" using f1 by simp
  note run = put_order_runs [OF ne ac f1' f2 upd]
  show "fst (put_order e fs (Some uv) i body d)
           = OrderJson 200 ''Order updated successfully'' (spec_viewer_update e body old)"
    unfolding run by simp
  show "orders (snd (put_order e fs (Some uv) i body d))
           = map (\<lambda>r. if o_id r = oid then spec_viewer_update e body old else r) (orders d)"
    unfolding run by (simp add: notify_after_update_frame)
qed

lemma put_order_admin_completed_at:
  assumes admin: "u_role ua = ''admin''" and v: "v \<noteq> JUndefined"
    and ts: "\<forall>s. v = JStr s \<longrightarrow> timestamptz_in e s \<noteq> None"
    and ac: "admin_client e"
    and f1: "old_order_fetch fs = NoFault" and f2: "order_update fs = NoFault"
    and id: "uuid_in i = Some oid" and old: "find (\<lambda>r. o_id r = oid) (orders d) = Some old"
    and chk: "status_check (o_status old)"
  shows "fst (put_order e fs (Some ua) i [''completed_at'' \<mapsto> v] d)
           = OrderJson 200 ''Order updated successfully''
               (old\<lparr>o_completed_at := column_value (timestamptz_in e) v, o_updated_at := now e\<rparr>)"
    and "orders (snd (put_order e fs (Some ua) i [''completed_at'' \<mapsto> v] d))
           = map (\<lambda>r. if o_id r = oid
                       then old\<lparr>o_completed_at := column_value (timestamptz_in e) v,
                                o_updated_at := now e\<rparr>
                       else r) (orders d)"
proof -
  let ?new = "old\<lparr>o_completed_at := column_value (timestamptz_in e) v, o_updated_at := now e\<rparr>"
  have b: "build_update_data (u_role ua = ''admin'') [''completed_at'' \<mapsto> v]
             = [(''completed_at'', v)]"
    using admin v by (simp add: build_update_data_only_completed_at)
  have ne: "build_update_data (u_role ua = ''admin'') [''completed_at'' \<mapsto> v] \<noteq> []"
    unfolding b by simp
  have cols: "set_order_columns e [(''completed_at'', v)] old
                = Inr (old\<lparr>o_completed_at := column_value (timestamptz_in e) v\<rparr>)"
    by (simp add: set_completed_at [OF v ts])
  have upd: "update_order_single e i
               (build_update_data (u_role ua = ''admin'') [''completed_at'' \<mapsto> v]) d
             = (Returned ?new,
                d\<lparr>orders := map (\<lambda>r. if o_id r = oid then ?new else r) (orders d)\<rparr>)"
    unfolding b
    by (subst update_order_single_runs [OF id old cols])
       (simp_all add: chk update_updated_at_column_def on_order_status_change_def)
  have f1': "\<And>m. old_order_fetch fs \<noteq> Throws m" using f1 by simp
  note run = put_order_runs [OF ne ac f1' f2 upd]
  show "fst (put_order e fs (Some ua) i [''completed_at'' \<mapsto> v] d)
           = OrderJson 200 ''Order updated successfully'' ?new"
    unfolding run by simp
  show "orders (snd (put_order e fs (Some ua) i [''completed_at'' \<mapsto> v] d))
           = map (\<lambda>r. if o_id r = oid then ?new else r) (orders d)"
    unfolding run by (simp add: notify_after_update_frame)
qed

text \<open>
  C3. For a caller who is not an admin, \<^verbatim>\<open>completed_at\<close> in the payload is dropped: the
  request does what it does without that key. It is refused with 400
  \<^verbatim>\<open>No fields to update\<close> exactly when none of the eight common keys is present; so a
  payload of \<^verbatim>\<open>completed_at\<close> alone is refused. When one of the common keys is present, the
  order exists, the store answers and takes the values (no null for the name, the details
  or the status, a date it can read, a status within the CHECK), the update is performed:
  the answer is 200 with the row patched by the common keys of the payload, \<^verbatim>\<open>completed_at\<close>
  being decided by the status alone, and that row replaces the old one in the table. The
  payload of \<^verbatim>\<open>completed_at\<close> alone from an admin, with a timestamp the store can read (or
  null), for an order that exists and a store that answers, is accepted and stored.
\<close>

theorem viewer_update_filter:
  assumes viewer: "u_role uv \<noteq> ''admin''"
  shows "put_order e fs (Some uv) i body d
           = put_order e fs (Some uv) i (body(''completed_at'' := None)) d
       \<and> ((fst (put_order e fs (Some uv) i body d) = ErrorJson 400 ''No fields to update'' None)
            = (\<forall>k \<in> set common_keys. js_get body k = JUndefined))
       \<and> put_order e fs (Some uv) i [''completed_at'' \<mapsto> v] d
           = (ErrorJson 400 ''No fields to update'' None, d)
       \<and> ((\<exists>k \<in> set common_keys. js_get body k \<noteq> JUndefined) \<and> admin_client e
            \<and> (\<forall>m. old_order_fetch fs \<noteq> Throws m) \<and> order_update fs = NoFault
            \<and> uuid_in i = Some oid \<and> find (\<lambda>r. o_id r = oid) (orders d) = Some old
            \<and> js_get body ''customer_name'' \<noteq> JNull \<and> js_get body ''order_details'' \<noteq> JNull
            \<and> js_get body ''status'' \<noteq> JNull
            \<and> (\<forall>s. js_get body ''pickup_date'' = JStr s \<longrightarrow> date_in e s \<noteq> None)
            \<and> status_check (o_status (spec_viewer_update e body old))
          \<longrightarrow> fst (put_order e fs (Some uv) i body d)
                = OrderJson 200 ''Order updated successfully'' (spec_viewer_update e body old)
              \<and> orders (snd (put_order e fs (Some uv) i body d))
                = map (\<lambda>r. if o_id r = oid then spec_viewer_update e body old else r) (orders d))
       \<and> (u_role ua = ''admin'' \<and> v \<noteq> JUndefined
            \<and> (\<forall>s. v = JStr s \<longrightarrow> timestamptz_in e s \<noteq> None) \<and> admin_client e
            \<and> old_order_fetch fs = NoFault \<and> order_update fs = NoFault
            \<and> uuid_in i = Some oid \<and> find (\<lambda>r. o_id r = oid) (orders d) = Some old
            \<and> status_check (o_status old)
          \<longrightarrow> fst (put_order e fs (Some ua) i [''completed_at'' \<mapsto> v] d)
                = OrderJson 200 ''Order updated successfully''
                    (old\<lparr>o_completed_at := column_value (timestamptz_in e) v,
                         o_updated_at := now e\<rparr>)
              \<and> orders (snd (put_order e fs (Some ua) i [''completed_at'' \<mapsto> v] d))
                = map (\<lambda>r. if o_id r = oid
                            then old\<lparr>o_completed_at := column_value (timestamptz_in e) v,
                                     o_updated_at := now e\<rparr>
                            else r) (orders d))"
proof -
  have 1: "put_order e fs (Some uv) i body d
          = put_order e fs (Some uv) i (body(''completed_at'' := None)) d"
    unfolding put_order_viewer [OF viewer] build_update_data_viewer_drop by (rule refl)
  have 2: "(fst (put_order e fs (Some uv) i body d) = ErrorJson 400 ''No fields to update'' None)
            = (\<forall>k \<in> set common_keys. js_get body k = JUndefined)"
    unfolding put_order_viewer_noop_iff [OF viewer] by (rule build_update_data_viewer_empty)
  have 3: "put_order e fs (Some uv) i [''completed_at'' \<mapsto> v] d
           = (ErrorJson 400 ''No fields to update'' None, d)"
    by (simp add: put_order_viewer [OF viewer] build_update_data_only_completed_at)
  have 4: "(\<exists>k \<in> set common_keys. js_get body k \<noteq> JUndefined) \<and> admin_client e
            \<and> (\<forall>m. old_order_fetch fs \<noteq> Throws m) \<and> order_update fs = NoFault
            \<and> uuid_in i = Some oid \<and> find (\<lambda>r. o_id r = oid) (orders d) = Some old
            \<and> js_get body ''customer_name'' \<noteq> JNull \<and> js_get body ''order_details'' \<noteq> JNull
            \<and> js_get body ''status'' \<noteq> JNull
            \<and> (\<forall>s. js_get body ''pickup_date'' = JStr s \<longrightarrow> date_in e s \<noteq> None)
            \<and> status_check (o_status (spec_viewer_update e body old))
          \<longrightarrow> fst (put_order e fs (Some uv) i body d)
                = OrderJson 200 ''Order updated successfully'' (spec_viewer_update e body old)
              \<and> orders (snd (put_order e fs (Some uv) i body d))
                = map (\<lambda>r. if o_id r = oid then spec_viewer_update e body old else r) (orders d)"
    using put_order_viewer_performed [OF viewer, of body e fs i oid d old] by blast
  have 5: "u_role ua = ''admin'' \<and> v \<noteq> JUndefined
            \<and> (\<forall>s. v = JStr s \<longrightarrow> timestamptz_in e s \<noteq> None) \<and> admin_client e
            \<and> old_order_fetch fs = NoFault \<and> order_update fs = NoFault
            \<and> uuid_in i = Some oid \<and> find (\<lambda>r. o_id r = oid) (orders d) = Some old
            \<and> status_check (o_status old)
          \<longrightarrow> fst (put_order e fs (Some ua) i [''completed_at'' \<mapsto> v] d)
                = OrderJson 200 ''Order updated successfully''
                    (old\<lparr>o_completed_at := column_value (timestamptz_in e) v,
                         o_updated_at := now e\<rparr>)
              \<and> orders (snd (put_order e fs (Some ua) i [''completed_at'' \<mapsto> v] d))
                = map (\<lambda>r. if o_id r = oid
                            then old\<lparr>o_completed_at := column_value (timestamptz_in e) v,
                                     o_updated_at := now e\<rparr>
                            else r) (orders d)"
    using put_order_admin_completed_at [of ua v e fs i oid d old] by blast
  from 1 2 3 4 5 show ?thesis by (intro conjI)
qed

text \<open>
  The viewer sends a location together with \<^verbatim>\<open>completed_at\<close>: the location is stored and
  \<^verbatim>\<open>completed_at\<close> stays null. The payload \<^verbatim>\<open>{completed_at}\<close> alone is refused for the viewer
  and stored, as the store reads the timestamp, for the admin.
\<close>

theorem viewer_update_filter_witness:
  "u_role example_viewer \<noteq> ''admin''
   \<and> put_order example_env no_put_faults (Some example_viewer) ''0a1b2c3d-0000-4000-8000-000000000001''
        [''completed_at'' \<mapsto> JStr ''2025-01-01T00:00:00Z''] example_db
       = (ErrorJson 400 ''No fields to update'' None, example_db)
   \<and> fst (put_order example_env no_put_faults (Some example_viewer) ''0a1b2c3d-0000-4000-8000-000000000001''
        [''location'' \<mapsto> JStr ''Quezon City'', ''completed_at'' \<mapsto> JStr ''2025-01-01T00:00:00Z'']
        example_db)
       = OrderJson 200 ''Order updated successfully''
           (example_order\<lparr> o_location := Some ''Quezon City'',
                           o_updated_at := ''2025-06-01T12:00:00+00:00'' \<rparr>)
   \<and> orders (snd (put_order example_env no_put_faults (Some example_viewer) ''0a1b2c3d-0000-4000-8000-000000000001''
        [''location'' \<mapsto> JStr ''Quezon City'', ''completed_at'' \<mapsto> JStr ''2025-01-01T00:00:00Z'']
        example_db))
       = [example_order\<lparr> o_location := Some ''Quezon City'',
                           o_updated_at := ''2025-06-01T12:00:00+00:00'' \<rparr>]
   \<and> fst (put_order example_env no_put_faults (Some example_admin) ''0a1b2c3d-0000-4000-8000-000000000001''
        [''completed_at'' \<mapsto> JStr ''2025-01-01T00:00:00Z''] example_db)
       = OrderJson 200 ''Order updated successfully''
           (example_order\<lparr> o_completed_at := Some ''2025-01-01T00:00:00+00:00'',
                           o_updated_at := ''2025-06-01T12:00:00+00:00'' \<rparr>)"
proof -
  let ?i = "''0a1b2c3d-0000-4000-8000-000000000001''"
  let ?v = "JStr ''2025-01-01T00:00:00Z''"
  let ?body = "[''location'' \<mapsto> JStr ''Quezon City'', ''completed_at'' \<mapsto> ?v]"
  have h: "u_role example_viewer \<noteq> ''admin''"
    by (simp add: example_viewer_def)
  note inst = viewer_update_filter [OF h, where e = example_env and fs = no_put_faults
      and i = ?i and d = example_db and v = ?v and ua = example_admin and old = example_order
      and oid = ?i and body = ?body]
  have loc: "js_get ?body ''location'' \<noteq> JUndefined" "''location'' \<in> set common_keys"
    by (simp_all add: js_get_def common_keys_def)
  have c4: "(\<exists>k \<in> set common_keys. js_get ?body k \<noteq> JUndefined) \<and> admin_client example_env
            \<and> (\<forall>m. old_order_fetch no_put_faults \<noteq> Throws m)
            \<and> order_update no_put_faults = NoFault
            \<and> uuid_in ?i = Some ?i
            \<and> find (\<lambda>r. o_id r = ?i) (orders example_db) = Some example_order
            \<and> js_get ?body ''customer_name'' \<noteq> JNull \<and> js_get ?body ''order_details'' \<noteq> JNull
            \<and> js_get ?body ''status'' \<noteq> JNull
            \<and> (\<forall>s. js_get ?body ''pickup_date'' = JStr s \<longrightarrow> date_in example_env s \<noteq> None)
            \<and> status_check (o_status (spec_viewer_update example_env ?body example_order))"
  proof (intro conjI)
    show "\<exists>k \<in> set common_keys. js_get ?body k \<noteq> JUndefined"
      using loc by (rule_tac x = "''location''" in bexI)
    show "admin_client example_env" by code_simp
    show "\<forall>m. old_order_fetch no_put_faults \<noteq> Throws m" by (simp add: no_put_faults_def)
    show "order_update no_put_faults = NoFault" by (simp add: no_put_faults_def)
    show "uuid_in ?i = Some ?i" by code_simp
    show "find (\<lambda>r. o_id r = ?i) (orders example_db) = Some example_order" by code_simp
    show "js_get ?body ''customer_name'' \<noteq> JNull" by (simp add: js_get_def)
    show "js_get ?body ''order_details'' \<noteq> JNull" by (simp add: js_get_def)
    show "js_get ?body ''status'' \<noteq> JNull" by (simp add: js_get_def)
    show "\<forall>s. js_get ?body ''pickup_date'' = JStr s \<longrightarrow> date_in example_env s \<noteq> None"
      by (simp add: js_get_def)
    show "status_check (o_status (spec_viewer_update example_env ?body example_order))" by code_simp
  qed
  have c5: "u_role example_admin = ''admin'' \<and> ?v \<noteq> JUndefined
     \<and> (\<forall>s. ?v = JStr s \<longrightarrow> timestamptz_in example_env s \<noteq> None)
     \<and> admin_client example_env
     \<and> old_order_fetch no_put_faults = NoFault \<and> order_update no_put_faults = NoFault
     \<and> uuid_in ?i = Some ?i
     \<and> find (\<lambda>r. o_id r = ?i) (orders example_db) = Some example_order
     \<and> status_check (o_status example_order)"
  proof (intro conjI)
    show "u_role example_admin = ''admin''" by code_simp
    show "?v \<noteq> JUndefined" by simp
    show "\<forall>s. ?v = JStr s \<longrightarrow> timestamptz_in example_env s \<noteq> None"
      by (simp add: example_env_def example_timestamptz_in_def)
    show "admin_client example_env" by code_simp
    show "old_order_fetch no_put_faults = NoFault" by (simp add: no_put_faults_def)
    show "order_update no_put_faults = NoFault" by (simp add: no_put_faults_def)
    show "uuid_in ?i = Some ?i" by code_simp
    show "find (\<lambda>r. o_id r = ?i) (orders example_db) = Some example_order" by code_simp
    show "status_check (o_status example_order)" by code_simp
  qed
  have p: "spec_viewer_update example_env ?body example_order
             = example_order\<lparr> o_location := Some ''Quezon City'',
                               o_updated_at := ''2025-06-01T12:00:00+00:00'' \<rparr>"
    by code_simp
  have q: "column_value (timestamptz_in example_env) ?v = Some ''2025-01-01T00:00:00+00:00''"
    "now example_env = ''2025-06-01T12:00:00+00:00''"
    by code_simp+
  have m: "map (\<lambda>r. if o_id r = ?i
                     then example_order\<lparr> o_location := Some ''Quezon City'',
                                         o_updated_at := ''2025-06-01T12:00:00+00:00'' \<rparr>
                     else r) (orders example_db)
           = [example_order\<lparr> o_location := Some ''Quezon City'',
                              o_updated_at := ''2025-06-01T12:00:00+00:00'' \<rparr>]"
    by code_simp
  have r3: "put_order example_env no_put_faults (Some example_viewer) ?i
              [''completed_at'' \<mapsto> ?v] example_db
            = (ErrorJson 400 ''No fields to update'' None, example_db)"
    using inst [THEN conjunct2, THEN conjunct2, THEN conjunct1] .
  have r4: "fst (put_order example_env no_put_faults (Some example_viewer) ?i ?body example_db)
              = OrderJson 200 ''Order updated successfully''
                  (spec_viewer_update example_env ?body example_order)
            \<and> orders (snd (put_order example_env no_put_faults (Some example_viewer) ?i ?body
                             example_db))
              = map (\<lambda>r. if o_id r = ?i then spec_viewer_update example_env ?body example_order else r)
                  (orders example_db)"
    using inst [THEN conjunct2, THEN conjunct2, THEN conjunct2, THEN conjunct1, THEN mp, OF c4] .
  have r5: "fst (put_order example_env no_put_faults (Some example_admin) ?i
                   [''completed_at'' \<mapsto> ?v] example_db)
              = OrderJson 200 ''Order updated successfully''
                  (example_order\<lparr>o_completed_at := column_value (timestamptz_in example_env) ?v,
                                 o_updated_at := now example_env\<rparr>)"
    using inst [THEN conjunct2, THEN conjunct2, THEN conjunct2, THEN conjunct2, THEN mp, OF c5,
                THEN conjunct1] .
  show ?thesis
    using h r3 r4 r5 unfolding p q m by simp
qed

section \<open>Properties of \<^verbatim>\<open>POST /api/orders\<close> and \<^verbatim>\<open>DELETE /api/orders/:id\<close>\<close>

lemma requireAdmin_viewer:
  "u_role u \<noteq> ''admin'' \<Longrightarrow> requireAdmin (Some u) = Respond (ErrorJson 403 ''Admin access required'' None)"
  by (simp add: requireAdmin_def)

lemma requireAdmin_admin: "u_role u = ''admin'' \<Longrightarrow> requireAdmin (Some u) = Next u"
  by (simp add: requireAdmin_def)

lemma lookup_Cons: "lookup ((k, v) # rest) k' = (if k = k' then v else lookup rest k')"
  by (simp add: lookup_def)

lemma lookup_Nil: "lookup [] k = JUndefined"
  by (simp add: lookup_def)

lemma lookup_order_data:
  "lookup (build_order_data u body) ''customer_name'' = js_get body ''customer_name''"
  "lookup (build_order_data u body) ''order_details'' = js_get body ''order_details''"
  by (simp_all add: build_order_data_def lookup_Cons)

lemma text_column_js_or_null:
  "text_column (js_or v JNull) = (if truthy v then Some (to_string v) else None)"
  by (cases v) (simp_all add: text_column_def js_or_def truthy_def to_string_def)

lemma to_string_JStr: "to_string (JStr s) = s"
  by (simp add: to_string_def)

lemma to_string_js_or: "to_string (js_or v (JStr x)) = (if truthy v then to_string v else x)"
  by (simp add: js_or_def to_string_def)

lemma column_value_js_or_null:
  "column_value reader (js_or v JNull) = (if truthy v then column_value reader v else None)"
  by (simp add: js_or_def column_value_def)

lemma text_column_optional: "text_column (js_or v JNull) = spec_optional_text v"
  by (simp add: text_column_js_or_null spec_optional_text_def)

lemma js_or_defined: "y \<noteq> JUndefined \<Longrightarrow> js_or v y \<noteq> JUndefined"
  by (cases v) (simp_all add: js_or_def truthy_def)

lemma set_nullable_columns:
  assumes "v \<noteq> JUndefined"
  shows "set_order_column e ''location'' v r = Inr (r\<lparr>o_location := text_column v\<rparr>)"
    and "set_order_column e ''phone_number'' v r = Inr (r\<lparr>o_phone_number := text_column v\<rparr>)"
    and "set_order_column e ''meta_business_link'' v r
           = Inr (r\<lparr>o_meta_business_link := text_column v\<rparr>)"
    and "set_order_column e ''image'' v r = Inr (r\<lparr>o_image := text_column v\<rparr>)"
    and "set_order_column e ''created_by'' v r = Inr (r\<lparr>o_created_by := text_column v\<rparr>)"
  using assms by (simp_all add: set_order_column_def)

lemma set_text_columns:
  "set_order_column e ''customer_name'' (JStr s) r = Inr (r\<lparr>o_customer_name := s\<rparr>)"
  "set_order_column e ''order_details'' (JStr s) r = Inr (r\<lparr>o_order_details := s\<rparr>)"
  "set_order_column e ''status'' (JStr s) r = Inr (r\<lparr>o_status := s\<rparr>)"
  by (simp_all add: set_order_column_def text_column_def)

lemma set_pickup_date_js_or:
  assumes "\<forall>s. v = JStr s \<and> s \<noteq> [] \<longrightarrow> date_in e s \<noteq> None"
  shows "set_order_column e ''pickup_date'' (js_or v JNull) r
           = Inr (r\<lparr>o_pickup_date := column_value (date_in e) (js_or v JNull)\<rparr>)"
  using assms
  by (cases v)
     (auto simp: set_order_column_def typed_column_def column_value_def js_or_def truthy_def)

lemma js_or_status: "\<exists>s. js_or v (JStr x) = JStr s"
  by (cases v) (simp_all add: js_or_def truthy_def)

lemma set_order_columns_order_data:
  assumes "js_get body ''customer_name'' = JStr name" and "js_get body ''order_details'' = JStr details"
    and "\<forall>s. js_get body ''pickup_date'' = JStr s \<and> s \<noteq> [] \<longrightarrow> date_in e s \<noteq> None"
  shows "set_order_columns e (build_order_data u body) r =
     Inr (r\<lparr> o_customer_name := name, o_order_details := details,
            o_location := spec_optional_text (js_get body ''location''),
            o_phone_number := spec_optional_text (js_get body ''phone_number''),
            o_pickup_date := column_value (date_in e) (js_or (js_get body ''pickup_date'') JNull),
            o_meta_business_link := spec_optional_text (js_get body ''meta_business_link''),
            o_image := spec_optional_text (js_get body ''image''),
            o_status := to_string (js_or (js_get body ''status'') (JStr ''incoming'')),
            o_created_by := Some (u_id u) \<rparr>)"
proof -
  obtain s where s: "js_or (js_get body ''status'') (JStr ''incoming'') = JStr s"
    using js_or_status by blast
  show ?thesis
    unfolding build_order_data_def assms(1,2) s
    by (simp add: set_text_columns set_nullable_columns js_or_defined
          set_pickup_date_js_or [OF assms(3)] text_column_optional to_string_def)
       (simp add: text_column_def)
qed

lemma build_order_data_status:
  assumes run: "set_order_columns e (build_order_data u body) r = Inr new"
  shows "o_status new = to_string (js_or (js_get body ''status'') (JStr ''incoming''))"
proof -
  let ?pre = "[(''customer_name'', js_get body ''customer_name''),
      (''order_details'', js_get body ''order_details''),
      (''location'', js_or (js_get body ''location'') JNull),
      (''phone_number'', js_or (js_get body ''phone_number'') JNull),
      (''pickup_date'', js_or (js_get body ''pickup_date'') JNull),
      (''meta_business_link'', js_or (js_get body ''meta_business_link'') JNull),
      (''image'', js_or (js_get body ''image'') JNull)]"
  let ?v = "js_or (js_get body ''status'') (JStr ''incoming'')"
  let ?tail = "[(''created_by'', JStr (u_id u))]"
  have shape: "build_order_data u body = ?pre @ [(''status'', ?v)] @ ?tail"
    by (simp add: build_order_data_def)
  from run obtain r1 r2 where 1: "set_order_columns e ?pre r = Inr r1"
    and 2: "set_order_column e ''status'' ?v r1 = Inr r2"
    and 3: "set_order_columns e ?tail r2 = Inr new"
    unfolding shape set_order_columns_append
    by (auto simp del: set_order_columns.simps
          simp add: set_order_columns.simps(1) set_order_columns.simps(2) [of e "''status''"]
          split: sum.splits)
  obtain s where s: "?v = JStr s"
    using js_or_status by blast
  from 2 have r2: "o_status r2 = s"
    unfolding s by (auto simp: set_order_column_def text_column_def)
  have "''status'' \<notin> fst ` set ?tail" by simp
  from set_order_columns_status [OF 3 this] r2 show ?thesis
    unfolding s by (simp add: to_string_def)
qed

lemma insert_order_single_refused:
  assumes "\<And>r new. set_order_columns e cols r = Inr new \<Longrightarrow> \<not> status_check (o_status new)"
  shows "\<exists>er. insert_order_single e cols d = (Failed er, d)"
proof (cases "set_order_columns e cols
                \<lparr> o_id = fresh_id e, o_customer_name = [], o_order_details = [],
                  o_location = None, o_phone_number = None, o_pickup_date = None,
                  o_meta_business_link = None, o_image = None, o_status = ''incoming'',
                  o_created_at = now e, o_completed_at = None, o_created_by = None,
                  o_updated_at = now e \<rparr>")
  case (Inl er)
  then show ?thesis by (simp add: insert_order_single_def)
next
  case (Inr new)
  with assms have "\<not> status_check (o_status new)" by blast
  with Inr show ?thesis by (simp add: insert_order_single_def)
qed

lemma post_order_refused:
  assumes adm: "u_role u = ''admin''"
    and name: "truthy (js_get body ''customer_name'')"
    and details: "truthy (js_get body ''order_details'')"
    and st: "truthy (js_get body ''status'')"
    and chk: "\<not> status_check (to_string (js_get body ''status''))"
    and ac: "admin_client e"
  shows "status_code (fst (post_order e NoFault (Some u) body d)) = 400"
    and "snd (post_order e NoFault (Some u) body d) = d"
proof -
  have v: "to_string (js_or (js_get body ''status'') (JStr ''incoming''))
             = to_string (js_get body ''status'')"
    using st by (simp add: js_or_def)
  have "\<And>r new. set_order_columns e (build_order_data u body) r = Inr new
          \<Longrightarrow> \<not> status_check (o_status new)"
    using chk by (simp add: build_order_data_status v)
  then obtain er where
    ins: "insert_order_single e (build_order_data u body) d = (Failed er, d)"
    using insert_order_single_refused by blast
  have run: "post_order e NoFault (Some u) body d = (ErrorJson 400 (err_message er) None, d)"
    using adm name details ac
    by (simp add: post_order_def requireAdmin_admin post_order_handler_def Let_def
          lookup_order_data with_fault_def ins)
  show "status_code (fst (post_order e NoFault (Some u) body d)) = 400"
    unfolding run by simp
  show "snd (post_order e NoFault (Some u) body d) = d"
    unfolding run by simp
qed

lemma post_order_created:
  assumes adm: "u_role u = ''admin''"
    and name: "js_get body ''customer_name'' = JStr name" "name \<noteq> []"
    and details: "js_get body ''order_details'' = JStr details" "details \<noteq> []"
    and pd: "\<forall>s. js_get body ''pickup_date'' = JStr s \<and> s \<noteq> [] \<longrightarrow> date_in e s \<noteq> None"
    and chk: "status_check (to_string (js_or (js_get body ''status'') (JStr ''incoming'')))"
    and ac: "admin_client e" and fresh: "fresh_id e \<notin> set (map o_id (orders d))"
  shows "post_order e NoFault (Some u) body d
           = (OrderJson 201 ''Order created successfully'' (spec_created_order e u body),
              d\<lparr>orders := orders d @ [spec_created_order e u body]\<rparr>)"
proof -
  have cols: "set_order_columns e (build_order_data u body)
          \<lparr> o_id = fresh_id e, o_customer_name = [], o_order_details = [],
            o_location = None, o_phone_number = None, o_pickup_date = None,
            o_meta_business_link = None, o_image = None, o_status = ''incoming'',
            o_created_at = now e, o_completed_at = None, o_created_by = None,
            o_updated_at = now e \<rparr>
       = Inr (spec_created_order e u body)"
    by (subst set_order_columns_order_data [OF name(1) details(1) pd])
       (simp add: spec_created_order_def name details to_string_js_or column_value_js_or_null
          to_string_JStr)
  have st: "o_status (spec_created_order e u body)
              = to_string (js_or (js_get body ''status'') (JStr ''incoming''))"
    by (simp add: spec_created_order_def to_string_js_or)
  have ins: "insert_order_single e (build_order_data u body) d =
           (Returned (spec_created_order e u body),
            d\<lparr>orders := orders d @ [spec_created_order e u body]\<rparr>)"
    unfolding insert_order_single_def cols
    using name details chk fresh by (simp add: lookup_order_data text_column_def st)
  show ?thesis
    using adm name details ac
    by (simp add: post_order_def requireAdmin_admin post_order_handler_def Let_def
          lookup_order_data truthy_def with_fault_def ins)
qed

text \<open>
  C4, as the code has it. A caller who is not an admin gets 403. An admin whose
  \<^verbatim>\<open>customer_name\<close> or \<^verbatim>\<open>order_details\<close> is missing, null or empty gets 400
  \<^verbatim>\<open>customer_name and order_details are required\<close>. An admin who supplies both, with a
  status that is absent or empty (then \<^verbatim>\<open>incoming\<close>) or one of the five the CHECK
  constraint allows, and a pickup date that is absent, empty or one the store can read,
  against a store that answers, gets 201 and the new order, stored: the fields of the
  payload (an absent or empty optional field as null), that status, no \<^verbatim>\<open>completed_at\<close>
  and the caller as \<^verbatim>\<open>created_by\<close>. An admin who supplies both with a status outside the
  five gets 400 and nothing is stored.
\<close>

theorem post_order_outcomes:
  "(u_role u \<noteq> ''admin'' \<longrightarrow>
      post_order e f (Some u) body d = (ErrorJson 403 ''Admin access required'' None, d))
   \<and> (u_role u = ''admin''
        \<and> (\<not> truthy (js_get body ''customer_name'') \<or> \<not> truthy (js_get body ''order_details''))
      \<longrightarrow> post_order e f (Some u) body d
            = (ErrorJson 400 ''customer_name and order_details are required'' None, d))
   \<and> (u_role u = ''admin''
        \<and> truthy (js_get body ''customer_name'') \<and> truthy (js_get body ''order_details'')
        \<and> status_check (if truthy (js_get body ''status'')
                         then to_string (js_get body ''status'') else ''incoming'')
        \<and> (\<forall>s. js_get body ''pickup_date'' = JStr s \<and> s \<noteq> [] \<longrightarrow> date_in e s \<noteq> None)
        \<and> admin_client e \<and> fresh_id e \<notin> set (map o_id (orders d))
      \<longrightarrow> post_order e NoFault (Some u) body d
            = (OrderJson 201 ''Order created successfully'' (spec_created_order e u body),
               d\<lparr>orders := orders d @ [spec_created_order e u body]\<rparr>)
          \<and> JStr (o_customer_name (spec_created_order e u body)) = js_get body ''customer_name''
          \<and> JStr (o_order_details (spec_created_order e u body)) = js_get body ''order_details''
          \<and> o_status (spec_created_order e u body)
              = (if truthy (js_get body ''status'')
                 then to_string (js_get body ''status'') else ''incoming'')
          \<and> o_completed_at (spec_created_order e u body) = None
          \<and> o_created_by (spec_created_order e u body) = Some (u_id u))
   \<and> (u_role u = ''admin''
        \<and> truthy (js_get body ''customer_name'') \<and> truthy (js_get body ''order_details'')
        \<and> truthy (js_get body ''status'')
        \<and> \<not> status_check (to_string (js_get body ''status''))
        \<and> admin_client e
      \<longrightarrow> status_code (fst (post_order e NoFault (Some u) body d)) = 400
          \<and> snd (post_order e NoFault (Some u) body d) = d)"
proof (intro conjI impI)
  assume "u_role u \<noteq> ''admin''"
  then show "post_order e f (Some u) body d = (ErrorJson 403 ''Admin access required'' None, d)"
    by (simp add: post_order_def requireAdmin_viewer)
next
  assume a: "u_role u = ''admin''
        \<and> (\<not> truthy (js_get body ''customer_name'') \<or> \<not> truthy (js_get body ''order_details''))"
  then show "post_order e f (Some u) body d
            = (ErrorJson 400 ''customer_name and order_details are required'' None, d)"
    by (auto simp add: post_order_def requireAdmin_admin post_order_handler_def Let_def
          lookup_order_data)
next
  assume a: "u_role u = ''admin''
        \<and> truthy (js_get body ''customer_name'') \<and> truthy (js_get body ''order_details'')
        \<and> status_check (if truthy (js_get body ''status'')
                         then to_string (js_get body ''status'') else ''incoming'')
        \<and> (\<forall>s. js_get body ''pickup_date'' = JStr s \<and> s \<noteq> [] \<longrightarrow> date_in e s \<noteq> None)
        \<and> admin_client e \<and> fresh_id e \<notin> set (map o_id (orders d))"
  then obtain name details where
    name: "js_get body ''customer_name'' = JStr name" "name \<noteq> []"
    and details: "js_get body ''order_details'' = JStr details" "details \<noteq> []"
    by (auto simp: truthy_def split: jsval.splits)
  have st: "to_string (js_or (js_get body ''status'') (JStr ''incoming''))
              = (if truthy (js_get body ''status'')
                 then to_string (js_get body ''status'') else ''incoming'')"
    by (simp add: js_or_def to_string_def)
  from a have chk: "status_check (to_string (js_or (js_get body ''status'') (JStr ''incoming'')))"
    unfolding st by simp
  from a have adm: "u_role u = ''admin''" and ac: "admin_client e"
    and fresh: "fresh_id e \<notin> set (map o_id (orders d))"
    and pd: "\<forall>s. js_get body ''pickup_date'' = JStr s \<and> s \<noteq> [] \<longrightarrow> date_in e s \<noteq> None"
    by simp_all
  show "post_order e NoFault (Some u) body d
            = (OrderJson 201 ''Order created successfully'' (spec_created_order e u body),
               d\<lparr>orders := orders d @ [spec_created_order e u body]\<rparr>)"
    by (rule post_order_created [OF adm name details pd chk ac fresh])
  show "JStr (o_customer_name (spec_created_order e u body)) = js_get body ''customer_name''"
    using name by (simp add: spec_created_order_def to_string_def)
  show "JStr (o_order_details (spec_created_order e u body)) = js_get body ''order_details''"
    using details by (simp add: spec_created_order_def to_string_def)
  show "o_status (spec_created_order e u body)
              = (if truthy (js_get body ''status'')
                 then to_string (js_get body ''status'') else ''incoming'')"
    by (simp add: spec_created_order_def)
  show "o_completed_at (spec_created_order e u body) = None"
    by (simp add: spec_created_order_def)
  show "o_created_by (spec_created_order e u body) = Some (u_id u)"
    by (simp add: spec_created_order_def)
next
  assume a: "u_role u = ''admin''
        \<and> truthy (js_get body ''customer_name'') \<and> truthy (js_get body ''order_details'')
        \<and> truthy (js_get body ''status'')
        \<and> \<not> status_check (to_string (js_get body ''status''))
        \<and> admin_client e"
  then show "status_code (fst (post_order e NoFault (Some u) body d)) = 400"
    by (intro post_order_refused) simp_all
  from a show "snd (post_order e NoFault (Some u) body d) = d"
    by (intro post_order_refused) simp_all
qed

text \<open>The viewer, the admin with an empty name, the admin with a valid payload and a
  pickup date, the admin with the status \<^verbatim>\<open>shipped\<close>.\<close>

theorem post_order_outcomes_witness:
  "post_order example_env NoFault (Some example_viewer)
       [''customer_name'' \<mapsto> JStr ''Jane'', ''order_details'' \<mapsto> JStr ''2kg vanilla'']
       example_db
     = (ErrorJson 403 ''Admin access required'' None, example_db)
   \<and> post_order example_env NoFault (Some example_admin)
       [''customer_name'' \<mapsto> JStr '''', ''order_details'' \<mapsto> JStr ''2kg vanilla'']
       example_db
     = (ErrorJson 400 ''customer_name and order_details are required'' None, example_db)
   \<and> fst (post_order example_env NoFault (Some example_admin)
       [''customer_name'' \<mapsto> JStr ''Jane'', ''order_details'' \<mapsto> JStr ''2kg vanilla'',
        ''pickup_date'' \<mapsto> JStr ''2025-12-24'']
       example_db)
     = OrderJson 201 ''Order created successfully''
         \<lparr> o_id = ''0a1b2c3d-0000-4000-8000-000000000002'', o_customer_name = ''Jane'', o_order_details = ''2kg vanilla'',
           o_location = None, o_phone_number = None, o_pickup_date = Some ''2025-12-24'',
           o_meta_business_link = None, o_image = None, o_status = ''incoming'',
           o_created_at = ''2025-06-01T12:00:00+00:00'', o_completed_at = None,
           o_created_by = Some ''7e57ad01-0000-4000-8000-00000000000a'', o_updated_at = ''2025-06-01T12:00:00+00:00'' \<rparr>
   \<and> status_code (fst (post_order example_env NoFault (Some example_admin)
       [''customer_name'' \<mapsto> JStr ''Jane'', ''order_details'' \<mapsto> JStr ''2kg vanilla'',
        ''status'' \<mapsto> JStr ''shipped'']
       example_db)) = 400
   \<and> snd (post_order example_env NoFault (Some example_admin)
       [''customer_name'' \<mapsto> JStr ''Jane'', ''order_details'' \<mapsto> JStr ''2kg vanilla'',
        ''status'' \<mapsto> JStr ''shipped'']
       example_db) = example_db"
proof -
  let ?body = "[''customer_name'' \<mapsto> JStr ''Jane'', ''order_details'' \<mapsto> JStr ''2kg vanilla'']"
  let ?empty = "[''customer_name'' \<mapsto> JStr '''', ''order_details'' \<mapsto> JStr ''2kg vanilla'']"
  let ?dated = "[''customer_name'' \<mapsto> JStr ''Jane'', ''order_details'' \<mapsto> JStr ''2kg vanilla'',
        ''pickup_date'' \<mapsto> JStr ''2025-12-24'']"
  let ?shipped = "[''customer_name'' \<mapsto> JStr ''Jane'', ''order_details'' \<mapsto> JStr ''2kg vanilla'',
        ''status'' \<mapsto> JStr ''shipped'']"
  note inst = post_order_outcomes [where e = example_env and d = example_db and f = NoFault]
  have v: "u_role example_viewer \<noteq> ''admin''"
    by (simp add: example_viewer_def)
  have 1: "post_order example_env NoFault (Some example_viewer) ?body example_db
             = (ErrorJson 403 ''Admin access required'' None, example_db)"
    by (rule inst [THEN conjunct1, THEN mp]) (rule v)
  have a2: "u_role example_admin = ''admin''
        \<and> (\<not> truthy (js_get ?empty ''customer_name'') \<or> \<not> truthy (js_get ?empty ''order_details''))"
    by code_simp
  have 2: "post_order example_env NoFault (Some example_admin) ?empty example_db
     = (ErrorJson 400 ''customer_name and order_details are required'' None, example_db)"
    by (rule inst [THEN conjunct2, THEN conjunct1, THEN mp]) (rule a2)
  have pd: "\<forall>s. js_get ?dated ''pickup_date'' = JStr s \<and> s \<noteq> [] \<longrightarrow> date_in example_env s \<noteq> None"
    by (simp add: js_get_def example_env_def example_date_in_def)
  have a3: "u_role example_admin = ''admin''
        \<and> truthy (js_get ?dated ''customer_name'') \<and> truthy (js_get ?dated ''order_details'')
        \<and> status_check (if truthy (js_get ?dated ''status'')
                         then to_string (js_get ?dated ''status'') else ''incoming'')
        \<and> (\<forall>s. js_get ?dated ''pickup_date'' = JStr s \<and> s \<noteq> [] \<longrightarrow> date_in example_env s \<noteq> None)
        \<and> admin_client example_env \<and> fresh_id example_env \<notin> set (map o_id (orders example_db))"
  proof (intro conjI)
    show "u_role example_admin = ''admin''" by code_simp
    show "truthy (js_get ?dated ''customer_name'')" by code_simp
    show "truthy (js_get ?dated ''order_details'')" by code_simp
    show "status_check (if truthy (js_get ?dated ''status'')
                         then to_string (js_get ?dated ''status'') else ''incoming'')"
      by code_simp
    show "\<forall>s. js_get ?dated ''pickup_date'' = JStr s \<and> s \<noteq> [] \<longrightarrow> date_in example_env s \<noteq> None"
      by (rule pd)
    show "admin_client example_env" by code_simp
    show "fresh_id example_env \<notin> set (map o_id (orders example_db))" by code_simp
  qed
  have 3: "post_order example_env NoFault (Some example_admin) ?dated example_db
            = (OrderJson 201 ''Order created successfully''
                 (spec_created_order example_env example_admin ?dated),
               example_db\<lparr>orders := orders example_db
                                      @ [spec_created_order example_env example_admin ?dated]\<rparr>)"
    using inst [THEN conjunct2, THEN conjunct2, THEN conjunct1, THEN mp, OF a3, THEN conjunct1] .
  have row: "spec_created_order example_env example_admin ?dated
     = \<lparr> o_id = ''0a1b2c3d-0000-4000-8000-000000000002'', o_customer_name = ''Jane'', o_order_details = ''2kg vanilla'',
           o_location = None, o_phone_number = None, o_pickup_date = Some ''2025-12-24'',
           o_meta_business_link = None, o_image = None, o_status = ''incoming'',
           o_created_at = ''2025-06-01T12:00:00+00:00'', o_completed_at = None,
           o_created_by = Some ''7e57ad01-0000-4000-8000-00000000000a'', o_updated_at = ''2025-06-01T12:00:00+00:00'' \<rparr>"
    by code_simp
  have a4: "u_role example_admin = ''admin''
        \<and> truthy (js_get ?shipped ''customer_name'') \<and> truthy (js_get ?shipped ''order_details'')
        \<and> truthy (js_get ?shipped ''status'')
        \<and> \<not> status_check (to_string (js_get ?shipped ''status''))
        \<and> admin_client example_env"
    by code_simp
  have 4: "status_code (fst (post_order example_env NoFault (Some example_admin) ?shipped
                               example_db)) = 400
           \<and> snd (post_order example_env NoFault (Some example_admin) ?shipped example_db)
               = example_db"
    by (rule inst [THEN conjunct2, THEN conjunct2, THEN conjunct2, THEN mp]) (rule a4)
  show ?thesis
    using 1 2 4 unfolding 3 row by simp
qed

text \<open>
  C4 as stated fails: an admin with a name and details and the status \<^verbatim>\<open>shipped\<close> is
  refused by the CHECK constraint on \<^verbatim>\<open>orders.status\<close>, and nothing is stored.
\<close>

theorem create_order_counterexample:
  "post_order example_env NoFault (Some example_admin)
       [''customer_name'' \<mapsto> JStr ''Jane'', ''order_details'' \<mapsto> JStr ''2kg vanilla'',
        ''status'' \<mapsto> JStr ''shipped'']
       example_db
     = (ErrorJson 400 (err_message (check_violation ''status'')) None, example_db)"
  by code_simp

lemma delete_order_route_admin:
  assumes "u_role u = ''admin''" and "admin_client e"
  shows "delete_order_route e NoFault (Some u) i d =
           (case uuid_in i of
              None \<Rightarrow> (ErrorJson 400 (err_message (invalid_uuid i)) None, d)
            | Some oid \<Rightarrow>
                (MessageJson 200 ''Order deleted successfully'',
                 d\<lparr> orders := filter (\<lambda>r. o_id r \<noteq> oid) (orders d),
                    notifications := filter (\<lambda>n. n_order_id n \<noteq> Some oid) (notifications d),
                    order_history := filter (\<lambda>h. h_order_id h \<noteq> oid) (order_history d) \<rparr>))"
  using assms
  by (simp add: delete_order_route_def requireAdmin_admin delete_order_handler_def
        with_fault_def delete_order_def split: option.splits)

text \<open>
  C7, as the code has it. A caller who is not an admin gets 403. For an admin, against a
  store that answers, and a path parameter that spells a uuid, the answer is 200
  \<^verbatim>\<open>Order deleted successfully\<close> and no row with that uuid is left: the row is removed when
  there was one, and the table is as it was when there was none. A path parameter that
  spells no uuid is refused by the store with 400 and nothing is removed. No request to
  this route is answered with 404.
\<close>

theorem delete_order_outcomes:
  "(u_role u \<noteq> ''admin'' \<longrightarrow>
      delete_order_route e f (Some u) i d = (ErrorJson 403 ''Admin access required'' None, d))
   \<and> (u_role u = ''admin'' \<and> admin_client e \<and> uuid_in i = Some oid \<longrightarrow>
        fst (delete_order_route e NoFault (Some u) i d)
          = MessageJson 200 ''Order deleted successfully''
        \<and> orders (snd (delete_order_route e NoFault (Some u) i d))
          = filter (\<lambda>r. o_id r \<noteq> oid) (orders d)
        \<and> oid \<notin> set (map o_id (orders (snd (delete_order_route e NoFault (Some u) i d)))))
   \<and> (u_role u = ''admin'' \<and> admin_client e \<and> uuid_in i = Some oid
        \<and> oid \<notin> set (map o_id (orders d)) \<longrightarrow>
        fst (delete_order_route e NoFault (Some u) i d)
          = MessageJson 200 ''Order deleted successfully''
        \<and> orders (snd (delete_order_route e NoFault (Some u) i d)) = orders d)
   \<and> (u_role u = ''admin'' \<and> admin_client e \<and> uuid_in i = None \<longrightarrow>
        delete_order_route e NoFault (Some u) i d
          = (ErrorJson 400 (err_message (invalid_uuid i)) None, d))
   \<and> status_code (fst (delete_order_route e f user i d)) \<noteq> 404"
proof (intro conjI impI)
  assume "u_role u \<noteq> ''admin''"
  then show "delete_order_route e f (Some u) i d
               = (ErrorJson 403 ''Admin access required'' None, d)"
    by (simp add: delete_order_route_def requireAdmin_viewer)
next
  assume a: "u_role u = ''admin'' \<and> admin_client e \<and> uuid_in i = Some oid"
  then have run: "delete_order_route e NoFault (Some u) i d =
      (MessageJson 200 ''Order deleted successfully'',
       d\<lparr> orders := filter (\<lambda>r. o_id r \<noteq> oid) (orders d),
          notifications := filter (\<lambda>n. n_order_id n \<noteq> Some oid) (notifications d),
          order_history := filter (\<lambda>h. h_order_id h \<noteq> oid) (order_history d) \<rparr>)"
    by (simp add: delete_order_route_admin)
  show "fst (delete_order_route e NoFault (Some u) i d)
          = MessageJson 200 ''Order deleted successfully''"
    unfolding run by simp
  show "orders (snd (delete_order_route e NoFault (Some u) i d))
          = filter (\<lambda>r. o_id r \<noteq> oid) (orders d)"
    unfolding run by simp
  show "oid \<notin> set (map o_id (orders (snd (delete_order_route e NoFault (Some u) i d))))"
    unfolding run by auto
next
  assume a: "u_role u = ''admin'' \<and> admin_client e \<and> uuid_in i = Some oid
        \<and> oid \<notin> set (map o_id (orders d))"
  then have run: "delete_order_route e NoFault (Some u) i d =
      (MessageJson 200 ''Order deleted successfully'',
       d\<lparr> orders := filter (\<lambda>r. o_id r \<noteq> oid) (orders d),
          notifications := filter (\<lambda>n. n_order_id n \<noteq> Some oid) (notifications d),
          order_history := filter (\<lambda>h. h_order_id h \<noteq> oid) (order_history d) \<rparr>)"
    by (simp add: delete_order_route_admin)
  from a have keep: "filter (\<lambda>r. o_id r \<noteq> oid) (orders d) = orders d"
    by (auto simp: filter_id_conv)
  show "fst (delete_order_route e NoFault (Some u) i d)
          = MessageJson 200 ''Order deleted successfully''"
    unfolding run by simp
  show "orders (snd (delete_order_route e NoFault (Some u) i d)) = orders d"
    unfolding run using keep by simp
next
  assume a: "u_role u = ''admin'' \<and> admin_client e \<and> uuid_in i = None"
  then show "delete_order_route e NoFault (Some u) i d
          = (ErrorJson 400 (err_message (invalid_uuid i)) None, d)"
    by (simp add: delete_order_route_admin)
next
  show "status_code (fst (delete_order_route e f user i d)) \<noteq> 404"
    by (simp add: delete_order_route_def requireAdmin_def delete_order_handler_def
          with_fault_def delete_order_def split: option.splits fault.splits)
qed

text \<open>
  The viewer; the admin deleting the order there is, under the spelling of the table and
  under a spelling in capitals; the admin deleting one there is not; the admin sending a
  text that is no uuid.
\<close>

theorem delete_order_outcomes_witness:
  "delete_order_route example_env NoFault (Some example_viewer) ''0a1b2c3d-0000-4000-8000-000000000001'' example_db
     = (ErrorJson 403 ''Admin access required'' None, example_db)
   \<and> fst (delete_order_route example_env NoFault (Some example_admin) ''0a1b2c3d-0000-4000-8000-000000000001'' example_db)
     = MessageJson 200 ''Order deleted successfully''
   \<and> orders (snd (delete_order_route example_env NoFault (Some example_admin) ''0a1b2c3d-0000-4000-8000-000000000001''
                     example_db)) = []
   \<and> orders (snd (delete_order_route example_env NoFault (Some example_admin) ''0A1B2C3D-0000-4000-8000-000000000001''
                     example_db)) = []
   \<and> fst (delete_order_route example_env NoFault (Some example_admin) ''0a1b2c3d-0000-4000-8000-000000000009'' example_db)
     = MessageJson 200 ''Order deleted successfully''
   \<and> orders (snd (delete_order_route example_env NoFault (Some example_admin) ''0a1b2c3d-0000-4000-8000-000000000009''
                     example_db)) = orders example_db
   \<and> delete_order_route example_env NoFault (Some example_admin) ''not-a-uuid'' example_db
     = (ErrorJson 400 (err_message (invalid_uuid ''not-a-uuid'')) None, example_db)"
proof -
  let ?i = "''0a1b2c3d-0000-4000-8000-000000000001''"
  let ?I = "''0A1B2C3D-0000-4000-8000-000000000001''"
  let ?j = "''0a1b2c3d-0000-4000-8000-000000000009''"
  note inst = delete_order_outcomes [where e = example_env and d = example_db and f = NoFault]
  have v: "u_role example_viewer \<noteq> ''admin''"
    by (simp add: example_viewer_def)
  have ids: "uuid_in ?i = Some ?i" "uuid_in ?I = Some ?i" "uuid_in ?j = Some ?j"
    "uuid_in ''not-a-uuid'' = None"
    by code_simp+
  have a: "u_role example_admin = ''admin''" "admin_client example_env"
    by (simp_all add: example_admin_def example_env_def)
  have n: "?j \<notin> set (map o_id (orders example_db))"
    by code_simp
  have f: "filter (\<lambda>r. o_id r \<noteq> ?i) (orders example_db) = []"
    by code_simp
  have 1: "delete_order_route example_env NoFault (Some example_viewer) ?i example_db
     = (ErrorJson 403 ''Admin access required'' None, example_db)"
    by (rule inst [THEN conjunct1, THEN mp]) (rule v)
  have 2: "fst (delete_order_route example_env NoFault (Some example_admin) ?i example_db)
          = MessageJson 200 ''Order deleted successfully''
        \<and> orders (snd (delete_order_route example_env NoFault (Some example_admin) ?i example_db))
          = filter (\<lambda>r. o_id r \<noteq> ?i) (orders example_db)
        \<and> ?i \<notin> set (map o_id (orders (snd (delete_order_route example_env NoFault
                                  (Some example_admin) ?i example_db))))"
    by (rule inst [where oid = ?i, THEN conjunct2, THEN conjunct1, THEN mp]) (simp add: a ids)
  have 3: "fst (delete_order_route example_env NoFault (Some example_admin) ?I example_db)
          = MessageJson 200 ''Order deleted successfully''
        \<and> orders (snd (delete_order_route example_env NoFault (Some example_admin) ?I example_db))
          = filter (\<lambda>r. o_id r \<noteq> ?i) (orders example_db)
        \<and> ?i \<notin> set (map o_id (orders (snd (delete_order_route example_env NoFault
                                  (Some example_admin) ?I example_db))))"
    by (rule inst [where oid = ?i, THEN conjunct2, THEN conjunct1, THEN mp]) (simp add: a ids)
  have 4: "fst (delete_order_route example_env NoFault (Some example_admin) ?j example_db)
          = MessageJson 200 ''Order deleted successfully''
        \<and> orders (snd (delete_order_route example_env NoFault (Some example_admin) ?j example_db))
          = orders example_db"
    by (rule inst [where oid = ?j, THEN conjunct2, THEN conjunct2, THEN conjunct1, THEN mp])
       (intro conjI a ids n)
  have 5: "delete_order_route example_env NoFault (Some example_admin) ''not-a-uuid'' example_db
     = (ErrorJson 400 (err_message (invalid_uuid ''not-a-uuid'')) None, example_db)"
    by (rule inst [THEN conjunct2, THEN conjunct2, THEN conjunct2, THEN conjunct1, THEN mp])
       (simp add: a ids)
  from 1 2 3 4 5 f show ?thesis by simp
qed

text \<open>C7 as stated fails: deleting an id that is not in the store succeeds with 200.\<close>

theorem delete_absent_counterexample:
  "delete_order_route example_env NoFault (Some example_admin) ''0a1b2c3d-0000-4000-8000-000000000009'' example_db
     = (MessageJson 200 ''Order deleted successfully'', example_db)"
  by code_simp

section \<open>Properties of \<^verbatim>\<open>POST /api/history\<close>\<close>

lemma text_column_nullish: "text_column (nullish_or v JNull) = text_column v"
  by (cases v) (simp_all add: nullish_or_def text_column_def)

lemma lookup_history_data:
  "lookup (build_history_data u body) ''order_id'' = js_get body ''order_id''"
  "lookup (build_history_data u body) ''event_type'' = js_get body ''event_type''"
  "lookup (build_history_data u body) ''user_id'' = JStr (u_id u)"
  "lookup (build_history_data u body) ''old_status'' = nullish_or (js_get body ''old_status'') JNull"
  "lookup (build_history_data u body) ''new_status'' = nullish_or (js_get body ''new_status'') JNull"
  "lookup (build_history_data u body) ''note'' = nullish_or (js_get body ''note'') JNull"
  by (simp_all add: build_history_data_def lookup_Cons)

lemma post_history_created:
  assumes adm: "u_role u = ''admin''"
    and oid: "js_get body ''order_id'' = JStr given" "given \<noteq> []" "uuid_in given = Some oid"
    and et: "js_get body ''event_type'' = JStr et" "et \<noteq> []"
    and chk: "event_type_check et" and fk: "oid \<in> set (map o_id (orders d))"
    and ac: "admin_client e" and fresh: "fresh_id e \<notin> set (map h_id (order_history d))"
  shows "post_history e NoFault (Some u) body d
           = (HistoryJson 201 ''History record created successfully''
                \<lparr> h_id = fresh_id e, h_order_id = oid, h_user_id = Some (u_id u),
                  h_event_type = et,
                  h_old_status = text_column (js_get body ''old_status''),
                  h_new_status = text_column (js_get body ''new_status''),
                  h_note = text_column (js_get body ''note''),
                  h_created_at = now e \<rparr>,
              d\<lparr>order_history := order_history d @
                [\<lparr> h_id = fresh_id e, h_order_id = oid, h_user_id = Some (u_id u),
                  h_event_type = et,
                  h_old_status = text_column (js_get body ''old_status''),
                  h_new_status = text_column (js_get body ''new_status''),
                  h_note = text_column (js_get body ''note''),
                  h_created_at = now e \<rparr>]\<rparr>)"
proof -
  have ins: "insert_history_single e (build_history_data u body) d =
          (Returned \<lparr> h_id = fresh_id e, h_order_id = oid, h_user_id = Some (u_id u),
                  h_event_type = et,
                  h_old_status = text_column (js_get body ''old_status''),
                  h_new_status = text_column (js_get body ''new_status''),
                  h_note = text_column (js_get body ''note''),
                  h_created_at = now e \<rparr>,
              d\<lparr>order_history := order_history d @
                [\<lparr> h_id = fresh_id e, h_order_id = oid, h_user_id = Some (u_id u),
                  h_event_type = et,
                  h_old_status = text_column (js_get body ''old_status''),
                  h_new_status = text_column (js_get body ''new_status''),
                  h_note = text_column (js_get body ''note''),
                  h_created_at = now e \<rparr>]\<rparr>)"
    unfolding insert_history_single_def lookup_history_data text_column_nullish
    using oid et chk fk fresh by (simp add: text_column_def Let_def)
  show ?thesis
    using adm oid et ac
    by (simp add: post_history_def requireAdmin_admin post_history_handler_def
          truthy_def with_fault_def ins)
qed

lemma insert_history_single_refused:
  assumes "lookup cols ''order_id'' = JStr given" and "lookup cols ''event_type'' = JStr et"
    and "\<not> event_type_check et
         \<or> (case uuid_in given of None \<Rightarrow> True | Some oid \<Rightarrow> oid \<notin> set (map o_id (orders d)))"
  shows "\<exists>er. insert_history_single e cols d = (Failed er, d)"
  using assms
  by (auto simp: insert_history_single_def text_column_def split: option.splits)

lemma post_history_refused:
  assumes adm: "u_role u = ''admin''"
    and oid: "truthy (js_get body ''order_id'')" and et: "truthy (js_get body ''event_type'')"
    and ac: "admin_client e"
    and bad: "\<not> event_type_check (to_string (js_get body ''event_type''))
         \<or> (case uuid_in (to_string (js_get body ''order_id'')) of
              None \<Rightarrow> True
            | Some oid \<Rightarrow> oid \<notin> set (map o_id (orders d)))"
  shows "status_code (fst (post_history e NoFault (Some u) body d)) = 400"
    and "snd (post_history e NoFault (Some u) body d) = d"
proof -
  from oid et obtain given t where
    g: "js_get body ''order_id'' = JStr given" and t: "js_get body ''event_type'' = JStr t"
    by (auto simp: truthy_def split: jsval.splits)
  have "\<exists>er. insert_history_single e (build_history_data u body) d = (Failed er, d)"
    using bad unfolding g t to_string_JStr
    by (intro insert_history_single_refused [where given = given and et = t])
       (simp_all add: lookup_history_data g t)
  then obtain er where
    ins: "insert_history_single e (build_history_data u body) d = (Failed er, d)" by blast
  have run: "post_history e NoFault (Some u) body d = (ErrorJson 400 (err_message er) None, d)"
    using adm oid et ac
    by (simp add: post_history_def requireAdmin_admin post_history_handler_def
          with_fault_def ins)
  show "status_code (fst (post_history e NoFault (Some u) body d)) = 400"
    unfolding run by simp
  show "snd (post_history e NoFault (Some u) body d) = d"
    unfolding run by simp
qed

text \<open>
  C8, as the code has it. A caller who is not an admin gets 403. An admin whose
  \<^verbatim>\<open>order_id\<close> or \<^verbatim>\<open>event_type\<close> is missing, null or empty gets 400
  \<^verbatim>\<open>order_id and event_type are required\<close>. An admin who supplies both, the
  \<^verbatim>\<open>event_type\<close> one of the four the CHECK constraint allows and the \<^verbatim>\<open>order_id\<close> spelling
  the uuid of an order in the store, against a store that answers, gets 201 and the new
  record, stored, carrying that uuid and the given \<^verbatim>\<open>event_type\<close>, the optional fields (null
  where absent) and the caller's id. An admin who supplies both with an \<^verbatim>\<open>event_type\<close>
  outside the four, or an \<^verbatim>\<open>order_id\<close> that spells no uuid or the uuid of no order, gets
  400 and nothing is stored.
\<close>

theorem post_history_outcomes:
  "(u_role u \<noteq> ''admin'' \<longrightarrow>
      post_history e f (Some u) body d = (ErrorJson 403 ''Admin access required'' None, d))
   \<and> (u_role u = ''admin''
        \<and> (\<not> truthy (js_get body ''order_id'') \<or> \<not> truthy (js_get body ''event_type''))
      \<longrightarrow> post_history e f (Some u) body d
            = (ErrorJson 400 ''order_id and event_type are required'' None, d))
   \<and> (u_role u = ''admin''
        \<and> truthy (js_get body ''order_id'') \<and> truthy (js_get body ''event_type'')
        \<and> event_type_check (to_string (js_get body ''event_type''))
        \<and> uuid_in (to_string (js_get body ''order_id'')) = Some oid
        \<and> oid \<in> set (map o_id (orders d))
        \<and> admin_client e \<and> fresh_id e \<notin> set (map h_id (order_history d))
      \<longrightarrow> (case post_history e NoFault (Some u) body d of
             (HistoryJson c m row, d') \<Rightarrow>
               c = 201 \<and> order_history d' = order_history d @ [row]
               \<and> h_order_id row = oid
               \<and> JStr (h_event_type row) = js_get body ''event_type''
               \<and> h_old_status row = text_column (js_get body ''old_status'')
               \<and> h_new_status row = text_column (js_get body ''new_status'')
               \<and> h_note row = text_column (js_get body ''note'')
               \<and> h_user_id row = Some (u_id u)
           | _ \<Rightarrow> False))
   \<and> (u_role u = ''admin''
        \<and> truthy (js_get body ''order_id'') \<and> truthy (js_get body ''event_type'')
        \<and> admin_client e
        \<and> \<not> event_type_check (to_string (js_get body ''event_type''))
      \<longrightarrow> status_code (fst (post_history e NoFault (Some u) body d)) = 400
          \<and> snd (post_history e NoFault (Some u) body d) = d)
   \<and> (u_role u = ''admin''
        \<and> truthy (js_get body ''order_id'') \<and> truthy (js_get body ''event_type'')
        \<and> admin_client e
        \<and> (case uuid_in (to_string (js_get body ''order_id'')) of
              None \<Rightarrow> True
            | Some x \<Rightarrow> x \<notin> set (map o_id (orders d)))
      \<longrightarrow> status_code (fst (post_history e NoFault (Some u) body d)) = 400
          \<and> snd (post_history e NoFault (Some u) body d) = d)"
proof (intro conjI impI)
  assume "u_role u \<noteq> ''admin''"
  then show "post_history e f (Some u) body d
               = (ErrorJson 403 ''Admin access required'' None, d)"
    by (simp add: post_history_def requireAdmin_viewer)
next
  assume "u_role u = ''admin''
        \<and> (\<not> truthy (js_get body ''order_id'') \<or> \<not> truthy (js_get body ''event_type''))"
  then show "post_history e f (Some u) body d
            = (ErrorJson 400 ''order_id and event_type are required'' None, d)"
    by (auto simp add: post_history_def requireAdmin_admin post_history_handler_def)
next
  assume a: "u_role u = ''admin''
        \<and> truthy (js_get body ''order_id'') \<and> truthy (js_get body ''event_type'')
        \<and> event_type_check (to_string (js_get body ''event_type''))
        \<and> uuid_in (to_string (js_get body ''order_id'')) = Some oid
        \<and> oid \<in> set (map o_id (orders d))
        \<and> admin_client e \<and> fresh_id e \<notin> set (map h_id (order_history d))"
  then obtain given et where
    oid: "js_get body ''order_id'' = JStr given" "given \<noteq> []"
    and et: "js_get body ''event_type'' = JStr et" "et \<noteq> []"
    by (auto simp: truthy_def split: jsval.splits)
  from a oid et have adm: "u_role u = ''admin''" and chk: "event_type_check et"
    and id: "uuid_in given = Some oid"
    and fk: "oid \<in> set (map o_id (orders d))" and ac: "admin_client e"
    and fresh: "fresh_id e \<notin> set (map h_id (order_history d))"
    by (simp_all add: to_string_def)
  show "case post_history e NoFault (Some u) body d of
             (HistoryJson c m row, d') \<Rightarrow>
               c = 201 \<and> order_history d' = order_history d @ [row]
               \<and> h_order_id row = oid
               \<and> JStr (h_event_type row) = js_get body ''event_type''
               \<and> h_old_status row = text_column (js_get body ''old_status'')
               \<and> h_new_status row = text_column (js_get body ''new_status'')
               \<and> h_note row = text_column (js_get body ''note'')
               \<and> h_user_id row = Some (u_id u)
           | _ \<Rightarrow> False"
    unfolding post_history_created [OF adm oid id et chk fk ac fresh]
    using oid et by simp
next
  assume a: "u_role u = ''admin''
        \<and> truthy (js_get body ''order_id'') \<and> truthy (js_get body ''event_type'')
        \<and> admin_client e
        \<and> \<not> event_type_check (to_string (js_get body ''event_type''))"
  then show "status_code (fst (post_history e NoFault (Some u) body d)) = 400"
    by (intro post_history_refused) simp_all
  from a show "snd (post_history e NoFault (Some u) body d) = d"
    by (intro post_history_refused) simp_all
next
  assume a: "u_role u = ''admin''
        \<and> truthy (js_get body ''order_id'') \<and> truthy (js_get body ''event_type'')
        \<and> admin_client e
        \<and> (case uuid_in (to_string (js_get body ''order_id'')) of
              None \<Rightarrow> True
            | Some x \<Rightarrow> x \<notin> set (map o_id (orders d)))"
  then show "status_code (fst (post_history e NoFault (Some u) body d)) = 400"
    by (intro post_history_refused) simp_all
  from a show "snd (post_history e NoFault (Some u) body d) = d"
    by (intro post_history_refused) simp_all
qed

text \<open>
  The viewer; the admin without \<^verbatim>\<open>event_type\<close>; the admin with a note, the order's id
  spelled in capitals; the admin with the event type \<^verbatim>\<open>shipped\<close>; the admin with the id of
  no order.
\<close>

theorem post_history_outcomes_witness:
  "post_history example_env NoFault (Some example_viewer)
       [''order_id'' \<mapsto> JStr ''0a1b2c3d-0000-4000-8000-000000000001'', ''event_type'' \<mapsto> JStr ''note'']
       example_db
     = (ErrorJson 403 ''Admin access required'' None, example_db)
   \<and> post_history example_env NoFault (Some example_admin)
       [''order_id'' \<mapsto> JStr ''0a1b2c3d-0000-4000-8000-000000000001''] example_db
     = (ErrorJson 400 ''order_id and event_type are required'' None, example_db)
   \<and> fst (post_history example_env NoFault (Some example_admin)
       [''order_id'' \<mapsto> JStr ''0A1B2C3D-0000-4000-8000-000000000001'', ''event_type'' \<mapsto> JStr ''note'',
        ''note'' \<mapsto> JStr ''called the customer'']
       example_db)
     = HistoryJson 201 ''History record created successfully''
         \<lparr> h_id = ''0a1b2c3d-0000-4000-8000-000000000002'', h_order_id = ''0a1b2c3d-0000-4000-8000-000000000001'', h_user_id = Some ''7e57ad01-0000-4000-8000-00000000000a'',
           h_event_type = ''note'', h_old_status = None, h_new_status = None,
           h_note = Some ''called the customer'', h_created_at = ''2025-06-01T12:00:00+00:00'' \<rparr>
   \<and> status_code (fst (post_history example_env NoFault (Some example_admin)
       [''order_id'' \<mapsto> JStr ''0a1b2c3d-0000-4000-8000-000000000001'', ''event_type'' \<mapsto> JStr ''shipped'']
       example_db)) = 400
   \<and> snd (post_history example_env NoFault (Some example_admin)
       [''order_id'' \<mapsto> JStr ''0a1b2c3d-0000-4000-8000-000000000009'', ''event_type'' \<mapsto> JStr ''note'']
       example_db) = example_db"
proof -
  let ?body = "[''order_id'' \<mapsto> JStr ''0a1b2c3d-0000-4000-8000-000000000001'', ''event_type'' \<mapsto> JStr ''note'']"
  let ?missing = "[''order_id'' \<mapsto> JStr ''0a1b2c3d-0000-4000-8000-000000000001'']"
  let ?full = "[''order_id'' \<mapsto> JStr ''0A1B2C3D-0000-4000-8000-000000000001'', ''event_type'' \<mapsto> JStr ''note'',
        ''note'' \<mapsto> JStr ''called the customer'']"
  let ?shipped = "[''order_id'' \<mapsto> JStr ''0a1b2c3d-0000-4000-8000-000000000001'', ''event_type'' \<mapsto> JStr ''shipped'']"
  let ?absent = "[''order_id'' \<mapsto> JStr ''0a1b2c3d-0000-4000-8000-000000000009'', ''event_type'' \<mapsto> JStr ''note'']"
  note inst = post_history_outcomes [where e = example_env and d = example_db and f = NoFault]
  have v: "u_role example_viewer \<noteq> ''admin''"
    by (simp add: example_viewer_def)
  have 1: "post_history example_env NoFault (Some example_viewer) ?body example_db
             = (ErrorJson 403 ''Admin access required'' None, example_db)"
    by (rule inst [THEN conjunct1, THEN mp]) (rule v)
  have a2: "u_role example_admin = ''admin''
        \<and> (\<not> truthy (js_get ?missing ''order_id'') \<or> \<not> truthy (js_get ?missing ''event_type''))"
    by code_simp
  have 2: "post_history example_env NoFault (Some example_admin) ?missing example_db
     = (ErrorJson 400 ''order_id and event_type are required'' None, example_db)"
    by (rule inst [THEN conjunct2, THEN conjunct1, THEN mp]) (rule a2)
  have a3: "u_role example_admin = ''admin''
        \<and> truthy (js_get ?full ''order_id'') \<and> truthy (js_get ?full ''event_type'')
        \<and> event_type_check (to_string (js_get ?full ''event_type''))
        \<and> uuid_in (to_string (js_get ?full ''order_id''))
            = Some ''0a1b2c3d-0000-4000-8000-000000000001''
        \<and> ''0a1b2c3d-0000-4000-8000-000000000001'' \<in> set (map o_id (orders example_db))
        \<and> admin_client example_env
        \<and> fresh_id example_env \<notin> set (map h_id (order_history example_db))"
    by code_simp
  have c: "case post_history example_env NoFault (Some example_admin) ?full example_db of
             (HistoryJson c m row, d') \<Rightarrow>
               c = 201 \<and> order_history d' = order_history example_db @ [row]
               \<and> h_order_id row = ''0a1b2c3d-0000-4000-8000-000000000001''
               \<and> JStr (h_event_type row) = js_get ?full ''event_type''
               \<and> h_old_status row = text_column (js_get ?full ''old_status'')
               \<and> h_new_status row = text_column (js_get ?full ''new_status'')
               \<and> h_note row = text_column (js_get ?full ''note'')
               \<and> h_user_id row = Some (u_id example_admin)
           | _ \<Rightarrow> False"
    by (rule inst [THEN conjunct2, THEN conjunct2, THEN conjunct1, THEN mp]) (rule a3)
  have 3: "fst (post_history example_env NoFault (Some example_admin) ?full example_db)
     = HistoryJson 201 ''History record created successfully''
         \<lparr> h_id = ''0a1b2c3d-0000-4000-8000-000000000002'', h_order_id = ''0a1b2c3d-0000-4000-8000-000000000001'', h_user_id = Some ''7e57ad01-0000-4000-8000-00000000000a'',
           h_event_type = ''note'', h_old_status = None, h_new_status = None,
           h_note = Some ''called the customer'', h_created_at = ''2025-06-01T12:00:00+00:00'' \<rparr>"
    by code_simp
  have a4: "u_role example_admin = ''admin''
        \<and> truthy (js_get ?shipped ''order_id'') \<and> truthy (js_get ?shipped ''event_type'')
        \<and> admin_client example_env
        \<and> \<not> event_type_check (to_string (js_get ?shipped ''event_type''))"
    by code_simp
  have 4: "status_code (fst (post_history example_env NoFault (Some example_admin) ?shipped
                               example_db)) = 400
           \<and> snd (post_history example_env NoFault (Some example_admin) ?shipped example_db)
               = example_db"
    by (rule inst [THEN conjunct2, THEN conjunct2, THEN conjunct2, THEN conjunct1, THEN mp])
       (rule a4)
  have a5: "u_role example_admin = ''admin''
        \<and> truthy (js_get ?absent ''order_id'') \<and> truthy (js_get ?absent ''event_type'')
        \<and> admin_client example_env
        \<and> (case uuid_in (to_string (js_get ?absent ''order_id'')) of
              None \<Rightarrow> True
            | Some x \<Rightarrow> x \<notin> set (map o_id (orders example_db)))"
    by code_simp
  have 5: "status_code (fst (post_history example_env NoFault (Some example_admin) ?absent
                               example_db)) = 400
           \<and> snd (post_history example_env NoFault (Some example_admin) ?absent example_db)
               = example_db"
    by (rule inst [THEN conjunct2, THEN conjunct2, THEN conjunct2, THEN conjunct2, THEN mp])
       (rule a5)
  from 1 2 3 c 4 5 show ?thesis by simp
qed

text \<open>
  C8 as stated fails: with both fields present a viewer gets 403; an \<^verbatim>\<open>order_id\<close> that is
  present but empty gets the validation error; an \<^verbatim>\<open>event_type\<close> outside the four and an
  \<^verbatim>\<open>order_id\<close> of no order are refused by the store; no record is created in any of the
  four.
\<close>

theorem history_append_counterexample:
  "post_history example_env NoFault (Some example_viewer)
       [''order_id'' \<mapsto> JStr ''0a1b2c3d-0000-4000-8000-000000000001'', ''event_type'' \<mapsto> JStr ''note'']
       example_db
     = (ErrorJson 403 ''Admin access required'' None, example_db)
   \<and> post_history example_env NoFault (Some example_admin)
       [''order_id'' \<mapsto> JStr '''', ''event_type'' \<mapsto> JStr ''note'']
       example_db
     = (ErrorJson 400 ''order_id and event_type are required'' None, example_db)
   \<and> post_history example_env NoFault (Some example_admin)
       [''order_id'' \<mapsto> JStr ''0a1b2c3d-0000-4000-8000-000000000001'', ''event_type'' \<mapsto> JStr ''shipped'']
       example_db
     = (ErrorJson 400 (err_message (check_violation ''event_type'')) None, example_db)
   \<and> post_history example_env NoFault (Some example_admin)
       [''order_id'' \<mapsto> JStr ''0a1b2c3d-0000-4000-8000-000000000009'', ''event_type'' \<mapsto> JStr ''note'']
       example_db
     = (ErrorJson 400 (err_message (foreign_key_violation ''order_id'')) None, example_db)"
  by code_simp

section \<open>Properties of \<^verbatim>\<open>authenticate\<close>\<close>

lemma no_rows_not_recursion:
  "\<not> (err_code no_rows_error = ''42P17''
      \<or> js_includes (err_message no_rows_error) ''infinite recursion'')"
  by code_simp

lemma select_profile_role_absent:
  "i \<notin> set (map p_id (user_profiles d))
   \<Longrightarrow> select_profile_role_single i d = (Failed no_rows_error, d)"
proof -
  assume "i \<notin> set (map p_id (user_profiles d))"
  then have "filter (\<lambda>p. p_id p = i) (user_profiles d) = []"
    by (auto simp: filter_empty_conv)
  then show ?thesis by (simp add: select_profile_role_single_def)
qed

text \<open>
  C6. No header, a header that does not start with \<^verbatim>\<open>Bearer \<close>, and a token the provider
  answers with an error, with no user or with a rejected promise, all get 401. A token the
  provider accepts, for a user with no profile row, with the admin client configured and
  the profile query answering, goes on as that user with role \<^verbatim>\<open>viewer\<close>.
\<close>

theorem authenticate_outcomes:
  "authenticate e getUser f None d
     = Respond (ErrorJson 401 ''Missing or invalid authorization header'' None)
   \<and> (\<not> prefix ''Bearer '' h \<longrightarrow>
        authenticate e getUser f (Some h) d
          = Respond (ErrorJson 401 ''Missing or invalid authorization header'' None))
   \<and> (prefix ''Bearer '' h \<and> getUser (drop 7 h) = Failed er \<longrightarrow>
        authenticate e getUser f (Some h) d
          = Respond (ErrorJson 401 ''Invalid or expired token'' None))
   \<and> (prefix ''Bearer '' h \<and> getUser (drop 7 h) = Returned None \<longrightarrow>
        authenticate e getUser f (Some h) d
          = Respond (ErrorJson 401 ''Invalid or expired token'' None))
   \<and> (prefix ''Bearer '' h \<and> getUser (drop 7 h) = Thrown m \<longrightarrow>
        authenticate e getUser f (Some h) d
          = Respond (ErrorJson 401 ''Authentication failed'' (Some m)))
   \<and> (prefix ''Bearer '' h \<and> getUser (drop 7 h) = Returned (Some user) \<and> admin_client e
        \<and> au_id user \<notin> set (map p_id (user_profiles d)) \<longrightarrow>
        authenticate e getUser NoFault (Some h) d
          = Next \<lparr> u_id = au_id user, u_email = au_email user, u_role = ''viewer'' \<rparr>)"
proof (intro conjI impI)
  show "authenticate e getUser f None d
     = Respond (ErrorJson 401 ''Missing or invalid authorization header'' None)"
    by (simp add: authenticate_def)
next
  assume "\<not> prefix ''Bearer '' h"
  then show "authenticate e getUser f (Some h) d
          = Respond (ErrorJson 401 ''Missing or invalid authorization header'' None)"
    by (simp add: authenticate_def)
next
  assume a: "prefix ''Bearer '' h \<and> getUser (drop 7 h) = Failed er"
  then have "h \<noteq> []" by auto
  with a show "authenticate e getUser f (Some h) d
          = Respond (ErrorJson 401 ''Invalid or expired token'' None)"
    by (simp add: authenticate_def)
next
  assume a: "prefix ''Bearer '' h \<and> getUser (drop 7 h) = Returned None"
  then have "h \<noteq> []" by auto
  with a show "authenticate e getUser f (Some h) d
          = Respond (ErrorJson 401 ''Invalid or expired token'' None)"
    by (simp add: authenticate_def)
next
  assume a: "prefix ''Bearer '' h \<and> getUser (drop 7 h) = Thrown m"
  then have "h \<noteq> []" by auto
  with a show "authenticate e getUser f (Some h) d
          = Respond (ErrorJson 401 ''Authentication failed'' (Some m))"
    by (simp add: authenticate_def)
next
  assume a: "prefix ''Bearer '' h \<and> getUser (drop 7 h) = Returned (Some user) \<and> admin_client e
        \<and> au_id user \<notin> set (map p_id (user_profiles d))"
  then have ne: "h \<noteq> []" by auto
  from a have sel: "select_profile_role_single (au_id user) d = (Failed no_rows_error, d)"
    by (intro select_profile_role_absent) simp
  from a ne show "authenticate e getUser NoFault (Some h) d
          = Next \<lparr> u_id = au_id user, u_email = au_email user, u_role = ''viewer'' \<rparr>"
    using no_rows_not_recursion
    by (simp add: authenticate_def with_fault_def sel)
qed

text \<open>A header of another scheme, a token the provider refuses, and the token of a user
  without a profile.\<close>

theorem authenticate_outcomes_witness:
  "authenticate example_env example_getUser NoFault (Some ''Basic abc'') example_db
     = Respond (ErrorJson 401 ''Missing or invalid authorization header'' None)
   \<and> authenticate example_env example_getUser NoFault (Some ''Bearer forged'') example_db
     = Respond (ErrorJson 401 ''Invalid or expired token'' None)
   \<and> authenticate example_env example_getUser NoFault (Some ''Bearer token-of-dave'') example_db
     = Next \<lparr> u_id = ''7e57ad01-0000-4000-8000-00000000000d'', u_email = Some ''dave@example.com'', u_role = ''viewer'' \<rparr>"
proof -
  note inst = authenticate_outcomes [where e = example_env and getUser = example_getUser
      and f = NoFault and d = example_db]
  have a1: "\<not> prefix ''Bearer '' ''Basic abc''"
    by simp
  have 1: "authenticate example_env example_getUser NoFault (Some ''Basic abc'') example_db
     = Respond (ErrorJson 401 ''Missing or invalid authorization header'' None)"
    by (rule inst [THEN conjunct2, THEN conjunct1, THEN mp]) (rule a1)
  have a2: "prefix ''Bearer '' ''Bearer forged''
        \<and> example_getUser (drop 7 ''Bearer forged'') = Failed (PgError ''bad_jwt'' ''invalid JWT'')"
    by (simp add: example_getUser_def)
  have 2: "authenticate example_env example_getUser NoFault (Some ''Bearer forged'') example_db
     = Respond (ErrorJson 401 ''Invalid or expired token'' None)"
    by (rule inst [THEN conjunct2, THEN conjunct2, THEN conjunct1, THEN mp]) (rule a2)
  have a3: "prefix ''Bearer '' ''Bearer token-of-dave''
        \<and> example_getUser (drop 7 ''Bearer token-of-dave'')
            = Returned (Some \<lparr> au_id = ''7e57ad01-0000-4000-8000-00000000000d'', au_email = Some ''dave@example.com'' \<rparr>)
        \<and> admin_client example_env
        \<and> au_id \<lparr> au_id = ''7e57ad01-0000-4000-8000-00000000000d'', au_email = Some ''dave@example.com'' \<rparr>
            \<notin> set (map p_id (user_profiles example_db))"
    by (simp add: example_getUser_def example_env_def example_db_def)
  have 3: "authenticate example_env example_getUser NoFault (Some ''Bearer token-of-dave'')
             example_db
     = Next \<lparr> u_id = au_id \<lparr> au_id = ''7e57ad01-0000-4000-8000-00000000000d'', au_email = Some ''dave@example.com'' \<rparr>,
              u_email = au_email \<lparr> au_id = ''7e57ad01-0000-4000-8000-00000000000d'', au_email = Some ''dave@example.com'' \<rparr>,
              u_role = ''viewer'' \<rparr>"
    by (rule inst [THEN conjunct2, THEN conjunct2, THEN conjunct2, THEN conjunct2,
          THEN conjunct2, THEN mp]) (rule a3)
  from 1 2 3 show ?thesis by simp
qed

section \<open>Properties of the registration endpoints\<close>

lemma filter_absent: "i \<notin> set (map f xs) \<Longrightarrow> filter (\<lambda>p. f p = i) xs = []"
  by (induction xs) auto

lemma create_user_Returned:
  assumes "create_user e email un role d = (Returned (Some user), d2)"
  shows "au_id user = fresh_id e \<and> profile_role_is d2 (fresh_id e) role"
proof -
  from assms obtain d1 where h: "handle_new_user (fresh_id e) email (JStr un) (JStr role) d = Inr d1"
    and u: "user = \<lparr> au_id = fresh_id e, au_email = Some email \<rparr>" and d2: "d2 = d1"
    by (auto simp: create_user_def split: sum.splits)
  from h have fresh: "fresh_id e \<notin> set (map p_id (user_profiles d))"
    and d1: "user_profiles d1 = user_profiles d @
               [\<lparr> p_id = fresh_id e, p_username = un, p_role = role, p_password_hash = None \<rparr>]"
    by (auto simp: handle_new_user_def Let_def text_column_def split: if_splits)
  from fresh have "filter (\<lambda>p. p_id p = fresh_id e) (user_profiles d) = []"
    by (rule filter_absent)
  then have "profile_role_is d1 (fresh_id e) role"
    by (simp add: profile_role_is_def d1)
  with u d2 show ?thesis by simp
qed

lemma create_user_not_thrown: "fst (create_user e email un role d) \<noteq> Thrown m"
  by (simp add: create_user_def split: sum.splits)

lemma with_fault_create_user:
  assumes "with_fault f (create_user e email un role) d = (c, d1)"
  shows "(\<forall>user. c = Returned (Some user) \<longrightarrow>
            au_id user = fresh_id e \<and> profile_role_is d1 (fresh_id e) role)
       \<and> (\<forall>m. c = Thrown m \<longrightarrow> d1 = d)"
proof (cases f)
  case NoFault
  with assms have run: "create_user e email un role d = (c, d1)"
    by (simp add: with_fault_def)
  then show ?thesis
    using create_user_Returned [of e email un role d _ d1]
      create_user_not_thrown [of e email un role d] by auto
next
  case (Fails er)
  with assms show ?thesis by (auto simp: with_fault_def)
next
  case (Throws m)
  with assms show ?thesis by (auto simp: with_fault_def)
qed

lemma create_user_retry_Returned:
  "create_user_retry n fs e email un role d = (Returned (Some user), d2)
   \<Longrightarrow> au_id user = fresh_id e \<and> profile_role_is d2 (fresh_id e) role"
proof (induction n arbitrary: fs d)
  case 0
  then show ?case by simp
next
  case (Suc n)
  obtain c d1 where w: "with_fault (case fs of [] \<Rightarrow> NoFault | f # rest \<Rightarrow> f)
                          (create_user e email un role) d = (c, d1)"
    by (cases "with_fault (case fs of [] \<Rightarrow> NoFault | f # rest \<Rightarrow> f)
                 (create_user e email un role) d")
  note facts = with_fault_create_user [OF w]
  show ?case
  proof (cases c)
    case (Returned r)
    with Suc.prems w have "r = Some user" and "d2 = d1" by simp_all
    with facts Returned show ?thesis by simp
  next
    case (Failed er)
    with Suc.prems w show ?thesis by simp
  next
    case (Thrown m)
    with facts have "d1 = d" by simp
    with Suc.prems w Thrown have "n \<noteq> 0"
      and "create_user_retry n (tl fs) e email un role d = (Returned (Some user), d2)"
      by (auto split: if_splits)
    then show ?thesis by (intro Suc.IH)
  qed
qed

lemma filter_map_replace:
  "f y = i \<Longrightarrow>
   map g (filter (\<lambda>p. f p = i) (map (\<lambda>p. if f p = i then y else p) xs))
     = map (\<lambda>p. g y) (filter (\<lambda>p. f p = i) xs)"
  by (induction xs) auto

lemma update_profile_single_role:
  assumes q: "profile_role_is d i role"
    and run: "update_profile_single i un role pw d = (c, d3)"
  shows "profile_role_is d3 i role \<and> (\<forall>profile. c = Returned profile \<longrightarrow> p_role profile = role)"
proof (cases c)
  case (Returned new)
  with run obtain old where old: "find (\<lambda>p. p_id p = i) (user_profiles d) = Some old"
    and new: "new = old\<lparr>p_username := un, p_role := role, p_password_hash := Some pw\<rparr>"
    and d3: "d3 = d\<lparr>user_profiles := map (\<lambda>p. if p_id p = i then new else p) (user_profiles d)\<rparr>"
    by (auto simp: update_profile_single_def prevent_role_change_def
          split: option.splits sum.splits if_splits)
  from old have "p_id old = i" by (auto dest: find_Some_iff [THEN iffD1])
  with new have id: "p_id new = i" and r: "p_role new = role" by simp_all
  have "map p_role (filter (\<lambda>p. p_id p = i) (user_profiles d3))
          = map (\<lambda>p. p_role new) (filter (\<lambda>p. p_id p = i) (user_profiles d))"
    unfolding d3
    using filter_map_replace [where f = p_id and g = p_role and y = new and i = i, OF id]
    by simp
  also have "\<dots> = [role]"
    using q r unfolding profile_role_is_def
    by (cases "filter (\<lambda>p. p_id p = i) (user_profiles d)") auto
  finally show ?thesis using Returned r by (simp add: profile_role_is_def)
next
  case (Failed er)
  with run have "d3 = d"
    by (auto simp: update_profile_single_def split: option.splits sum.splits if_splits)
  with q Failed show ?thesis by simp
next
  case (Thrown m)
  with run have "d3 = d"
    by (auto simp: update_profile_single_def split: option.splits sum.splits if_splits)
  with q Thrown show ?thesis by simp
qed

lemma with_fault_update_profile:
  assumes q: "profile_role_is d i role"
    and run: "with_fault f (update_profile_single i un role pw) d = (c, d3)"
  shows "profile_role_is d3 i role \<and> (\<forall>profile. c = Returned profile \<longrightarrow> p_role profile = role)"
proof (cases f)
  case NoFault
  with run have "update_profile_single i un role pw d = (c, d3)"
    by (simp add: with_fault_def)
  from update_profile_single_role [OF q this] show ?thesis .
next
  case (Fails er)
  with run q show ?thesis by (auto simp: with_fault_def)
next
  case (Throws m)
  with run q show ?thesis by (auto simp: with_fault_def)
qed

lemma with_fault_select_profile:
  assumes q: "profile_role_is d i role"
    and run: "with_fault f (select_profile_single i) d = (c, d4)"
  shows "d4 = d \<and> (\<forall>ex. c = Returned ex \<longrightarrow> p_role ex = role)"
proof (cases f)
  case NoFault
  with run have "select_profile_single i d = (c, d4)"
    by (simp add: with_fault_def)
  then show ?thesis
    using q unfolding select_profile_single_def profile_role_is_def
    by (auto split: list.splits)
next
  case (Fails er)
  with run show ?thesis by (auto simp: with_fault_def)
next
  case (Throws m)
  with run show ?thesis by (auto simp: with_fault_def)
qed

lemma with_fault_select_username: "snd (with_fault f (select_username_single n) d) = d"
  by (simp add: with_fault_def select_username_single_def split: fault.splits list.splits)

lemma provision_account_role:
  assumes run: "provision_account e fs listUsers hash role created_msg failed_msg catch_msg
                  email un pw d = (UserJson c m v, d')"
  shows "v_role v = role \<and> v_id v = fresh_id e \<and> profile_role_is d' (fresh_id e) role"
proof -
  obtain c0 d1 where w0: "with_fault (pv_username_check fs) (select_username_single un) d = (c0, d1)"
    by (cases "with_fault (pv_username_check fs) (select_username_single un) d")
  obtain c1 d2 where w1: "create_user_retry 3 (pv_create_user fs) e email un role d1 = (c1, d2)"
    by (cases "create_user_retry 3 (pv_create_user fs) e email un role d1")
  from run w0 w1 obtain user where c1: "c1 = Returned (Some user)"
    by (auto simp: provision_account_def split: call.splits if_splits option.splits)
  from create_user_retry_Returned [OF w1 [unfolded c1]]
  have uid: "au_id user = fresh_id e" and q2: "profile_role_is d2 (fresh_id e) role"
    by simp_all
  obtain c2 d3 where w2: "with_fault (pv_profile_update fs)
                            (update_profile_single (au_id user) un role (hash pw)) d2 = (c2, d3)"
    by (cases "with_fault (pv_profile_update fs)
                 (update_profile_single (au_id user) un role (hash pw)) d2")
  from with_fault_update_profile [OF q2 w2 [unfolded uid]]
  have q3: "profile_role_is d3 (fresh_id e) role"
    and r2: "\<And>profile. c2 = Returned profile \<Longrightarrow> p_role profile = role"
    by simp_all
  obtain c3 d4 where w3: "with_fault (pv_profile_fetch fs) (select_profile_single (au_id user)) d3
                            = (c3, d4)"
    by (cases "with_fault (pv_profile_fetch fs) (select_profile_single (au_id user)) d3")
  from with_fault_select_profile [OF q3 w3 [unfolded uid]]
  have d4: "d4 = d3" and r3: "\<And>ex. c3 = Returned ex \<Longrightarrow> p_role ex = role"
    by simp_all
  show ?thesis
  proof (cases c2)
    case (Returned profile)
    with run w0 w1 c1 w2 r2 [OF Returned] uid q3 show ?thesis
      by (auto simp: provision_account_def split: call.splits if_splits)
  next
    case (Thrown m2)
    with run w0 w1 c1 w2 show ?thesis
      by (auto simp: provision_account_def split: call.splits if_splits)
  next
    case (Failed er2)
    show ?thesis
    proof (cases c3)
      case (Returned ex)
      with run w0 w1 c1 w2 Failed w3 r3 [OF Returned] uid q3 d4 show ?thesis
        by (auto simp: provision_account_def split: call.splits if_splits)
    next
      case (Failed er3)
      with run w0 w1 c1 w2 \<open>c2 = Failed er2\<close> w3 uid q3 d4 show ?thesis
        by (auto simp: provision_account_def split: call.splits if_splits)
    next
      case (Thrown m3)
      with run w0 w1 c1 w2 Failed w3 show ?thesis
        by (auto simp: provision_account_def split: call.splits if_splits)
    qed
  qed
qed

lemma register_role:
  assumes run: "register e fs hash body d = (UserJson c m v, d')"
  shows "v_role v = ''viewer'' \<and> v_id v = fresh_id e \<and> profile_role_is d' (fresh_id e) ''viewer''"
proof -
  let ?un = "to_string (js_get body ''username'')"
  let ?em = "to_string (js_get body ''email'')"
  let ?pw = "to_string (js_get body ''password'')"
  obtain c0 d1 where w0: "with_fault (username_check fs) (select_username_single ?un) d = (c0, d1)"
    by (cases "with_fault (username_check fs) (select_username_single ?un) d")
  obtain c1 d2 where w1: "with_fault (sign_up fs) (create_user e ?em ?un ''viewer'') d1 = (c1, d2)"
    by (cases "with_fault (sign_up fs) (create_user e ?em ?un ''viewer'') d1")
  from run w0 w1 obtain user where c1: "c1 = Returned (Some user)"
    by (auto simp: register_def Let_def split: call.splits if_splits option.splits)
  from with_fault_create_user [OF w1] c1
  have uid: "au_id user = fresh_id e" and q2: "profile_role_is d2 (fresh_id e) ''viewer''"
    by simp_all
  obtain c2 d3 where w2: "with_fault (profile_update fs)
                            (update_profile_single (au_id user) ?un ''viewer'' (hash ?pw)) d2
                          = (c2, d3)"
    by (cases "with_fault (profile_update fs)
                 (update_profile_single (au_id user) ?un ''viewer'' (hash ?pw)) d2")
  from with_fault_update_profile [OF q2 w2 [unfolded uid]]
  have q3: "profile_role_is d3 (fresh_id e) ''viewer''"
    by simp
  from run w0 w1 c1 w2 uid q3 show ?thesis
    by (auto simp: register_def Let_def split: call.splits if_splits)
qed

lemma js_get_role_other:
  "js_get (body(''role'' := r)) ''email'' = js_get body ''email''"
  "js_get (body(''role'' := r)) ''password'' = js_get body ''password''"
  "js_get (body(''role'' := r)) ''username'' = js_get body ''username''"
  by (simp_all add: js_get_def)

text \<open>
  C10. Whenever \<^verbatim>\<open>register\<close> or \<^verbatim>\<open>create-viewer\<close> answers with the new user, the role it
  reports is \<^verbatim>\<open>viewer\<close> and the one profile of the new identity has role \<^verbatim>\<open>viewer\<close>;
  neither handler reads a \<^verbatim>\<open>role\<close> key of the body (the request does the same with any
  value there, or none). Whenever \<^verbatim>\<open>register-admin\<close> answers with the new user, the role
  reported and stored is \<^verbatim>\<open>admin\<close>.
\<close>

theorem registration_roles:
  "(register e rfs hash body d = (UserJson c m v, d') \<longrightarrow>
      v_role v = ''viewer'' \<and> profile_role_is d' (v_id v) ''viewer'')
   \<and> (create_viewer e fs listUsers hash body d = (UserJson c m v, d') \<longrightarrow>
      v_role v = ''viewer'' \<and> profile_role_is d' (v_id v) ''viewer'')
   \<and> (register_admin e fs listUsers hash body d = (UserJson c m v, d') \<longrightarrow>
      v_role v = ''admin'' \<and> profile_role_is d' (v_id v) ''admin'')
   \<and> register e rfs hash (body(''role'' := r)) d = register e rfs hash body d
   \<and> create_viewer e fs listUsers hash (body(''role'' := r)) d
       = create_viewer e fs listUsers hash body d"
proof (intro conjI impI)
  assume "register e rfs hash body d = (UserJson c m v, d')"
  from register_role [OF this]
  show "v_role v = ''viewer''" and "profile_role_is d' (v_id v) ''viewer''" by simp_all
next
  assume "create_viewer e fs listUsers hash body d = (UserJson c m v, d')"
  then have "provision_account e fs listUsers hash ''viewer'' ''Viewer created successfully''
                ''Failed to create viewer user'' ''Failed to create viewer''
                (to_string (js_get body ''email'')) (to_string (js_get body ''username''))
                (to_string (js_get body ''password'')) d = (UserJson c m v, d')"
    by (simp add: create_viewer_def Let_def split: if_splits)
  from provision_account_role [OF this]
  show "v_role v = ''viewer''" and "profile_role_is d' (v_id v) ''viewer''" by simp_all
next
  assume "register_admin e fs listUsers hash body d = (UserJson c m v, d')"
  then have "provision_account e fs listUsers hash ''admin'' ''Admin registered successfully''
                ''Failed to create admin user'' ''Failed to register admin''
                (to_string (js_get body ''email'')) (to_string (js_get body ''username''))
                (to_string (js_get body ''password'')) d = (UserJson c m v, d')"
    by (simp add: register_admin_def Let_def split: if_splits)
  from provision_account_role [OF this]
  show "v_role v = ''admin''" and "profile_role_is d' (v_id v) ''admin''" by simp_all
next
  show "register e rfs hash (body(''role'' := r)) d = register e rfs hash body d"
    unfolding register_def js_get_role_other by (rule refl)
  show "create_viewer e fs listUsers hash (body(''role'' := r)) d
       = create_viewer e fs listUsers hash body d"
    unfolding create_viewer_def js_get_role_other by (rule refl)
qed

text \<open>The same sign-up, with \<^verbatim>\<open>role: admin\<close> in its body, sent to the three endpoints.\<close>

theorem registration_roles_witness:
  "fst (register example_env no_register_faults example_hash example_signup example_db)
     = UserJson 201 ''Viewer registered successfully''
         \<lparr> v_id = ''0a1b2c3d-0000-4000-8000-000000000002'', v_email = Some ''dave@example.com'', v_username = ''dave'',
           v_role = ''viewer'' \<rparr>
   \<and> profile_role_is
         (snd (register example_env no_register_faults example_hash example_signup example_db))
         ''0a1b2c3d-0000-4000-8000-000000000002'' ''viewer''
   \<and> fst (create_viewer example_env no_provision_faults (Returned []) example_hash
            example_signup example_db)
     = UserJson 201 ''Viewer created successfully''
         \<lparr> v_id = ''0a1b2c3d-0000-4000-8000-000000000002'', v_email = Some ''dave@example.com'', v_username = ''dave'',
           v_role = ''viewer'' \<rparr>
   \<and> profile_role_is
         (snd (create_viewer example_env no_provision_faults (Returned []) example_hash
                 example_signup example_db))
         ''0a1b2c3d-0000-4000-8000-000000000002'' ''viewer''
   \<and> fst (register_admin example_env no_provision_faults (Returned []) example_hash
            example_signup example_db)
     = UserJson 201 ''Admin registered successfully''
         \<lparr> v_id = ''0a1b2c3d-0000-4000-8000-000000000002'', v_email = Some ''dave@example.com'', v_username = ''dave'',
           v_role = ''admin'' \<rparr>
   \<and> profile_role_is
         (snd (register_admin example_env no_provision_faults (Returned []) example_hash
                 example_signup example_db))
         ''0a1b2c3d-0000-4000-8000-000000000002'' ''admin''"
proof -
  let ?v = "\<lambda>role. \<lparr> v_id = ''0a1b2c3d-0000-4000-8000-000000000002'', v_email = Some ''dave@example.com'', v_username = ''dave'',
                      v_role = role \<rparr>"
  let ?r1 = "register example_env no_register_faults example_hash example_signup example_db"
  let ?r2 = "create_viewer example_env no_provision_faults (Returned []) example_hash
               example_signup example_db"
  let ?r3 = "register_admin example_env no_provision_faults (Returned []) example_hash
               example_signup example_db"
  have 1: "fst ?r1 = UserJson 201 ''Viewer registered successfully'' (?v ''viewer'')"
    by code_simp
  have 2: "fst ?r2 = UserJson 201 ''Viewer created successfully'' (?v ''viewer'')"
    by code_simp
  have 3: "fst ?r3 = UserJson 201 ''Admin registered successfully'' (?v ''admin'')"
    by code_simp
  from 1 have ok1: "?r1 = (UserJson 201 ''Viewer registered successfully'' (?v ''viewer''), snd ?r1)"
    by (simp add: prod_eq_iff)
  from 2 have ok2: "?r2 = (UserJson 201 ''Viewer created successfully'' (?v ''viewer''), snd ?r2)"
    by (simp add: prod_eq_iff)
  from 3 have ok3: "?r3 = (UserJson 201 ''Admin registered successfully'' (?v ''admin''), snd ?r3)"
    by (simp add: prod_eq_iff)
  from registration_roles [THEN conjunct1, THEN mp, OF ok1]
       registration_roles [THEN conjunct2, THEN conjunct1, THEN mp, OF ok2]
       registration_roles [THEN conjunct2, THEN conjunct2, THEN conjunct1, THEN mp, OF ok3]
       1 2 3
  show ?thesis by simp
qed

end
